theory Spec2Isabelle
  imports Main "HOL-Library.Sublist"
begin

section \<open>Go errors\<close>

text \<open>
  A Go \<open>error\<close> value. The two typed errors of package \<open>aws/cloudformation\<close> carry the
  text their \<open>Error()\<close> method returns; \<open>WrapError msg e\<close> is the value built by
  \<open>fmt.Errorf\<close> with a \<open>%w\<close> verb: its text is \<open>msg\<close> and \<open>Unwrap\<close> gives \<open>e\<close>.
  A nil error is \<open>None\<close> of \<open>goerror option\<close>.
\<close>

datatype goerror =
    ErrorString string
  | ErrStackAlreadyExists string
  | ErrStackNotFound string
  | WrapError string goerror

fun Error :: "goerror \<Rightarrow> string" where
  "Error (ErrorString m) = m"
| "Error (ErrStackAlreadyExists m) = m"
| "Error (ErrStackNotFound m) = m"
| "Error (WrapError m e) = m"

fun Unwrap :: "goerror \<Rightarrow> goerror option" where
  "Unwrap (WrapError m e) = Some e"
| "Unwrap e = None"

text \<open>\<open>errors.As(err, &target)\<close> for a target of type \<open>*ErrStackAlreadyExists\<close>.\<close>

fun errors_As_ErrStackAlreadyExists :: "goerror \<Rightarrow> bool" where
  "errors_As_ErrStackAlreadyExists (ErrStackAlreadyExists m) = True"
| "errors_As_ErrStackAlreadyExists (WrapError m e) = errors_As_ErrStackAlreadyExists e"
| "errors_As_ErrStackAlreadyExists e = False"

text \<open>\<open>errors.As(err, &target)\<close> for a target of type \<open>*ErrStackNotFound\<close>.\<close>

fun errors_As_ErrStackNotFound :: "goerror \<Rightarrow> bool" where
  "errors_As_ErrStackNotFound (ErrStackNotFound m) = True"
| "errors_As_ErrStackNotFound (WrapError m e) = errors_As_ErrStackNotFound e"
| "errors_As_ErrStackNotFound e = False"

text \<open>\<open>errors.Is(err, target)\<close>: the target is \<open>err\<close> or is reached from it by \<open>Unwrap\<close>.\<close>

fun errors_Is :: "goerror \<Rightarrow> goerror \<Rightarrow> bool" where
  "errors_Is (WrapError m e) t = (WrapError m e = t \<or> errors_Is e t)"
| "errors_Is e t = (e = t)"

section \<open>Deploying a service stack\<close>

text \<open>A stack event as \<open>ErrorEvents\<close> returns it; only \<open>StatusReason\<close> is read.\<close>

record ResourceEvent =
  LogicalName :: string
  Type :: string
  Status :: string
  StatusReason :: string

text \<open>
  The receiver \<open>CloudFormation\<close> with what \<open>DeployService\<close> calls on it. \<open>toStack\<close> and
  \<open>ErrorEvents\<close> belong to the same package but their bodies are not part of the sources
  at hand, and \<open>cfnClient\<close> is an interface, so each is a field. \<open>'w\<close> is the state of
  the control plane, which every call may read and change.
\<close>

record ('conf, 'stack, 'w) CloudFormation =
  toStack :: "'conf \<Rightarrow> goerror + 'stack"
  cfnClient_CreateAndWait :: "'stack \<Rightarrow> 'w \<Rightarrow> goerror option \<times> 'w"
  cfnClient_UpdateAndWait :: "'stack \<Rightarrow> 'w \<Rightarrow> goerror option \<times> 'w"
  ErrorEvents :: "'conf \<Rightarrow> 'w \<Rightarrow> (goerror + ResourceEvent list) \<times> 'w"

text \<open>The calls made on the control plane, logged in the order they are made.\<close>

datatype ('conf, 'stack) cfn_call =
    CreateAndWait 'stack
  | UpdateAndWait 'stack
  | DescribeErrorEvents 'conf

type_synonym ('conf, 'stack, 'w) cfn_state = "'w \<times> ('conf, 'stack) cfn_call list"

definition doCreateAndWait ::
  "('conf, 'stack, 'w) CloudFormation \<Rightarrow> 'stack \<Rightarrow> ('conf, 'stack, 'w) cfn_state
    \<Rightarrow> goerror option \<times> ('conf, 'stack, 'w) cfn_state" where
  "doCreateAndWait cf stack s =
     (case cfnClient_CreateAndWait cf stack (fst s) of
        (r, w') \<Rightarrow> (r, (w', snd s @ [CreateAndWait stack])))"

definition doUpdateAndWait ::
  "('conf, 'stack, 'w) CloudFormation \<Rightarrow> 'stack \<Rightarrow> ('conf, 'stack, 'w) cfn_state
    \<Rightarrow> goerror option \<times> ('conf, 'stack, 'w) cfn_state" where
  "doUpdateAndWait cf stack s =
     (case cfnClient_UpdateAndWait cf stack (fst s) of
        (r, w') \<Rightarrow> (r, (w', snd s @ [UpdateAndWait stack])))"

definition doErrorEvents ::
  "('conf, 'stack, 'w) CloudFormation \<Rightarrow> 'conf \<Rightarrow> ('conf, 'stack, 'w) cfn_state
    \<Rightarrow> (goerror + ResourceEvent list) \<times> ('conf, 'stack, 'w) cfn_state" where
  "doErrorEvents cf conf s =
     (case ErrorEvents cf conf (fst s) of
        (r, w') \<Rightarrow> (r, (w', snd s @ [DescribeErrorEvents conf])))"

definition handleStackError ::
  "('conf, 'stack, 'w) CloudFormation \<Rightarrow> 'conf \<Rightarrow> goerror option
    \<Rightarrow> ('conf, 'stack, 'w) cfn_state \<Rightarrow> goerror option \<times> ('conf, 'stack, 'w) cfn_state" where
  "handleStackError cf conf err s =
     (case err of
        None \<Rightarrow> (None, s)
      | Some e \<Rightarrow>
          (case doErrorEvents cf conf s of
             (Inl describeErr, s1) \<Rightarrow>
               (Some (WrapError (Error e @ '': describe stack: '' @ Error describeErr) e), s1)
           | (Inr errors, s1) \<Rightarrow>
               (case errors of
                  [] \<Rightarrow> (Some e, s1)
                | ev # evs \<Rightarrow> (Some (WrapError (Error e @ '': '' @ StatusReason ev) e), s1))))"

definition DeployService ::
  "('conf, 'stack, 'w) CloudFormation \<Rightarrow> 'conf \<Rightarrow> ('stack \<Rightarrow> 'stack) list
    \<Rightarrow> ('conf, 'stack, 'w) cfn_state \<Rightarrow> goerror option \<times> ('conf, 'stack, 'w) cfn_state" where
  "DeployService cf conf opts s =
     (case toStack cf conf of
        Inl err \<Rightarrow> (Some err, s)
      | Inr stack0 \<Rightarrow>
          (let stack = foldl (\<lambda>st opt. opt st) stack0 opts in
           case doCreateAndWait cf stack s of
             (None, s1) \<Rightarrow> (None, s1)
           | (Some err, s1) \<Rightarrow>
               if \<not> errors_As_ErrStackAlreadyExists err
               then handleStackError cf conf (Some err) s1
               else (case doUpdateAndWait cf stack s1 of
                       (err2, s2) \<Rightarrow> handleStackError cf conf err2 s2)))"

section \<open>Go strings\<close>

abbreviation NL :: char where
  "NL \<equiv> CHR 0x0A"

text \<open>\<open>strings.Index\<close>: the position of the first occurrence, \<open>None\<close> for \<open>-1\<close>.\<close>

fun Index :: "string \<Rightarrow> string \<Rightarrow> nat option" where
  "Index [] substr = (if substr = [] then Some 0 else None)"
| "Index (c # cs) substr =
     (if prefix substr (c # cs) then Some 0 else map_option Suc (Index cs substr))"

definition Contains :: "string \<Rightarrow> string \<Rightarrow> bool" where
  "Contains s substr = (Index s substr \<noteq> None)"

text \<open>
  \<open>strings.Split\<close>: the pieces between the non-overlapping occurrences of \<open>sep\<close>, found
  from the left; a string without \<open>sep\<close> is its only piece. An empty \<open>sep\<close> splits after
  every character (bytes here, UTF-8 sequences in Go).
\<close>

function Split :: "string \<Rightarrow> string \<Rightarrow> string list" where
  "Split s sep =
     (if sep = [] then map (\<lambda>c. [c]) s
      else case Index s sep of
             None \<Rightarrow> [s]
           | Some m \<Rightarrow> take m s # Split (drop (m + length sep) s) sep)"
  by pat_completeness auto
termination
proof (relation "measure (\<lambda>(s, sep). length s)")
  show "wf (measure (\<lambda>(s, sep). length s))"
    by simp
next
  fix s sep :: string and m :: nat
  assume sep: "sep \<noteq> []" and idx: "Index s sep = Some m"
  have "Index t sep = Some k \<Longrightarrow> k + length sep \<le> length t" for t k
  proof (induction t arbitrary: k)
    case Nil
    then show ?case using sep by simp
  next
    case (Cons c cs)
    then show ?case
      by (auto dest: prefix_length_le split: if_splits)
  qed
  from this [OF idx] sep
  show "((drop (m + length sep) s, sep), (s, sep)) \<in> measure (\<lambda>(s, sep). length s)"
    by (cases sep) auto
qed

declare Split.simps [simp del]

text \<open>\<open>strings.Join\<close>.\<close>

fun Join :: "string list \<Rightarrow> string \<Rightarrow> string" where
  "Join [] sep = []"
| "Join [a] sep = a"
| "Join (a # b # bs) sep = a @ sep @ Join (b # bs) sep"

section \<open>Shared data of the environment commands\<close>

text \<open>
  The records of package \<open>config\<close> that the commands read or write: the VPC settings
  of an environment, the environment and the application.
\<close>

record ImportVPC =
  ID :: string
  PublicSubnetIDs :: "string list"
  PrivateSubnetIDs :: "string list"

record AdjustVPC =
  CIDR :: string
  PublicSubnetCIDRs :: "string list"
  PrivateSubnetCIDRs :: "string list"

record CustomizeEnv =
  ImportVPCConfig :: "ImportVPC option"
  VPCConfig :: "AdjustVPC option"

record Environment =
  App :: string
  Name :: string
  Region :: string
  AccountID :: string
  Prod :: bool
  ManagerRoleARN :: string
  ExecutionRoleARN :: string
  CustomConfig :: "CustomizeEnv option"

record Application =
  AppName :: string
  AppAccountID :: string
  Domain :: string
  AppTags :: "(string \<times> string) list"

text \<open>
  What a command object holds while it runs: the two names it was given, the state
  \<open>'w\<close> of everything outside the process (control plane, IAM, configuration store), and
  the log of the calls made on its collaborators, oldest first.
\<close>

record ('w, 'c) cmdOpts =
  appName :: string
  name :: string
  world :: 'w
  calls :: "'c list"

definition logCall :: "'c \<Rightarrow> ('w, 'c, 'z) cmdOpts_scheme \<Rightarrow> ('w, 'c, 'z) cmdOpts_scheme" where
  "logCall c opts = opts\<lparr>calls := calls opts @ [c]\<rparr>"

text \<open>The result of a function that can panic.\<close>

datatype outcome = Returns "goerror option" | Panics

section \<open>Deleting an environment\<close>

record Tag =
  Key :: string
  Value :: string

record ResourceTagMapping =
  ResourceARN :: string
  Tags :: "Tag list"

record GetResourcesInput =
  ResourceTypeFilters :: "string list"
  TagFilters :: "(string \<times> string list) list"

text \<open>The text given to \<open>prog.Stop\<close>: built by \<open>log.Serrorf\<close> or by \<open>log.Ssuccessf\<close>.\<close>

datatype progress_text = Serror string | Ssuccess string

datatype delete_call =
    GetResources GetResourcesInput
  | EnvironmentTemplate string string
  | UpdateEnvironmentTemplate string string string string
  | DeleteEnvironmentStack string string string
  | DeleteRole string
  | StoreGetEnvironment string string
  | StoreDeleteEnvironment string string
  | ProgStart string
  | ProgStop progress_text

record 'w deleteEnvOpts = "('w, delete_call) cmdOpts" +
  envConfig :: "Environment option"

text \<open>
  The collaborators of \<open>deleteEnvOpts\<close> (interfaces in the source) and the three tag keys
  of package \<open>deploy\<close>, whose values are declared outside the sources at hand.
  \<open>initRuntimeClients\<close> is the function field of the same name.
\<close>

record 'w deleteEnvDeps =
  ServiceTagKey :: string
  EnvTagKey :: string
  AppTagKey :: string
  initRuntimeClients :: "'w deleteEnvOpts \<Rightarrow> goerror option \<times> 'w deleteEnvOpts"
  rg_GetResources :: "GetResourcesInput \<Rightarrow> 'w \<Rightarrow> (goerror + ResourceTagMapping list) \<times> 'w"
  deployer_EnvironmentTemplate :: "string \<Rightarrow> string \<Rightarrow> 'w \<Rightarrow> (goerror + string) \<times> 'w"
  deployer_UpdateEnvironmentTemplate ::
    "string \<Rightarrow> string \<Rightarrow> string \<Rightarrow> string \<Rightarrow> 'w \<Rightarrow> goerror option \<times> 'w"
  deployer_DeleteEnvironment :: "string \<Rightarrow> string \<Rightarrow> string \<Rightarrow> 'w \<Rightarrow> goerror option \<times> 'w"
  iam_DeleteRole :: "string \<Rightarrow> 'w \<Rightarrow> goerror option \<times> 'w"
  store_GetEnvironment :: "string \<Rightarrow> string \<Rightarrow> 'w \<Rightarrow> (goerror + Environment) \<times> 'w"
  store_DeleteEnvironment :: "string \<Rightarrow> string \<Rightarrow> 'w \<Rightarrow> goerror option \<times> 'w"

text \<open>Each call on a collaborator is logged, and its effect on the outside is kept.\<close>

definition doGetResources ::
  "'w deleteEnvDeps \<Rightarrow> GetResourcesInput \<Rightarrow> 'w deleteEnvOpts
    \<Rightarrow> (goerror + ResourceTagMapping list) \<times> 'w deleteEnvOpts" where
  "doGetResources d inp opts =
     (case rg_GetResources d inp (world opts) of
        (r, w') \<Rightarrow> (r, (logCall (GetResources inp) opts)\<lparr>world := w'\<rparr>))"

definition doEnvironmentTemplate ::
  "'w deleteEnvDeps \<Rightarrow> string \<Rightarrow> string \<Rightarrow> 'w deleteEnvOpts
    \<Rightarrow> (goerror + string) \<times> 'w deleteEnvOpts" where
  "doEnvironmentTemplate d a n opts =
     (case deployer_EnvironmentTemplate d a n (world opts) of
        (r, w') \<Rightarrow> (r, (logCall (EnvironmentTemplate a n) opts)\<lparr>world := w'\<rparr>))"

definition doUpdateEnvironmentTemplate ::
  "'w deleteEnvDeps \<Rightarrow> string \<Rightarrow> string \<Rightarrow> string \<Rightarrow> string \<Rightarrow> 'w deleteEnvOpts
    \<Rightarrow> goerror option \<times> 'w deleteEnvOpts" where
  "doUpdateEnvironmentTemplate d a n body arn opts =
     (case deployer_UpdateEnvironmentTemplate d a n body arn (world opts) of
        (r, w') \<Rightarrow> (r, (logCall (UpdateEnvironmentTemplate a n body arn) opts)\<lparr>world := w'\<rparr>))"

definition doDeleteEnvironment ::
  "'w deleteEnvDeps \<Rightarrow> string \<Rightarrow> string \<Rightarrow> string \<Rightarrow> 'w deleteEnvOpts
    \<Rightarrow> goerror option \<times> 'w deleteEnvOpts" where
  "doDeleteEnvironment d a n arn opts =
     (case deployer_DeleteEnvironment d a n arn (world opts) of
        (r, w') \<Rightarrow> (r, (logCall (DeleteEnvironmentStack a n arn) opts)\<lparr>world := w'\<rparr>))"

definition doDeleteRole ::
  "'w deleteEnvDeps \<Rightarrow> string \<Rightarrow> 'w deleteEnvOpts \<Rightarrow> goerror option \<times> 'w deleteEnvOpts" where
  "doDeleteRole d arn opts =
     (case iam_DeleteRole d arn (world opts) of
        (r, w') \<Rightarrow> (r, (logCall (DeleteRole arn) opts)\<lparr>world := w'\<rparr>))"

definition doStoreGetEnvironment ::
  "'w deleteEnvDeps \<Rightarrow> string \<Rightarrow> string \<Rightarrow> 'w deleteEnvOpts
    \<Rightarrow> (goerror + Environment) \<times> 'w deleteEnvOpts" where
  "doStoreGetEnvironment d a n opts =
     (case store_GetEnvironment d a n (world opts) of
        (r, w') \<Rightarrow> (r, (logCall (StoreGetEnvironment a n) opts)\<lparr>world := w'\<rparr>))"

definition doStoreDeleteEnvironment ::
  "'w deleteEnvDeps \<Rightarrow> string \<Rightarrow> string \<Rightarrow> 'w deleteEnvOpts
    \<Rightarrow> goerror option \<times> 'w deleteEnvOpts" where
  "doStoreDeleteEnvironment d a n opts =
     (case store_DeleteEnvironment d a n (world opts) of
        (r, w') \<Rightarrow> (r, (logCall (StoreDeleteEnvironment a n) opts)\<lparr>world := w'\<rparr>))"

definition fmtDeleteEnvStart :: "string \<Rightarrow> string \<Rightarrow> string" where
  "fmtDeleteEnvStart n a = ''Deleting environment '' @ n @ '' from application '' @ a @ ''.''"

definition fmtDeleteEnvFailed :: "string \<Rightarrow> string \<Rightarrow> string" where
  "fmtDeleteEnvFailed n a =
     ''Failed to delete environment '' @ n @ '' from application '' @ a @ ''.'' @ [NL]"

definition fmtDeleteEnvComplete :: "string \<Rightarrow> string \<Rightarrow> string" where
  "fmtDeleteEnvComplete n a =
     ''Deleted environment '' @ n @ '' from application '' @ a @ ''.'' @ [NL]"

definition getEnvConfig ::
  "'w deleteEnvDeps \<Rightarrow> 'w deleteEnvOpts \<Rightarrow> (goerror + Environment) \<times> 'w deleteEnvOpts" where
  "getEnvConfig d opts =
     (case envConfig opts of
        Some env \<Rightarrow> (Inr env, opts)
      | None \<Rightarrow>
          (case doStoreGetEnvironment d (appName opts) (name opts) opts of
             (Inl err, o1) \<Rightarrow>
               (Inl (ErrorString (''get environment '' @ name opts @ '' configuration from app ''
                       @ appName opts @ '': '' @ Error err)), o1)
           | (Inr env, o1) \<Rightarrow> (Inr env, o1\<lparr>envConfig := Some env\<rparr>)))"

definition validateNoRunningServices ::
  "'w deleteEnvDeps \<Rightarrow> 'w deleteEnvOpts \<Rightarrow> goerror option \<times> 'w deleteEnvOpts" where
  "validateNoRunningServices d opts =
     (case doGetResources d
             \<lparr> ResourceTypeFilters = [''cloudformation''],
               TagFilters = [(ServiceTagKey d, []), (EnvTagKey d, [name opts]),
                             (AppTagKey d, [appName opts])] \<rparr> opts of
        (Inl err, o1) \<Rightarrow>
          (Some (WrapError (''find service cloudformation stacks: '' @ Error err) err), o1)
      | (Inr stacks, o1) \<Rightarrow>
          if length stacks > 0 then
            (let svcNames =
                   concat (map (\<lambda>cfnStack.
                     map Value (filter (\<lambda>t. Key t = ServiceTagKey d) (Tags cfnStack))) stacks)
             in (Some (ErrorString (''service '' @ [CHR 0x27] @ Join svcNames '', '' @ [CHR 0x27]
                         @ '' still exist within the environment '' @ name o1)), o1))
          else (None, o1))"

definition ensureRolesAreRetained ::
  "'w deleteEnvDeps \<Rightarrow> 'w deleteEnvOpts \<Rightarrow> outcome \<times> 'w deleteEnvOpts" where
  "ensureRolesAreRetained d opts =
     (case doEnvironmentTemplate d (appName opts) (name opts) opts of
        (Inl err, o1) \<Rightarrow>
          if errors_As_ErrStackNotFound err then (Returns None, o1)
          else (Returns (Some (ErrorString (''get template body for environment '' @ name o1
                  @ '' in application '' @ appName o1 @ '': '' @ Error err))), o1)
      | (Inr body, o1) \<Rightarrow>
          (let retainsExecRole = Contains body
                 ([NL] @ ''  CloudformationExecutionRole:'' @ [NL] @ ''    DeletionPolicy: Retain'');
               retainsManagerRole = Contains body
                 ([NL] @ ''  EnvironmentManagerRole:'' @ [NL] @ ''    DeletionPolicy: Retain'')
           in if retainsExecRole \<and> retainsManagerRole then (Returns None, o1)
              else
                (case (if \<not> retainsExecRole
                       then (case Split body (''  CloudformationExecutionRole:'' @ [NL]) of
                               p0 # p1 # ps \<Rightarrow>
                                 Some (p0 @ ''  CloudformationExecutionRole:'' @ [NL]
                                   @ ''    DeletionPolicy: Retain'' @ [NL] @ p1)
                             | _ \<Rightarrow> None)
                       else Some body) of
                   None \<Rightarrow> (Panics, o1)
                 | Some newBody1 \<Rightarrow>
                     (case (if \<not> retainsManagerRole
                            then (case Split newBody1 (''  EnvironmentManagerRole:'' @ [NL]) of
                                    p0 # p1 # ps \<Rightarrow>
                                      Some (p0 @ ''  EnvironmentManagerRole:'' @ [NL]
                                        @ ''    DeletionPolicy: Retain'' @ [NL] @ p1)
                                  | _ \<Rightarrow> None)
                            else Some newBody1) of
                        None \<Rightarrow> (Panics, o1)
                      | Some newBody \<Rightarrow>
                          (case getEnvConfig d o1 of
                             (Inl err, o2) \<Rightarrow> (Returns (Some err), o2)
                           | (Inr env, o2) \<Rightarrow>
                               (case doUpdateEnvironmentTemplate d (appName o2) (name o2) newBody
                                       (ExecutionRoleARN env) o2 of
                                  (Some err, o3) \<Rightarrow>
                                    (Returns (Some (WrapError
                                       (''update environment stack to retain environment roles: ''
                                          @ Error err) err)), o3)
                                | (None, o3) \<Rightarrow> (Returns None, o3)))))))"

definition deleteStack ::
  "'w deleteEnvDeps \<Rightarrow> 'w deleteEnvOpts \<Rightarrow> goerror option \<times> 'w deleteEnvOpts" where
  "deleteStack d opts =
     (case getEnvConfig d opts of
        (Inl err, o1) \<Rightarrow> (Some err, o1)
      | (Inr env, o1) \<Rightarrow>
          (case doDeleteEnvironment d (appName o1) (name o1) (ExecutionRoleARN env) o1 of
             (Some err, o2) \<Rightarrow>
               (Some (WrapError (''delete environment '' @ name o2 @ '' stack: '' @ Error err) err), o2)
           | (None, o2) \<Rightarrow> (None, o2)))"

definition deleteRoles ::
  "'w deleteEnvDeps \<Rightarrow> 'w deleteEnvOpts \<Rightarrow> goerror option \<times> 'w deleteEnvOpts" where
  "deleteRoles d opts =
     (case getEnvConfig d opts of
        (Inl err, o1) \<Rightarrow> (Some err, o1)
      | (Inr env, o1) \<Rightarrow>
          (case doDeleteRole d (ExecutionRoleARN env) o1 of
             (Some err, o2) \<Rightarrow>
               (Some (WrapError (''delete role '' @ ExecutionRoleARN env @ '': '' @ Error err) err), o2)
           | (None, o2) \<Rightarrow>
               (case doDeleteRole d (ManagerRoleARN env) o2 of
                  (Some err, o3) \<Rightarrow>
                    (Some (WrapError (''delete role '' @ ManagerRoleARN env @ '': '' @ Error err) err), o3)
                | (None, o3) \<Rightarrow> (None, o3))))"

definition deleteFromStore ::
  "'w deleteEnvDeps \<Rightarrow> 'w deleteEnvOpts \<Rightarrow> goerror option \<times> 'w deleteEnvOpts" where
  "deleteFromStore d opts =
     (case doStoreDeleteEnvironment d (appName opts) (name opts) opts of
        (Some err, o1) \<Rightarrow>
          (Some (ErrorString (''delete environment '' @ name o1 @ '' configuration from application ''
                   @ appName o1)), o1)
      | (None, o1) \<Rightarrow> (None, o1))"

definition startProgress :: "'w deleteEnvOpts \<Rightarrow> 'w deleteEnvOpts" where
  "startProgress opts = logCall (ProgStart (fmtDeleteEnvStart (name opts) (appName opts))) opts"

definition stopComplete :: "'w deleteEnvOpts \<Rightarrow> 'w deleteEnvOpts" where
  "stopComplete opts =
     logCall (ProgStop (Ssuccess (fmtDeleteEnvComplete (name opts) (appName opts)))) opts"

definition stopFailed :: "'w deleteEnvOpts \<Rightarrow> 'w deleteEnvOpts" where
  "stopFailed opts = logCall (ProgStop (Serror (fmtDeleteEnvFailed (name opts) (appName opts)))) opts"

definition Execute :: "'w deleteEnvDeps \<Rightarrow> 'w deleteEnvOpts \<Rightarrow> outcome \<times> 'w deleteEnvOpts" where
  "Execute d opts =
     (case initRuntimeClients d opts of
        (Some err, o0) \<Rightarrow> (Returns (Some err), o0)
      | (None, o0) \<Rightarrow>
     (case validateNoRunningServices d o0 of
        (Some err, o1) \<Rightarrow> (Returns (Some err), o1)
      | (None, o1) \<Rightarrow>
     (case ensureRolesAreRetained d (startProgress o1) of
        (Panics, o2) \<Rightarrow> (Panics, o2)
      | (Returns (Some err), o2) \<Rightarrow> (Returns (Some err), stopFailed o2)
      | (Returns None, o2) \<Rightarrow>
     (case deleteStack d o2 of
        (Some err, o3) \<Rightarrow> (Returns (Some err), stopFailed o3)
      | (None, o3) \<Rightarrow>
     (case deleteRoles d o3 of
        (Some err, o4) \<Rightarrow> (Returns (Some err), stopFailed o4)
      | (None, o4) \<Rightarrow>
     (case deleteFromStore d o4 of
        (Some err, o5) \<Rightarrow> (Returns (Some err), stopFailed o5)
      | (None, o5) \<Rightarrow> (Returns None, stopComplete o5)))))))"

section \<open>Initialising an environment\<close>

text \<open>
  \<open>importVPCVars\<close> and \<open>adjustVPCVars\<close>, the flags of the command. The \<open>CIDR\<close> of the
  second is a \<open>net.IPNet\<close>: \<open>None\<close> stands for the empty one, \<open>Some c\<close> for one whose
  \<open>String()\<close> is \<open>c\<close>.
\<close>

record importVPCVars =
  varsID :: string
  varsPublicSubnetIDs :: "string list"
  varsPrivateSubnetIDs :: "string list"

record adjustVPCVars =
  varsCIDR :: "string option"
  varsPublicSubnetCIDRs :: "string list"
  varsPrivateSubnetCIDRs :: "string list"

definition importVPCVars_isSet :: "importVPCVars \<Rightarrow> bool" where
  "importVPCVars_isSet v =
     (if varsID v \<noteq> [] then True
      else length (varsPublicSubnetIDs v) > 0 \<or> length (varsPrivateSubnetIDs v) > 0)"

definition adjustVPCVars_isSet :: "adjustVPCVars \<Rightarrow> bool" where
  "adjustVPCVars_isSet v =
     (if varsCIDR v \<noteq> None then True
      else length (varsPublicSubnetCIDRs v) \<noteq> 0 \<or> length (varsPrivateSubnetCIDRs v) \<noteq> 0)"

text \<open>\<open>identity.Caller\<close> and \<open>deploy.CreateEnvironmentInput\<close>.\<close>

record Caller =
  Account :: string
  RootUserARN :: string

record CreateEnvironmentInput =
  inName :: string
  inAppName :: string
  inProd :: bool
  ToolsAccountPrincipalARN :: string
  AppDNSName :: string
  AdditionalTags :: "(string \<times> string) list"
  AdjustVPCConfig :: "AdjustVPC option"
  inImportVPCConfig :: "ImportVPC option"
  Version :: string

datatype init_call =
    StoreGetApplication string
  | EnvIdentityGet
  | IdentityGet
  | DelegateDNSPermissions Application string
  | DeployEnvironment CreateEnvironmentInput
  | StreamEnvironmentCreation CreateEnvironmentInput
  | DeployerGetEnvironment string string
  | AddEnvToApp Application Environment
  | StoreCreateEnvironment Environment
  | ProgressStart string
  | ProgressStop progress_text
  | ProgressEvents "string list"
  | LogSuccessf string

record 'w initEnvOpts = "('w, init_call) cmdOpts" +
  isProduction :: bool
  defaultConfig :: bool
  importVPC :: importVPCVars
  adjustVPC :: adjustVPCVars

text \<open>
  The collaborators of \<open>initEnvOpts\<close>. The stream of \<open>StreamEnvironmentCreation\<close> is the
  list of event batches its first channel delivers and the error of the response its
  second channel delivers. Declared outside the sources at hand and taken as given:
  \<open>Application.RequiresDNSDelegation\<close>, \<open>config.NewCustomizeEnv\<close>,
  \<open>deploy.LatestEnvTemplateVersion\<close>, the two colour functions, and the rendering of
  \<open>termprogress.HumanizeResourceEvents\<close> behind \<open>humanizeEnvironmentEvents\<close> (given
  whether a VPC is imported).
\<close>

record 'w initEnvDeps =
  store_GetApplication :: "string \<Rightarrow> 'w \<Rightarrow> (goerror + Application) \<times> 'w"
  store_CreateEnvironment :: "Environment \<Rightarrow> 'w \<Rightarrow> goerror option \<times> 'w"
  envIdentity_Get :: "'w \<Rightarrow> (goerror + Caller) \<times> 'w"
  identity_Get :: "'w \<Rightarrow> (goerror + Caller) \<times> 'w"
  appDeployer_DelegateDNSPermissions :: "Application \<Rightarrow> string \<Rightarrow> 'w \<Rightarrow> goerror option \<times> 'w"
  appDeployer_AddEnvToApp :: "Application \<Rightarrow> Environment \<Rightarrow> 'w \<Rightarrow> goerror option \<times> 'w"
  envDeployer_DeployEnvironment :: "CreateEnvironmentInput \<Rightarrow> 'w \<Rightarrow> goerror option \<times> 'w"
  envDeployer_StreamEnvironmentCreation ::
    "CreateEnvironmentInput \<Rightarrow> 'w \<Rightarrow> (ResourceEvent list list \<times> goerror option) \<times> 'w"
  envDeployer_GetEnvironment :: "string \<Rightarrow> string \<Rightarrow> 'w \<Rightarrow> (goerror + Environment) \<times> 'w"
  RequiresDNSDelegation :: "Application \<Rightarrow> bool"
  NewCustomizeEnv :: "ImportVPC option \<Rightarrow> AdjustVPC option \<Rightarrow> CustomizeEnv option"
  LatestEnvTemplateVersion :: string
  HighlightUserInput :: "string \<Rightarrow> string"
  Emphasize :: "string \<Rightarrow> string"
  humanizeEnvironmentEvents :: "bool \<Rightarrow> ResourceEvent list \<Rightarrow> string list"

definition doGetApplication ::
  "'w initEnvDeps \<Rightarrow> string \<Rightarrow> 'w initEnvOpts \<Rightarrow> (goerror + Application) \<times> 'w initEnvOpts" where
  "doGetApplication d a opts =
     (case store_GetApplication d a (world opts) of
        (r, w') \<Rightarrow> (r, (logCall (StoreGetApplication a) opts)\<lparr>world := w'\<rparr>))"

definition doCreateEnvironment ::
  "'w initEnvDeps \<Rightarrow> Environment \<Rightarrow> 'w initEnvOpts \<Rightarrow> goerror option \<times> 'w initEnvOpts" where
  "doCreateEnvironment d env opts =
     (case store_CreateEnvironment d env (world opts) of
        (r, w') \<Rightarrow> (r, (logCall (StoreCreateEnvironment env) opts)\<lparr>world := w'\<rparr>))"

definition doEnvIdentityGet ::
  "'w initEnvDeps \<Rightarrow> 'w initEnvOpts \<Rightarrow> (goerror + Caller) \<times> 'w initEnvOpts" where
  "doEnvIdentityGet d opts =
     (case envIdentity_Get d (world opts) of
        (r, w') \<Rightarrow> (r, (logCall EnvIdentityGet opts)\<lparr>world := w'\<rparr>))"

definition doIdentityGet ::
  "'w initEnvDeps \<Rightarrow> 'w initEnvOpts \<Rightarrow> (goerror + Caller) \<times> 'w initEnvOpts" where
  "doIdentityGet d opts =
     (case identity_Get d (world opts) of
        (r, w') \<Rightarrow> (r, (logCall IdentityGet opts)\<lparr>world := w'\<rparr>))"

definition doDelegateDNSPermissions ::
  "'w initEnvDeps \<Rightarrow> Application \<Rightarrow> string \<Rightarrow> 'w initEnvOpts \<Rightarrow> goerror option \<times> 'w initEnvOpts" where
  "doDelegateDNSPermissions d app account opts =
     (case appDeployer_DelegateDNSPermissions d app account (world opts) of
        (r, w') \<Rightarrow> (r, (logCall (DelegateDNSPermissions app account) opts)\<lparr>world := w'\<rparr>))"

definition doAddEnvToApp ::
  "'w initEnvDeps \<Rightarrow> Application \<Rightarrow> Environment \<Rightarrow> 'w initEnvOpts
    \<Rightarrow> goerror option \<times> 'w initEnvOpts" where
  "doAddEnvToApp d app env opts =
     (case appDeployer_AddEnvToApp d app env (world opts) of
        (r, w') \<Rightarrow> (r, (logCall (AddEnvToApp app env) opts)\<lparr>world := w'\<rparr>))"

definition doDeployEnvironment ::
  "'w initEnvDeps \<Rightarrow> CreateEnvironmentInput \<Rightarrow> 'w initEnvOpts
    \<Rightarrow> goerror option \<times> 'w initEnvOpts" where
  "doDeployEnvironment d inp opts =
     (case envDeployer_DeployEnvironment d inp (world opts) of
        (r, w') \<Rightarrow> (r, (logCall (DeployEnvironment inp) opts)\<lparr>world := w'\<rparr>))"

definition doStreamEnvironmentCreation ::
  "'w initEnvDeps \<Rightarrow> CreateEnvironmentInput \<Rightarrow> 'w initEnvOpts
    \<Rightarrow> (ResourceEvent list list \<times> goerror option) \<times> 'w initEnvOpts" where
  "doStreamEnvironmentCreation d inp opts =
     (case envDeployer_StreamEnvironmentCreation d inp (world opts) of
        (r, w') \<Rightarrow> (r, (logCall (StreamEnvironmentCreation inp) opts)\<lparr>world := w'\<rparr>))"

definition doGetEnvironment ::
  "'w initEnvDeps \<Rightarrow> string \<Rightarrow> string \<Rightarrow> 'w initEnvOpts
    \<Rightarrow> (goerror + Environment) \<times> 'w initEnvOpts" where
  "doGetEnvironment d a n opts =
     (case envDeployer_GetEnvironment d a n (world opts) of
        (r, w') \<Rightarrow> (r, (logCall (DeployerGetEnvironment a n) opts)\<lparr>world := w'\<rparr>))"

definition importVPCConfig :: "'w initEnvOpts \<Rightarrow> ImportVPC option" where
  "importVPCConfig opts =
     (if defaultConfig opts \<or> \<not> importVPCVars_isSet (importVPC opts) then None
      else Some \<lparr> ID = varsID (importVPC opts),
                  PublicSubnetIDs = varsPublicSubnetIDs (importVPC opts),
                  PrivateSubnetIDs = varsPrivateSubnetIDs (importVPC opts) \<rparr>)"

definition adjustVPCConfig :: "'w initEnvOpts \<Rightarrow> AdjustVPC option" where
  "adjustVPCConfig opts =
     (if defaultConfig opts \<or> \<not> adjustVPCVars_isSet (adjustVPC opts) then None
      else Some \<lparr> CIDR = (case varsCIDR (adjustVPC opts) of None \<Rightarrow> ''<nil>'' | Some c \<Rightarrow> c),
                  PublicSubnetCIDRs = varsPublicSubnetCIDRs (adjustVPC opts),
                  PrivateSubnetCIDRs = varsPrivateSubnetCIDRs (adjustVPC opts) \<rparr>)"

definition delegateDNSFromApp ::
  "'w initEnvDeps \<Rightarrow> Application \<Rightarrow> 'w initEnvOpts \<Rightarrow> goerror option \<times> 'w initEnvOpts" where
  "delegateDNSFromApp d app opts =
     (case doEnvIdentityGet d opts of
        (Inl err, o1) \<Rightarrow>
          (Some (WrapError (''getting environment account ID for DNS Delegation: '' @ Error err) err), o1)
      | (Inr envAccount, o1) \<Rightarrow>
          if Account envAccount = AppAccountID app then (None, o1)
          else
            (case doDelegateDNSPermissions d app (Account envAccount)
                    (logCall (ProgressStart (''Sharing DNS permissions for this application to account ''
                       @ HighlightUserInput d (Account envAccount) @ ''.'')) o1) of
               (Some err, o2) \<Rightarrow>
                 (Some err, logCall (ProgressStop (Serror (''Failed to grant DNS permissions to account ''
                    @ HighlightUserInput d (Account envAccount) @ ''.'' @ [NL, NL]))) o2)
             | (None, o2) \<Rightarrow>
                 (None, logCall (ProgressStop (Ssuccess
                    (''Shared DNS permissions for this application to account ''
                       @ HighlightUserInput d (Account envAccount) @ ''.'' @ [NL, NL]))) o2)))"

definition deployEnv ::
  "'w initEnvDeps \<Rightarrow> Application \<Rightarrow> 'w initEnvOpts \<Rightarrow> goerror option \<times> 'w initEnvOpts" where
  "deployEnv d app opts =
     (case doIdentityGet d opts of
        (Inl err, o1) \<Rightarrow> (Some (WrapError (''get identity: '' @ Error err) err), o1)
      | (Inr caller, o1) \<Rightarrow>
          (let deployEnvInput =
                 \<lparr> inName = name o1, inAppName = appName o1, inProd = isProduction o1,
                   ToolsAccountPrincipalARN = RootUserARN caller, AppDNSName = Domain app,
                   AdditionalTags = AppTags app, AdjustVPCConfig = adjustVPCConfig o1,
                   inImportVPCConfig = importVPCConfig o1,
                   Version = LatestEnvTemplateVersion d \<rparr>
           in case doDeployEnvironment d deployEnvInput
                     (logCall (ProgressStart (''Proposing infrastructure changes for the ''
                        @ HighlightUserInput d (name o1) @ '' environment.'')) o1) of
                (Some err, o2) \<Rightarrow>
                  if errors_As_ErrStackAlreadyExists err
                  then (None, logCall (ProgressStop (Ssuccess (''Environment ''
                          @ HighlightUserInput d (name o2) @ '' already exists in application ''
                          @ HighlightUserInput d (appName o2) @ ''.'' @ [NL, NL]))) o2)
                  else (Some err, logCall (ProgressStop (Serror
                          (''Failed to accept changes for the '' @ HighlightUserInput d (name o2)
                             @ '' environment.'' @ [NL, NL]))) o2)
              | (None, o2) \<Rightarrow>
                  (case doStreamEnvironmentCreation d deployEnvInput
                          (logCall (ProgressStart (''Creating the infrastructure for the ''
                             @ HighlightUserInput d (name o2) @ '' environment.'')) o2) of
                     ((stackEvents, respErr), o3) \<Rightarrow>
                       (let o4 = foldl (\<lambda>s stackEvent. logCall (ProgressEvents
                                   (humanizeEnvironmentEvents d
                                      (importVPCVars_isSet (importVPC s)) stackEvent)) s)
                                   o3 stackEvents
                        in case respErr of
                             Some err \<Rightarrow>
                               (Some err, logCall (ProgressStop (Serror
                                  (''Failed to create the infrastructure for the ''
                                     @ HighlightUserInput d (name o4) @ '' environment.'' @ [NL]))) o4)
                           | None \<Rightarrow>
                               (None, logCall (ProgressStop (Ssuccess
                                  (''Created the infrastructure for the ''
                                     @ HighlightUserInput d (name o4) @ '' environment.'' @ [NL]))) o4)))))"

definition addToStackset ::
  "'w initEnvDeps \<Rightarrow> Application \<Rightarrow> Environment \<Rightarrow> 'w initEnvOpts
    \<Rightarrow> goerror option \<times> 'w initEnvOpts" where
  "addToStackset d app env opts =
     (case doAddEnvToApp d app env
             (logCall (ProgressStart (''Linking account '' @ Emphasize d (AccountID env)
                @ '' and region '' @ Emphasize d (Region env) @ '' to application ''
                @ HighlightUserInput d (appName opts) @ ''.'')) opts) of
        (Some err, o1) \<Rightarrow>
          (Some (WrapError (''deploy env '' @ Name env @ '' to application '' @ AppName app
                   @ '': '' @ Error err) err),
           logCall (ProgressStop (Serror (''Failed to link account '' @ Emphasize d (AccountID env)
             @ '' and region '' @ Emphasize d (Region env) @ '' to application ''
             @ HighlightUserInput d (appName o1) @ ''.'' @ [NL, NL]))) o1)
      | (None, o1) \<Rightarrow>
          (None, logCall (ProgressStop (Ssuccess (''Linked account '' @ Emphasize d (AccountID env)
             @ '' and region '' @ Emphasize d (Region env) @ '' to application ''
             @ HighlightUserInput d (appName o1) @ ''.'' @ [NL, NL]))) o1))"

text \<open>
  \<open>initEnvOpts.Execute\<close>. Creating the two clients when they are unset makes no call and
  cannot fail; the clients are the fields of the collaborators here.
\<close>

definition initEnvOpts_Execute ::
  "'w initEnvDeps \<Rightarrow> 'w initEnvOpts \<Rightarrow> goerror option \<times> 'w initEnvOpts" where
  "initEnvOpts_Execute d opts =
     (case doGetApplication d (appName opts) opts of
        (Inl err, o1) \<Rightarrow> (Some err, o1)
      | (Inr app, o1) \<Rightarrow>
     (case (if RequiresDNSDelegation d app then delegateDNSFromApp d app o1 else (None, o1)) of
        (Some err, o2) \<Rightarrow> (Some (WrapError (''granting DNS permissions: '' @ Error err) err), o2)
      | (None, o2) \<Rightarrow>
     (case deployEnv d app o2 of
        (Some err, o3) \<Rightarrow> (Some err, o3)
      | (None, o3) \<Rightarrow>
     (case doGetEnvironment d (appName o3) (name o3) o3 of
        (Inl err, o4) \<Rightarrow>
          (Some (WrapError (''get environment struct for '' @ name o4 @ '': '' @ Error err) err), o4)
      | (Inr env0, o4) \<Rightarrow>
          (let env = env0\<lparr> Prod := isProduction o4,
                            CustomConfig := NewCustomizeEnv d (importVPCConfig o4) (adjustVPCConfig o4) \<rparr>
           in
     (case addToStackset d app env o4 of
        (Some err, o5) \<Rightarrow> (Some err, o5)
      | (None, o5) \<Rightarrow>
     (case doCreateEnvironment d env o5 of
        (Some err, o6) \<Rightarrow> (Some (WrapError (''store environment: '' @ Error err) err), o6)
      | (None, o6) \<Rightarrow>
          (None, logCall (LogSuccessf (''Created environment '' @ HighlightUserInput d (Name env)
             @ '' in region '' @ Emphasize d (Region env) @ '' under application ''
             @ HighlightUserInput d (App env) @ ''.'' @ [NL])) o6))))))))"

section \<open>The environment controller\<close>

text \<open>
  Modelled from the spec: the handler of the environment controller
  (\<open>cf-custom-resources/lib/env-controller.js\<close>) is not among the sources; only its test
  suite is. The data below follows section 3 of the specification, with the field names
  the test suite uses (\<open>EnvStack\<close>, \<open>Workload\<close>, \<open>Parameters\<close>).
\<close>

record ResourceProperties =
  EnvStack :: string
  Workload :: string
  Parameters :: "string list"

record CustomResourceRequest =
  RequestType :: string
  RequestId :: string
  ResponseURL :: string
  StackId :: string
  LogicalResourceId :: string
  Properties :: ResourceProperties

datatype response_status = SUCCESS | FAILED

record CustomResourceResponse =
  respStatus :: response_status
  respReason :: string
  respPhysicalResourceId :: string
  respStackId :: string
  respRequestId :: string
  respLogicalResourceId :: string
  respData :: "(string \<times> string) list"

text \<open>
  A stack as \<open>describeStacks\<close> returns it: parameters and outputs are lists of key and
  value. The request of \<open>updateStack\<close>.
\<close>

record StackDescription =
  StackName :: string
  StackParameters :: "(string \<times> string) list"
  Outputs :: "(string \<times> string) list"

record UpdateStackInput =
  updStackName :: string
  updParameters :: "(string \<times> string) list"
  UsePreviousTemplate :: bool

text \<open>
  An error of \<open>updateStack\<close>, with its message: the rejection because another update is
  in progress on the stack, or any other error.
\<close>

datatype update_error = UpdateInProgress string | OtherUpdateError string

text \<open>
  The control plane as the handler uses it, on a state \<open>'w\<close>. \<open>describeStacks\<close> and
  \<open>waitFor\<close> fail with a message.
\<close>

record 'w cfnApi =
  describeStacks :: "string \<Rightarrow> 'w \<Rightarrow> (string + StackDescription list) \<times> 'w"
  updateStack :: "UpdateStackInput \<Rightarrow> 'w \<Rightarrow> update_error option \<times> 'w"
  waitFor :: "string \<Rightarrow> string \<Rightarrow> 'w \<Rightarrow> string option \<times> 'w"

datatype handler_call =
    DescribeStacks string
  | UpdateStack UpdateStackInput
  | WaitFor string string
  | PutResponse string CustomResourceResponse

type_synonym 'w handler_state = "'w \<times> handler_call list"

definition doDescribeStacks ::
  "'w cfnApi \<Rightarrow> string \<Rightarrow> 'w handler_state \<Rightarrow> (string + StackDescription list) \<times> 'w handler_state" where
  "doDescribeStacks api stackName s =
     (case describeStacks api stackName (fst s) of
        (r, w') \<Rightarrow> (r, (w', snd s @ [DescribeStacks stackName])))"

definition doUpdateStack ::
  "'w cfnApi \<Rightarrow> UpdateStackInput \<Rightarrow> 'w handler_state \<Rightarrow> update_error option \<times> 'w handler_state" where
  "doUpdateStack api inp s =
     (case updateStack api inp (fst s) of
        (r, w') \<Rightarrow> (r, (w', snd s @ [UpdateStack inp])))"

definition doWaitFor ::
  "'w cfnApi \<Rightarrow> string \<Rightarrow> string \<Rightarrow> 'w handler_state \<Rightarrow> string option \<times> 'w handler_state" where
  "doWaitFor api state stackName s =
     (case waitFor api state stackName (fst s) of
        (r, w') \<Rightarrow> (r, (w', snd s @ [WaitFor state stackName])))"

text \<open>
  Modelled from the spec: the recomputation of one membership parameter (section 9 asks
  for a pure function of the current value, the workload name and the operation). The
  value is a comma-joined set: its names are the non-empty pieces between commas, each
  kept once, in the order of their first occurrence. Update adds the workload name if it
  is not a member, Delete removes it. For Create the specification's sentence names only
  Update as adding, but the repository's test \<open>unexpected update stack error\<close> sends a
  Create request for \<open>mockWorkload\<close> on \<open>my-app,my-other-app\<close> and requires the update call
  to carry \<open>my-app,my-other-app,mockWorkload\<close>: Create adds, as Update does.
\<close>

definition setAdd :: "string list \<Rightarrow> string \<Rightarrow> string list" where
  "setAdd names n = (if n \<in> set names then names else names @ [n])"

definition setDelete :: "string list \<Rightarrow> string \<Rightarrow> string list" where
  "setDelete names n = filter (\<lambda>m. m \<noteq> n) names"

definition parseSet :: "string \<Rightarrow> string list" where
  "parseSet v = foldl setAdd [] (filter (\<lambda>n. n \<noteq> []) (Split v '',''))"

definition updateSet :: "string \<Rightarrow> string \<Rightarrow> string list \<Rightarrow> string list" where
  "updateSet requestType workload names =
     (if requestType = ''Create'' \<or> requestType = ''Update'' then setAdd names workload
      else if requestType = ''Delete'' then setDelete names workload
      else names)"

definition recompute :: "string \<Rightarrow> string \<Rightarrow> string \<Rightarrow> string" where
  "recompute currentValue workloadName op = Join (updateSet op workloadName (parseSet currentValue)) '',''"

text \<open>
  Modelled from the spec: the named parameters are recomputed, every other parameter of
  the stack keeps its value.
\<close>

definition recomputeParameters ::
  "string \<Rightarrow> string \<Rightarrow> string list \<Rightarrow> (string \<times> string) list \<Rightarrow> (string \<times> string) list" where
  "recomputeParameters op workloadName parameterNames params =
     map (\<lambda>(k, v). if k \<in> set parameterNames then (k, recompute v workloadName op) else (k, v)) params"

text \<open>How one run of the read-recompute-update loop ends.\<close>

datatype control_result = Outputs_of "(string \<times> string) list" | Fails string | DeadlineExpired

text \<open>
  Modelled from the spec: the loop of section 4.2. Each attempt reads the stack afresh;
  an empty answer means the stack cannot be found; unchanged parameters end the run with
  the outputs just read, without an update call; otherwise the update is sent with the
  previous template. A rejection because an update is in progress is answered by
  waiting for that update and a new attempt; any other error is terminal. After an
  accepted update the handler waits for it to complete and reads the stack's current
  outputs. The first argument counts the attempts that fit before the invocation's
  deadline. What happens when a wait or a read fails is not specified (section 9 leaves
  the failing wait open): here the failure's message ends the run.
\<close>

fun controlEnv ::
  "'w cfnApi \<Rightarrow> nat \<Rightarrow> string \<Rightarrow> string \<Rightarrow> string \<Rightarrow> string list \<Rightarrow> 'w handler_state
    \<Rightarrow> control_result \<times> 'w handler_state" where
  "controlEnv api 0 op stackName workload parameterNames s = (DeadlineExpired, s)"
| "controlEnv api (Suc n) op stackName workload parameterNames s =
     (case doDescribeStacks api stackName s of
        (Inl msg, s1) \<Rightarrow> (Fails msg, s1)
      | (Inr [], s1) \<Rightarrow> (Fails (''Cannot find environment stack '' @ stackName), s1)
      | (Inr (stack # others), s1) \<Rightarrow>
          (let newParams = recomputeParameters op workload parameterNames (StackParameters stack)
           in if newParams = StackParameters stack then (Outputs_of (Outputs stack), s1)
              else
                (case doUpdateStack api
                        \<lparr> updStackName = stackName, updParameters = newParams,
                          UsePreviousTemplate = True \<rparr> s1 of
                   (Some (UpdateInProgress msg), s2) \<Rightarrow>
                     (case doWaitFor api ''stackUpdateComplete'' stackName s2 of
                        (Some msg, s3) \<Rightarrow> (Fails msg, s3)
                      | (None, s3) \<Rightarrow> controlEnv api n op stackName workload parameterNames s3)
                 | (Some (OtherUpdateError msg), s2) \<Rightarrow> (Fails msg, s2)
                 | (None, s2) \<Rightarrow>
                     (case doWaitFor api ''stackUpdateComplete'' stackName s2 of
                        (Some msg, s3) \<Rightarrow> (Fails msg, s3)
                      | (None, s3) \<Rightarrow>
                          (case doDescribeStacks api stackName s3 of
                             (Inl msg, s4) \<Rightarrow> (Fails msg, s4)
                           | (Inr [], s4) \<Rightarrow>
                               (Fails (''Cannot find environment stack '' @ stackName), s4)
                           | (Inr (updated # others), s4) \<Rightarrow>
                               (Outputs_of (Outputs updated), s4))))))"

text \<open>
  The invocation's context: the number of attempts that fit before its deadline, the
  reason reported when the deadline fires, and the physical resource id of the response;
  the specification fixes none of the three.
\<close>

record InvocationContext =
  attempts :: nat
  deadlineReason :: string
  physicalResourceId :: string

definition respond ::
  "InvocationContext \<Rightarrow> CustomResourceRequest \<Rightarrow> response_status \<Rightarrow> string
    \<Rightarrow> (string \<times> string) list \<Rightarrow> 'w handler_state \<Rightarrow> 'w handler_state" where
  "respond ctx request status reason data s =
     (fst s, snd s @ [PutResponse (ResponseURL request)
        \<lparr> respStatus = status, respReason = reason,
          respPhysicalResourceId = physicalResourceId ctx, respStackId = StackId request,
          respRequestId = RequestId request, respLogicalResourceId = LogicalResourceId request,
          respData = data \<rparr>])"

text \<open>
  Modelled from the spec: the handler. An unsupported request type is answered at once;
  otherwise the loop runs and its end is reported. Every path ends with exactly one PUT
  of the response to the request's \<open>ResponseURL\<close>.
\<close>

definition handler ::
  "'w cfnApi \<Rightarrow> InvocationContext \<Rightarrow> CustomResourceRequest \<Rightarrow> 'w handler_state \<Rightarrow> 'w handler_state" where
  "handler api ctx request s =
     (if RequestType request \<noteq> ''Create'' \<and> RequestType request \<noteq> ''Update''
         \<and> RequestType request \<noteq> ''Delete''
      then respond ctx request FAILED (''Unsupported request type '' @ RequestType request) [] s
      else
        (case controlEnv api (attempts ctx) (RequestType request)
                (EnvStack (Properties request)) (Workload (Properties request))
                (Parameters (Properties request)) s of
           (Outputs_of outputs, s1) \<Rightarrow> respond ctx request SUCCESS [] outputs s1
         | (Fails msg, s1) \<Rightarrow> respond ctx request FAILED msg [] s1
         | (DeadlineExpired, s1) \<Rightarrow> respond ctx request FAILED (deadlineReason ctx) [] s1))"

section \<open>Vocabulary of the properties\<close>

subsection \<open>The delete sequence\<close>

text \<open>
  The step of the delete sequence a logged call belongs to: 1 the check for workload
  stacks, 2 the retain-policy self-heal, 3 the deletion of the stack, 4 the deletion of
  the roles, 5 the removal of the stored record; 0 for reads of the stored configuration
  and for progress output, which belong to no step.
\<close>

fun stepOf :: "delete_call \<Rightarrow> nat" where
  "stepOf (GetResources i) = 1"
| "stepOf (EnvironmentTemplate a n) = 2"
| "stepOf (UpdateEnvironmentTemplate a n b r) = 2"
| "stepOf (DeleteEnvironmentStack a n r) = 3"
| "stepOf (DeleteRole r) = 4"
| "stepOf (StoreDeleteEnvironment a n) = 5"
| "stepOf (StoreGetEnvironment a n) = 0"
| "stepOf (ProgStart m) = 0"
| "stepOf (ProgStop m) = 0"

fun isUpdateEnvironmentTemplate :: "delete_call \<Rightarrow> bool" where
  "isUpdateEnvironmentTemplate (UpdateEnvironmentTemplate a n b r) = True"
| "isUpdateEnvironmentTemplate c = False"

text \<open>The calls logged after the state \<open>o0\<close>, up to the state \<open>o1\<close>.\<close>

definition callsSince :: "('w, 'c, 'y) cmdOpts_scheme \<Rightarrow> ('w, 'c, 'z) cmdOpts_scheme \<Rightarrow> 'c list" where
  "callsSince o0 o1 = drop (length (calls o0)) (calls o1)"

text \<open>The steps run between two states, in the order of their calls.\<close>

definition stepsRun :: "('w, delete_call, 'y) cmdOpts_scheme \<Rightarrow> ('w, delete_call, 'z) cmdOpts_scheme \<Rightarrow> nat list" where
  "stepsRun o0 o1 = filter (\<lambda>k. 0 < k) (map stepOf (callsSince o0 o1))"

text \<open>
  The lines of the template that \<open>ensureRolesAreRetained\<close> looks for and writes: the
  line that declares a role, and the deletion policy line that follows it.
\<close>

definition execRoleLine :: string where
  "execRoleLine = ''  CloudformationExecutionRole:'' @ [NL]"

definition managerRoleLine :: string where
  "managerRoleLine = ''  EnvironmentManagerRole:'' @ [NL]"

definition retainLine :: string where
  "retainLine = ''    DeletionPolicy: Retain'' @ [NL]"

text \<open>The test of \<open>ensureRolesAreRetained\<close> that a role is retained already.\<close>

definition retainsRole :: "string \<Rightarrow> string \<Rightarrow> bool" where
  "retainsRole body roleLine = Contains body ([NL] @ roleLine @ ''    DeletionPolicy: Retain'')"

text \<open>The request \<open>validateNoRunningServices\<close> sends.\<close>

definition serviceStacksQuery :: "'w deleteEnvDeps \<Rightarrow> 'w deleteEnvOpts \<Rightarrow> GetResourcesInput" where
  "serviceStacksQuery d opts =
     \<lparr> ResourceTypeFilters = [''cloudformation''],
       TagFilters = [(ServiceTagKey d, []), (EnvTagKey d, [name opts]),
                     (AppTagKey d, [appName opts])] \<rparr>"

text \<open>The values of the service tags of the stacks found, stack by stack.\<close>

definition serviceNames :: "'w deleteEnvDeps \<Rightarrow> ResourceTagMapping list \<Rightarrow> string list" where
  "serviceNames d stacks =
     concat (map (\<lambda>cfnStack. map Value (filter (\<lambda>t. Key t = ServiceTagKey d) (Tags cfnStack))) stacks)"

text \<open>
  Two relations between states of a run, used to follow the log: \<open>extends k\<close> says
  that only calls of step \<open>k\<close> (or of no step) were added and the names were kept;
  \<open>upto k\<close> says that the calls added belong to steps up to \<open>k\<close> and that their steps
  never decrease. \<open>insertRetain\<close> and \<open>pushTemplate\<close> name the two halves of
  \<open>ensureRolesAreRetained\<close>: writing the policy line after a role's line, and sending
  the new template.
\<close>

definition extends :: "nat \<Rightarrow> 'w deleteEnvOpts \<Rightarrow> 'w deleteEnvOpts \<Rightarrow> bool" where
  "extends k o1 o2 = (\<exists>xs. calls o2 = calls o1 @ xs \<and> set (map stepOf xs) \<subseteq> {0, k}
      \<and> appName o2 = appName o1 \<and> name o2 = name o1)"

definition upto :: "nat \<Rightarrow> 'w deleteEnvOpts \<Rightarrow> 'w deleteEnvOpts \<Rightarrow> bool" where
  "upto k o0 o1 = (\<exists>xs. calls o1 = calls o0 @ xs \<and> sorted (filter (\<lambda>k. 0 < k) (map stepOf xs))
      \<and> set (map stepOf xs) \<subseteq> {0..k})"

definition insertRetain :: "string \<Rightarrow> string \<Rightarrow> string option" where
  "insertRetain roleLine body =
     (case Split body roleLine of
        p0 # p1 # ps \<Rightarrow> Some (p0 @ roleLine @ retainLine @ p1)
      | _ \<Rightarrow> None)"

definition pushTemplate :: "'w deleteEnvDeps \<Rightarrow> string \<Rightarrow> 'w deleteEnvOpts \<Rightarrow> outcome \<times> 'w deleteEnvOpts" where
  "pushTemplate d newBody o1 =
     (case getEnvConfig d o1 of
        (Inl err, o2) \<Rightarrow> (Returns (Some err), o2)
      | (Inr env, o2) \<Rightarrow>
          (case doUpdateEnvironmentTemplate d (appName o2) (name o2) newBody
                  (ExecutionRoleARN env) o2 of
             (Some err, o3) \<Rightarrow>
               (Returns (Some (WrapError
                  (''update environment stack to retain environment roles: '' @ Error err) err)), o3)
           | (None, o3) \<Rightarrow> (Returns None, o3)))"

text \<open>
  \<open>noUpdate\<close> says that the calls added between two states update no template.
\<close>

definition noUpdate :: "'w deleteEnvOpts \<Rightarrow> 'w deleteEnvOpts \<Rightarrow> bool" where
  "noUpdate o1 o2 = (\<exists>ys. calls o2 = calls o1 @ ys \<and> filter isUpdateEnvironmentTemplate ys = [])"

fun isDeleteEnvironmentStack :: "delete_call \<Rightarrow> bool" where
  "isDeleteEnvironmentStack (DeleteEnvironmentStack a n r) = True"
| "isDeleteEnvironmentStack c = False"
subsection \<open>The init sequence\<close>

text \<open>
  The calls of a run that reach a collaborator (\<open>remoteCalls\<close>), as opposed to what it
  writes to the terminal, and among them the calls that store the environment
  (\<open>persisted\<close>), both counted between two states. \<open>recordToPersist\<close> is the record
  \<open>Execute\<close> completes before it registers and stores it, and \<open>deployEnvInput\<close> the input
  \<open>deployEnv\<close> builds for the deployment.
\<close>

fun isStoreCreateEnvironment :: "init_call \<Rightarrow> bool" where
  "isStoreCreateEnvironment (StoreCreateEnvironment env) = True"
| "isStoreCreateEnvironment c = False"

definition persisted :: "'w initEnvOpts \<Rightarrow> 'w initEnvOpts \<Rightarrow> init_call list" where
  "persisted o1 o2 = filter isStoreCreateEnvironment (callsSince o1 o2)"

definition recordToPersist :: "'w initEnvDeps \<Rightarrow> 'w initEnvOpts \<Rightarrow> Environment \<Rightarrow> Environment" where
  "recordToPersist d opts env0 =
     env0\<lparr> Prod := isProduction opts,
           CustomConfig := NewCustomizeEnv d (importVPCConfig opts) (adjustVPCConfig opts) \<rparr>"

fun isRemoteCall :: "init_call \<Rightarrow> bool" where
  "isRemoteCall (ProgressStart m) = False"
| "isRemoteCall (ProgressStop t) = False"
| "isRemoteCall (ProgressEvents rows) = False"
| "isRemoteCall (LogSuccessf m) = False"
| "isRemoteCall c = True"

definition remoteCalls :: "'w initEnvOpts \<Rightarrow> 'w initEnvOpts \<Rightarrow> init_call list" where
  "remoteCalls o1 o2 = filter isRemoteCall (callsSince o1 o2)"

definition deployEnvInput ::
  "'w initEnvDeps \<Rightarrow> Application \<Rightarrow> Caller \<Rightarrow> 'w initEnvOpts \<Rightarrow> CreateEnvironmentInput" where
  "deployEnvInput d app caller opts =
     \<lparr> inName = name opts, inAppName = appName opts, inProd = isProduction opts,
       ToolsAccountPrincipalARN = RootUserARN caller, AppDNSName = Domain app,
       AdditionalTags = AppTags app, AdjustVPCConfig = adjustVPCConfig opts,
       inImportVPCConfig = importVPCConfig opts,
       Version = LatestEnvTemplateVersion d \<rparr>"

text \<open>
  \<open>dnsDelegated d app w1 ds w2\<close>: started in \<open>w1\<close>, the delegation of the DNS permissions
  needed for \<open>app\<close> succeeds with the collaborator calls \<open>ds\<close> and ends in \<open>w2\<close>. Either
  the application requires none; or the environment's account is the application's own;
  or the permissions are delegated to the environment's account without an error.
\<close>

definition dnsDelegated ::
  "'w initEnvDeps \<Rightarrow> Application \<Rightarrow> 'w \<Rightarrow> init_call list \<Rightarrow> 'w \<Rightarrow> bool" where
  "dnsDelegated d app w1 ds w2 =
     (if \<not> RequiresDNSDelegation d app then ds = [] \<and> w2 = w1
      else case envIdentity_Get d w1 of
             (Inl e, wi) \<Rightarrow> False
           | (Inr envAccount, wi) \<Rightarrow>
               if Account envAccount = AppAccountID app then ds = [EnvIdentityGet] \<and> w2 = wi
               else ds = [EnvIdentityGet, DelegateDNSPermissions app (Account envAccount)]
                  \<and> appDeployer_DelegateDNSPermissions d app (Account envAccount) wi = (None, w2))"


subsection \<open>The environment controller\<close>

text \<open>
  Names as a comma-joined value can hold them as a set: each once, none empty, none with
  a comma.
\<close>

definition wellFormedNames :: "string list \<Rightarrow> bool" where
  "wellFormedNames names = (distinct names \<and> list_all (\<lambda>n. n \<noteq> [] \<and> CHR '','' \<notin> set n) names)"

fun isUpdateStack :: "handler_call \<Rightarrow> bool" where
  "isUpdateStack (UpdateStack inp) = True"
| "isUpdateStack c = False"

section \<open>Example collaborators\<close>

text \<open>A control plane whose create fails and whose event lookup fails too.\<close>

definition cfLookupFails :: "(unit, unit, unit) CloudFormation" where
  "cfLookupFails =
     \<lparr> toStack = (\<lambda>c. Inr ()),
       cfnClient_CreateAndWait = (\<lambda>st w. (Some (ErrorString ''create failed''), w)),
       cfnClient_UpdateAndWait = (\<lambda>st w. (None, w)),
       ErrorEvents = (\<lambda>c w. (Inl (ErrorString ''throttled''), w)) \<rparr>"

text \<open>A control plane on which the stack exists already, and accepts the update.\<close>

definition cfStackExists :: "(string, string, unit) CloudFormation" where
  "cfStackExists =
     \<lparr> toStack = (\<lambda>c. Inr (c @ ''-stack'')),
       cfnClient_CreateAndWait = (\<lambda>st w.
         (Some (WrapError ''create: stack exists'' (ErrStackAlreadyExists ''stack exists'')), w)),
       cfnClient_UpdateAndWait = (\<lambda>st w. (None, w)),
       ErrorEvents = (\<lambda>c w. (Inr [], w)) \<rparr>"

text \<open>The values of the tests of \<open>deleteEnvOpts.Execute\<close>.\<close>

definition testEnvironment :: Environment where
  "testEnvironment =
     \<lparr> App = ''phonetool'', Name = ''test'', Region = ''us-west-2'', AccountID = ''1234567890'',
       Prod = False, ManagerRoleARN = ''managerRoleARN'', ExecutionRoleARN = ''execARN'',
       CustomConfig = None \<rparr>"

definition testDeleteOpts :: "unit deleteEnvOpts" where
  "testDeleteOpts =
     \<lparr> appName = ''phonetool'', name = ''test'', world = (), calls = [],
       envConfig = Some testEnvironment \<rparr>"

definition mockDeleteDeps ::
  "ResourceTagMapping list \<Rightarrow> goerror + string \<Rightarrow> unit deleteEnvDeps" where
  "mockDeleteDeps stacks template =
     \<lparr> ServiceTagKey = ''copilot-service'', EnvTagKey = ''copilot-environment'',
       AppTagKey = ''copilot-application'',
       initRuntimeClients = (\<lambda>opts. (None, opts)),
       rg_GetResources = (\<lambda>inp w. (Inr stacks, w)),
       deployer_EnvironmentTemplate = (\<lambda>a n w. (template, w)),
       deployer_UpdateEnvironmentTemplate = (\<lambda>a n b arn w. (None, w)),
       deployer_DeleteEnvironment = (\<lambda>a n arn w. (None, w)),
       iam_DeleteRole = (\<lambda>arn w. (None, w)),
       store_GetEnvironment = (\<lambda>a n w. (Inr testEnvironment, w)),
       store_DeleteEnvironment = (\<lambda>a n w. (None, w)) \<rparr>"

definition runningServices :: "ResourceTagMapping list" where
  "runningServices =
     [\<lparr> ResourceARN = ''arn:stack'',
        Tags = [\<lparr> Key = ''copilot-service'', Value = ''frontend'' \<rparr>,
                \<lparr> Key = ''copilot-service'', Value = ''backend'' \<rparr>] \<rparr>]"

definition retainedTemplate :: string where
  "retainedTemplate =
     [NL] @ ''  CloudformationExecutionRole:'' @ [NL] @ ''    DeletionPolicy: Retain'' @ [NL]
       @ ''  EnvironmentManagerRole:'' @ [NL] @ ''    DeletionPolicy: Retain''"

definition legacyTemplate :: string where
  "legacyTemplate =
     [NL] @ ''  CloudformationExecutionRole:'' @ [NL] @ ''  EnvironmentManagerRole:'' @ [NL]"

definition healedTemplate :: string where
  "healedTemplate =
     [NL] @ ''  CloudformationExecutionRole:'' @ [NL] @ ''    DeletionPolicy: Retain'' @ [NL]
       @ ''  EnvironmentManagerRole:'' @ [NL] @ ''    DeletionPolicy: Retain'' @ [NL]"

text \<open>A template that declares a cluster and neither role.\<close>

definition templateWithoutRoles :: string where
  "templateWithoutRoles =
     ''Resources:'' @ [NL] @ ''  Cluster:'' @ [NL] @ ''    Type: AWS::ECS::Cluster'' @ [NL]"

definition stackGone :: goerror where
  "stackGone = WrapError ''get template: stack phonetool-test not found''
                 (ErrStackNotFound ''stack phonetool-test not found'')"

text \<open>An application without a domain and collaborators that succeed.\<close>

definition testApplication :: Application where
  "testApplication =
     \<lparr> AppName = ''phonetool'', AppAccountID = ''1234567890'', Domain = [], AppTags = [] \<rparr>"

definition testInitOpts :: "unit initEnvOpts" where
  "testInitOpts =
     \<lparr> appName = ''phonetool'', name = ''test'', world = (), calls = [],
       isProduction = False, defaultConfig = True,
       importVPC = \<lparr> varsID = [], varsPublicSubnetIDs = [], varsPrivateSubnetIDs = [] \<rparr>,
       adjustVPC = \<lparr> varsCIDR = None, varsPublicSubnetCIDRs = [], varsPrivateSubnetCIDRs = [] \<rparr> \<rparr>"

definition mockInitDeps :: "goerror option \<Rightarrow> unit initEnvDeps" where
  "mockInitDeps deployResult =
     \<lparr> store_GetApplication = (\<lambda>a w. (Inr testApplication, w)),
       store_CreateEnvironment = (\<lambda>env w. (None, w)),
       envIdentity_Get = (\<lambda>w. (Inr \<lparr> Account = ''1234567890'', RootUserARN = ''arn:root'' \<rparr>, w)),
       identity_Get = (\<lambda>w. (Inr \<lparr> Account = ''1234567890'', RootUserARN = ''arn:root'' \<rparr>, w)),
       appDeployer_DelegateDNSPermissions = (\<lambda>app acc w. (None, w)),
       appDeployer_AddEnvToApp = (\<lambda>app env w. (None, w)),
       envDeployer_DeployEnvironment = (\<lambda>inp w. (deployResult, w)),
       envDeployer_StreamEnvironmentCreation = (\<lambda>inp w. (([], None), w)),
       envDeployer_GetEnvironment = (\<lambda>a n w. (Inr testEnvironment, w)),
       RequiresDNSDelegation = (\<lambda>app. Domain app \<noteq> []),
       NewCustomizeEnv = (\<lambda>i a. if i = None \<and> a = None then None
                                  else Some \<lparr> ImportVPCConfig = i, VPCConfig = a \<rparr>),
       LatestEnvTemplateVersion = ''v1.0.0'',
       HighlightUserInput = (\<lambda>s. s),
       Emphasize = (\<lambda>s. s),
       humanizeEnvironmentEvents = (\<lambda>imported evs. map LogicalName evs) \<rparr>"

definition stackExists :: goerror where
  "stackExists = ErrStackAlreadyExists ''stack phonetool-test already exists''"

text \<open>
  The deployment input of that command for that application, and a deployment error
  other than an existing stack.
\<close>

definition testInput :: CreateEnvironmentInput where
  "testInput =
     \<lparr> inName = ''test'', inAppName = ''phonetool'', inProd = False,
       ToolsAccountPrincipalARN = ''arn:root'', AppDNSName = [], AdditionalTags = [],
       AdjustVPCConfig = None, inImportVPCConfig = None, Version = ''v1.0.0'' \<rparr>"

definition deployRefused :: goerror where
  "deployRefused = ErrorString ''some deploy error''"


text \<open>
  The values of the handler's test suite. Of the update calls made on \<open>mockApi\<close>, the
  first ones are rejected with the errors given, in their order; later ones succeed.
\<close>

definition testParams :: "(string \<times> string) list" where
  "testParams = [(''ALBWorkloads'', ''my-app,my-other-app'')]"

definition testOutputs :: "(string \<times> string) list" where
  "testOutputs = [(''CFNExecutionRoleARN'', ''arn:aws:iam::1234567890:role/my-project-prod-CFNExecutionRole'')]"

definition testStack :: StackDescription where
  "testStack = \<lparr> StackName = ''mockEnvStack'', StackParameters = testParams, Outputs = testOutputs \<rparr>"

definition mockApi :: "StackDescription list \<Rightarrow> update_error list \<Rightarrow> nat cfnApi" where
  "mockApi stacks errs =
     \<lparr> describeStacks = (\<lambda>n w. (Inr stacks, w)),
       updateStack = (\<lambda>inp w. (if w < length errs then Some (errs ! w) else None, Suc w)),
       waitFor = (\<lambda>st n w. (None, w)) \<rparr>"

definition testContext :: InvocationContext where
  "testContext = \<lparr> attempts = 5, deadlineReason = ''deadline'', physicalResourceId = ''id'' \<rparr>"

definition testRequest :: "string \<Rightarrow> string \<Rightarrow> CustomResourceRequest" where
  "testRequest rt wl =
     \<lparr> RequestType = rt, RequestId = ''f4ef1b10'', ResponseURL = ''https://example.com/'',
       StackId = ''stack'', LogicalResourceId = ''logical'',
       Properties = \<lparr> EnvStack = ''mockEnvStack'', Workload = wl, Parameters = [''ALBWorkloads''] \<rparr> \<rparr>"

definition inProgress :: update_error where
  "inProgress = UpdateInProgress
     ''Stack mockEnvStack is in UPDATE_IN_PROGRESS state and can not be updated''"

section \<open>Verification: deploying a service stack\<close>

lemma errors_Is_refl: "errors_Is e e"
  by (cases e) simp_all

lemma handleStackError_calls:
  "snd (snd (handleStackError cf conf err s)) =
     (case err of None \<Rightarrow> snd s | Some e \<Rightarrow> snd s @ [DescribeErrorEvents conf])"
  by (simp add: handleStackError_def doErrorEvents_def
      split: option.splits prod.splits sum.splits list.splits)

text \<open>
  C9. Error classification never loses the error it was given. A nil error gives nil and
  no lookup of the stack's events. For a non-nil error \<open>e\<close> the result is non-nil and
  \<open>errors.Is\<close> finds \<open>e\<close> in it: when the lookup of the failure events fails with \<open>d\<close>,
  the result wraps \<open>e\<close> with the text of \<open>e\<close> followed by \<open>: describe stack: \<close> and the
  text of \<open>d\<close>; when there is no failure event the result is \<open>e\<close> itself; otherwise the
  result wraps \<open>e\<close> with the status reason of the first event appended to its text.
\<close>

theorem handleStackError_wraps_original:
  "handleStackError cf conf None s = (None, s)
   \<and> (\<exists>r. fst (handleStackError cf conf (Some e) s) = Some r \<and> errors_Is r e)
   \<and> (\<forall>d. fst (ErrorEvents cf conf (fst s)) = Inl d \<longrightarrow>
          fst (handleStackError cf conf (Some e) s)
            = Some (WrapError (Error e @ '': describe stack: '' @ Error d) e))
   \<and> (fst (ErrorEvents cf conf (fst s)) = Inr [] \<longrightarrow>
          fst (handleStackError cf conf (Some e) s) = Some e)
   \<and> (\<forall>ev evs. fst (ErrorEvents cf conf (fst s)) = Inr (ev # evs) \<longrightarrow>
          fst (handleStackError cf conf (Some e) s)
            = Some (WrapError (Error e @ '': '' @ StatusReason ev) e))"
  by (auto simp add: handleStackError_def doErrorEvents_def errors_Is_refl
      split: prod.splits sum.splits list.splits)

theorem handleStackError_wraps_original_witness:
  "fst (handleStackError cfLookupFails () (Some (ErrorString ''create failed'')) ((), []))
     = Some (WrapError ''create failed: describe stack: throttled'' (ErrorString ''create failed''))"
  using handleStackError_wraps_original
    [of cfLookupFails "()" "((), [])" "ErrorString ''create failed''"]
  by (simp add: cfLookupFails_def)

text \<open>
  C8. When \<open>toStack\<close> turns the configuration into a stack (with the options applied),
  the first call of \<open>DeployService\<close> is create-and-wait on that stack; update-and-wait
  is called if and only if the create failed with an error in which \<open>errors.As\<close> finds
  \<open>ErrStackAlreadyExists\<close>, and its result then goes through \<open>handleStackError\<close>; any
  other create failure goes to \<open>handleStackError\<close> right after the create, with no update
  call; and a create that succeeds returns nil with no further call. When \<open>toStack\<close>
  fails there is no stack, and its error is returned before any call.
\<close>

theorem DeployService_create_then_update:
  "(\<forall>err. toStack cf conf = Inl err \<longrightarrow>
      DeployService cf conf opts (w, []) = (Some err, (w, [])))
 \<and> (\<forall>stack0. toStack cf conf = Inr stack0 \<longrightarrow>
      (let stack = foldl (\<lambda>st opt. opt st) stack0 opts;
           res = DeployService cf conf opts (w, []);
           log = snd (snd res)
       in take 1 log = [CreateAndWait stack]
        \<and> (UpdateAndWait stack \<in> set log \<longleftrightarrow>
             (\<exists>e. fst (cfnClient_CreateAndWait cf stack w) = Some e
                  \<and> errors_As_ErrStackAlreadyExists e))
        \<and> (\<forall>e w1. cfnClient_CreateAndWait cf stack w = (Some e, w1)
                  \<and> \<not> errors_As_ErrStackAlreadyExists e \<longrightarrow>
             res = handleStackError cf conf (Some e) (w1, [CreateAndWait stack])
             \<and> UpdateAndWait stack \<notin> set log)
        \<and> (\<forall>e w1. cfnClient_CreateAndWait cf stack w = (Some e, w1)
                  \<and> errors_As_ErrStackAlreadyExists e \<longrightarrow>
             res = (case cfnClient_UpdateAndWait cf stack w1 of
                      (err2, w2) \<Rightarrow>
                        handleStackError cf conf err2
                          (w2, [CreateAndWait stack, UpdateAndWait stack])))
        \<and> (\<forall>w1. cfnClient_CreateAndWait cf stack w = (None, w1) \<longrightarrow>
             res = (None, (w1, [CreateAndWait stack])))))"
  by (auto simp add: DeployService_def doCreateAndWait_def doUpdateAndWait_def Let_def
      handleStackError_calls split: prod.splits option.splits)

theorem DeployService_create_then_update_witness:
  "DeployService cfStackExists ''svc'' [\<lambda>st. st @ ''+protected''] ((), [])
     = (None, ((), [CreateAndWait ''svc-stack+protected'', UpdateAndWait ''svc-stack+protected'']))"
  using DeployService_create_then_update
    [of cfStackExists "''svc''" "[\<lambda>st. st @ ''+protected'']" "()"]
  by (simp add: cfStackExists_def Let_def handleStackError_def)

section \<open>Verification: deleting an environment\<close>

lemma extends_refl: "extends k opts opts"
  by (simp add: extends_def)

lemma extends_trans: "extends k o1 o2 \<Longrightarrow> extends k o2 o3 \<Longrightarrow> extends k o1 o3"
  unfolding extends_def by fastforce

lemma sorted_constant: "\<forall>x\<in>set xs. x = (c::nat) \<Longrightarrow> sorted xs"
  by (induction xs) auto

lemma extends_logCall: "stepOf c = 0 \<or> stepOf c = k \<Longrightarrow> extends k opts (logCall c opts)"
  by (auto simp add: extends_def logCall_def)

lemma upto_refl: "upto k opts opts"
  by (simp add: upto_def)

lemma upto_extends:
  assumes "upto k o0 o1" and "extends k' o1 o2" and "k \<le> k'"
  shows "upto k' o0 o2"
proof -
  from assms(1) obtain xs where xs: "calls o1 = calls o0 @ xs"
    "sorted (filter (\<lambda>k. 0 < k) (map stepOf xs))" "set (map stepOf xs) \<subseteq> {0..k}"
    by (auto simp add: upto_def)
  from assms(2) obtain ys where ys: "calls o2 = calls o1 @ ys" "set (map stepOf ys) \<subseteq> {0, k'}"
    by (auto simp add: extends_def)
  have "\<forall>y\<in>set (filter (\<lambda>k. 0 < k) (map stepOf ys)). y = k'"
    using ys(2) by auto
  then have "sorted (filter (\<lambda>k. 0 < k) (map stepOf ys))"
    by (rule sorted_constant)
  moreover have "\<forall>x\<in>set (filter (\<lambda>k. 0 < k) (map stepOf xs)).
      \<forall>y\<in>set (filter (\<lambda>k. 0 < k) (map stepOf ys)). x \<le> y"
    using xs(3) ys(2) assms(3) by fastforce
  ultimately have "sorted (filter (\<lambda>k. 0 < k) (map stepOf (xs @ ys)))"
    using xs(2) by (simp add: sorted_append)
  moreover have "set (map stepOf (xs @ ys)) \<subseteq> {0..k'}"
    using xs(3) ys(2) assms(3) by fastforce
  ultimately show ?thesis using xs(1) ys(1) by (auto simp add: upto_def)
qed

lemma getEnvConfig_extends: "extends k opts (snd (getEnvConfig d opts))"
  by (auto simp add: getEnvConfig_def doStoreGetEnvironment_def extends_def logCall_def
      split: option.splits prod.splits sum.splits)

lemma validate_extends: "extends 1 opts (snd (validateNoRunningServices d opts))"
  by (auto simp add: validateNoRunningServices_def doGetResources_def extends_def logCall_def Let_def
      split: prod.splits sum.splits)

lemma deleteStack_extends: "extends 3 opts (snd (deleteStack d opts))"
  using getEnvConfig_extends [of 3 opts d]
  by (auto simp add: deleteStack_def doDeleteEnvironment_def extends_def logCall_def
      split: prod.splits sum.splits option.splits)

lemma deleteRoles_extends: "extends 4 opts (snd (deleteRoles d opts))"
  using getEnvConfig_extends [of 4 opts d]
  by (auto simp add: deleteRoles_def doDeleteRole_def extends_def logCall_def
      split: prod.splits sum.splits option.splits)

lemma deleteFromStore_extends: "extends 5 opts (snd (deleteFromStore d opts))"
  by (auto simp add: deleteFromStore_def doStoreDeleteEnvironment_def extends_def logCall_def
      split: prod.splits sum.splits option.splits)

lemma stopFailed_extends: "extends k opts (stopFailed opts)"
  by (simp add: stopFailed_def extends_logCall)

lemma ensureRolesAreRetained_alt:
  "ensureRolesAreRetained d opts =
     (case doEnvironmentTemplate d (appName opts) (name opts) opts of
        (Inl err, o1) \<Rightarrow>
          if errors_As_ErrStackNotFound err then (Returns None, o1)
          else (Returns (Some (ErrorString (''get template body for environment '' @ name o1
                  @ '' in application '' @ appName o1 @ '': '' @ Error err))), o1)
      | (Inr body, o1) \<Rightarrow>
          if retainsRole body execRoleLine \<and> retainsRole body managerRoleLine
          then (Returns None, o1)
          else (case (if \<not> retainsRole body execRoleLine
                      then insertRetain execRoleLine body else Some body) of
                  None \<Rightarrow> (Panics, o1)
                | Some newBody1 \<Rightarrow>
                    (case (if \<not> retainsRole body managerRoleLine
                           then insertRetain managerRoleLine newBody1 else Some newBody1) of
                       None \<Rightarrow> (Panics, o1)
                     | Some newBody \<Rightarrow> pushTemplate d newBody o1)))"
  unfolding ensureRolesAreRetained_def insertRetain_def pushTemplate_def retainsRole_def
    execRoleLine_def managerRoleLine_def retainLine_def Let_def
  by (simp cong: prod.case_cong sum.case_cong option.case_cong list.case_cong if_cong)

lemma doUpdateEnvironmentTemplate_extends:
  "extends 2 o2 (snd (doUpdateEnvironmentTemplate d a n b arn o2))"
  by (auto simp add: doUpdateEnvironmentTemplate_def extends_def logCall_def split: prod.splits)

lemma pushTemplate_extends: "extends 2 o1 (snd (pushTemplate d nb o1))"
proof -
  obtain r2 o2 where g: "getEnvConfig d o1 = (r2, o2)"
    by (cases "getEnvConfig d o1")
  with getEnvConfig_extends [of 2 o1 d] have e2: "extends 2 o1 o2"
    by simp
  show ?thesis
  proof (cases r2)
    case (Inl err)
    with g e2 show ?thesis by (simp add: pushTemplate_def)
  next
    case (Inr env)
    obtain r3 o3 where u: "doUpdateEnvironmentTemplate d (appName o2) (name o2) nb
        (ExecutionRoleARN env) o2 = (r3, o3)"
      by (cases "doUpdateEnvironmentTemplate d (appName o2) (name o2) nb (ExecutionRoleARN env) o2")
    with doUpdateEnvironmentTemplate_extends [of o2 d "appName o2" "name o2" nb "ExecutionRoleARN env"]
    have "extends 2 o2 o3" by simp
    with e2 have "extends 2 o1 o3" by (rule extends_trans)
    with g Inr u show ?thesis by (simp add: pushTemplate_def split: option.splits)
  qed
qed

lemma ensureRolesAreRetained_extends: "extends 2 opts (snd (ensureRolesAreRetained d opts))"
proof -
  obtain r o1 where t: "doEnvironmentTemplate d (appName opts) (name opts) opts = (r, o1)"
    by (cases "doEnvironmentTemplate d (appName opts) (name opts) opts")
  then have e1: "extends 2 opts o1"
    by (auto simp add: doEnvironmentTemplate_def extends_def logCall_def split: prod.splits)
  have "snd (ensureRolesAreRetained d opts) = o1
      \<or> (\<exists>nb. snd (ensureRolesAreRetained d opts) = snd (pushTemplate d nb o1))"
    using t
    by (auto simp add: ensureRolesAreRetained_alt split: sum.splits option.splits if_splits)
  then show ?thesis
    using e1 pushTemplate_extends by (metis extends_trans)
qed

lemma startProgress_extends: "extends k opts (startProgress opts)"
  by (simp add: startProgress_def extends_logCall)

lemma stopComplete_extends: "extends k opts (stopComplete opts)"
  by (simp add: stopComplete_def extends_logCall)

lemma upto_validate:
  "validateNoRunningServices d o0 = (r1, o1) \<Longrightarrow> upto 1 o0 o1"
  using upto_extends [OF upto_refl [of 0 o0] validate_extends [of o0 d]] by simp

lemma upto_ensure:
  assumes "validateNoRunningServices d o0 = (r1, o1)"
    and "ensureRolesAreRetained d (startProgress o1) = (r2, o2)"
  shows "upto 2 o0 o2"
proof -
  have "upto 1 o0 (startProgress o1)"
    using upto_extends [OF upto_validate [OF assms(1)] startProgress_extends [of 1 o1]] by simp
  from upto_extends [OF this ensureRolesAreRetained_extends [of "startProgress o1" d]] assms(2)
  show ?thesis by simp
qed

lemma upto_deleteStack:
  assumes "validateNoRunningServices d o0 = (r1, o1)"
    and "ensureRolesAreRetained d (startProgress o1) = (r2, o2)"
    and "deleteStack d o2 = (r3, o3)"
  shows "upto 3 o0 o3"
  using upto_extends [OF upto_ensure [OF assms(1,2)] deleteStack_extends [of o2 d]] assms(3)
  by simp

lemma upto_deleteRoles:
  assumes "validateNoRunningServices d o0 = (r1, o1)"
    and "ensureRolesAreRetained d (startProgress o1) = (r2, o2)"
    and "deleteStack d o2 = (r3, o3)"
    and "deleteRoles d o3 = (r4, o4)"
  shows "upto 4 o0 o4"
  using upto_extends [OF upto_deleteStack [OF assms(1,2,3)] deleteRoles_extends [of o3 d]] assms(4)
  by simp

lemma upto_deleteFromStore:
  assumes "validateNoRunningServices d o0 = (r1, o1)"
    and "ensureRolesAreRetained d (startProgress o1) = (r2, o2)"
    and "deleteStack d o2 = (r3, o3)"
    and "deleteRoles d o3 = (r4, o4)"
    and "deleteFromStore d o4 = (r5, o5)"
  shows "upto 5 o0 o5"
  using upto_extends [OF upto_deleteRoles [OF assms(1,2,3,4)] deleteFromStore_extends [of o4 d]]
    assms(5)
  by simp

lemma upto_mono: "upto k o0 o1 \<Longrightarrow> k \<le> k' \<Longrightarrow> upto k' o0 o1"
  using upto_extends [OF _ extends_refl] by blast

lemma upto_stopFailed: "upto k o0 o1 \<Longrightarrow> upto k o0 (stopFailed o1)"
  using upto_extends [OF _ stopFailed_extends] by blast

lemma upto_stopComplete: "upto k o0 o1 \<Longrightarrow> upto k o0 (stopComplete o1)"
  using upto_extends [OF _ stopComplete_extends] by blast

lemma Execute_upto:
  assumes init: "initRuntimeClients d opts = (None, o0)"
  shows "upto 5 o0 (snd (Execute d opts))"
proof -
  obtain r1 o1 where s1: "validateNoRunningServices d o0 = (r1, o1)"
    by (cases "validateNoRunningServices d o0")
  obtain r2 o2 where s2: "ensureRolesAreRetained d (startProgress o1) = (r2, o2)"
    by (cases "ensureRolesAreRetained d (startProgress o1)")
  obtain r3 o3 where s3: "deleteStack d o2 = (r3, o3)"
    by (cases "deleteStack d o2")
  obtain r4 o4 where s4: "deleteRoles d o3 = (r4, o4)"
    by (cases "deleteRoles d o3")
  obtain r5 o5 where s5: "deleteFromStore d o4 = (r5, o5)"
    by (cases "deleteFromStore d o4")
  note u1 = upto_mono [OF upto_validate [OF s1], of 5]
  note u2 = upto_mono [OF upto_ensure [OF s1 s2], of 5]
  note u3 = upto_mono [OF upto_deleteStack [OF s1 s2 s3], of 5]
  note u4 = upto_mono [OF upto_deleteRoles [OF s1 s2 s3 s4], of 5]
  note u5 = upto_deleteFromStore [OF s1 s2 s3 s4 s5]
  have "snd (Execute d opts) \<in> {o1, o2, stopFailed o2, stopFailed o3, stopFailed o4,
      stopFailed o5, stopComplete o5}"
    using init s1 s2 s3 s4 s5
    by (simp add: Execute_def split: option.splits outcome.splits)
  then show ?thesis
    using u1 u2 u3 u4 u5 upto_stopFailed upto_stopComplete by auto
qed

lemma upto_stepsRun:
  assumes "upto k o0 o1"
  shows "sorted (stepsRun o0 o1)" and "\<forall>j\<in>set (stepsRun o0 o1). j \<le> k"
  using assms by (fastforce simp add: upto_def stepsRun_def callsSince_def)+

lemma validate_calls:
  "calls (snd (validateNoRunningServices d opts)) = calls opts @ [GetResources (serviceStacksQuery d opts)]"
  by (simp add: validateNoRunningServices_def doGetResources_def logCall_def serviceStacksQuery_def
      Let_def split: prod.splits sum.splits)

lemma Execute_validate_fails:
  assumes "initRuntimeClients d opts = (None, o0)"
    and "validateNoRunningServices d o0 = (Some e, o1)"
  shows "Execute d opts = (Returns (Some e), o1)" and "stepsRun o0 o1 = [1]"
  using assms validate_calls [of d o0]
  by (simp_all add: Execute_def stepsRun_def callsSince_def)

lemma Execute_ensure_fails:
  assumes "initRuntimeClients d opts = (None, o0)"
    and "validateNoRunningServices d o0 = (None, o1)"
    and "ensureRolesAreRetained d (startProgress o1) = (r, o2)"
    and "r \<noteq> Returns None"
  shows "fst (Execute d opts) = r" and "\<forall>j\<in>set (stepsRun o0 (snd (Execute d opts))). j \<le> 2"
proof -
  have "Execute d opts = (r, o2) \<or> Execute d opts = (r, stopFailed o2)"
    using assms by (cases r) (auto simp add: Execute_def split: option.splits)
  then show "fst (Execute d opts) = r"
    by auto
  from \<open>Execute d opts = (r, o2) \<or> Execute d opts = (r, stopFailed o2)\<close>
  show "\<forall>j\<in>set (stepsRun o0 (snd (Execute d opts))). j \<le> 2"
    using upto_stepsRun(2) [OF upto_ensure [OF assms(2,3)]]
      upto_stepsRun(2) [OF upto_stopFailed [OF upto_ensure [OF assms(2,3)]]]
    by auto
qed

lemma Execute_deleteStack_fails:
  assumes "initRuntimeClients d opts = (None, o0)"
    and "validateNoRunningServices d o0 = (None, o1)"
    and "ensureRolesAreRetained d (startProgress o1) = (Returns None, o2)"
    and "deleteStack d o2 = (Some e, o3)"
  shows "fst (Execute d opts) = Returns (Some e)"
    and "\<forall>j\<in>set (stepsRun o0 (snd (Execute d opts))). j \<le> 3"
proof -
  have "Execute d opts = (Returns (Some e), stopFailed o3)"
    using assms by (simp add: Execute_def)
  then show "fst (Execute d opts) = Returns (Some e)"
    and "\<forall>j\<in>set (stepsRun o0 (snd (Execute d opts))). j \<le> 3"
    using upto_stepsRun(2) [OF upto_stopFailed [OF upto_deleteStack [OF assms(2,3,4)]]]
    by simp_all
qed

lemma Execute_deleteRoles_fails:
  assumes "initRuntimeClients d opts = (None, o0)"
    and "validateNoRunningServices d o0 = (None, o1)"
    and "ensureRolesAreRetained d (startProgress o1) = (Returns None, o2)"
    and "deleteStack d o2 = (None, o3)"
    and "deleteRoles d o3 = (Some e, o4)"
  shows "fst (Execute d opts) = Returns (Some e)"
    and "\<forall>j\<in>set (stepsRun o0 (snd (Execute d opts))). j \<le> 4"
proof -
  have "Execute d opts = (Returns (Some e), stopFailed o4)"
    using assms by (simp add: Execute_def)
  then show "fst (Execute d opts) = Returns (Some e)"
    and "\<forall>j\<in>set (stepsRun o0 (snd (Execute d opts))). j \<le> 4"
    using upto_stepsRun(2) [OF upto_stopFailed [OF upto_deleteRoles [OF assms(2,3,4,5)]]]
    by simp_all
qed

lemma Execute_deleteFromStore:
  assumes "initRuntimeClients d opts = (None, o0)"
    and "validateNoRunningServices d o0 = (None, o1)"
    and "ensureRolesAreRetained d (startProgress o1) = (Returns None, o2)"
    and "deleteStack d o2 = (None, o3)"
    and "deleteRoles d o3 = (None, o4)"
    and "deleteFromStore d o4 = (r, o5)"
  shows "Execute d opts = (Returns r, if r = None then stopComplete o5 else stopFailed o5)"
  using assms by (cases r) (simp_all add: Execute_def)

lemma extends_prefix: "extends k o1 o2 \<Longrightarrow> prefix (calls o1) (calls o2)"
  by (auto simp add: extends_def)

lemma upto_prefix: "upto k o1 o2 \<Longrightarrow> prefix (calls o1) (calls o2)"
  by (auto simp add: upto_def)

lemma stepsRun_mem_mono:
  assumes "prefix (calls o0) (calls o1)" and "prefix (calls o1) (calls o2)"
    and "prefix (calls o2) (calls o3)" and "k \<in> set (stepsRun o1 o2)"
  shows "k \<in> set (stepsRun o0 o3)"
proof -
  from assms(1,2,3) obtain a b c where "calls o1 = calls o0 @ a" "calls o2 = calls o1 @ b"
    "calls o3 = calls o2 @ c"
    by (auto simp add: prefix_def)
  with assms(4) show ?thesis
    by (auto simp add: stepsRun_def callsSince_def)
qed

lemma validate_ran: "1 \<in> set (stepsRun opts (snd (validateNoRunningServices d opts)))"
  by (simp add: validate_calls stepsRun_def callsSince_def)

lemma doEnvironmentTemplate_calls:
  "calls (snd (doEnvironmentTemplate d a n opts)) = calls opts @ [EnvironmentTemplate a n]"
  by (simp add: doEnvironmentTemplate_def logCall_def split: prod.splits)

lemma ensureRolesAreRetained_ran:
  "2 \<in> set (stepsRun opts (snd (ensureRolesAreRetained d opts)))"
proof -
  obtain r o1 where t: "doEnvironmentTemplate d (appName opts) (name opts) opts = (r, o1)"
    by (cases "doEnvironmentTemplate d (appName opts) (name opts) opts")
  with doEnvironmentTemplate_calls [of d "appName opts" "name opts" opts]
  have c1: "calls o1 = calls opts @ [EnvironmentTemplate (appName opts) (name opts)]"
    by simp
  then have m: "2 \<in> set (stepsRun opts o1)"
    by (simp add: stepsRun_def callsSince_def)
  have "snd (ensureRolesAreRetained d opts) = o1
      \<or> (\<exists>nb. snd (ensureRolesAreRetained d opts) = snd (pushTemplate d nb o1))"
    using t
    by (auto simp add: ensureRolesAreRetained_alt split: sum.splits option.splits if_splits)
  then have "prefix (calls o1) (calls (snd (ensureRolesAreRetained d opts)))"
    using extends_prefix [OF pushTemplate_extends] by auto
  from stepsRun_mem_mono [OF prefix_order.refl _ this m] c1 show ?thesis
    by simp
qed

lemma deleteStack_ran:
  assumes "deleteStack d opts = (None, o1)"
  shows "3 \<in> set (stepsRun opts o1)"
proof -
  obtain r2 o2 where g: "getEnvConfig d opts = (r2, o2)"
    by (cases "getEnvConfig d opts")
  with extends_prefix [OF getEnvConfig_extends [of 0 opts d]]
  obtain xs where "calls o2 = calls opts @ xs"
    by (auto simp add: prefix_def)
  with assms g show ?thesis
    by (auto simp add: deleteStack_def doDeleteEnvironment_def logCall_def stepsRun_def
        callsSince_def split: sum.splits prod.splits option.splits)
qed

lemma deleteRoles_ran:
  assumes "deleteRoles d opts = (None, o1)"
  shows "4 \<in> set (stepsRun opts o1)"
proof -
  obtain r2 o2 where g: "getEnvConfig d opts = (r2, o2)"
    by (cases "getEnvConfig d opts")
  with extends_prefix [OF getEnvConfig_extends [of 0 opts d]]
  obtain xs where "calls o2 = calls opts @ xs"
    by (auto simp add: prefix_def)
  with assms g show ?thesis
    by (auto simp add: deleteRoles_def doDeleteRole_def logCall_def stepsRun_def
        callsSince_def split: sum.splits prod.splits option.splits)
qed

lemma deleteFromStore_ran: "5 \<in> set (stepsRun opts (snd (deleteFromStore d opts)))"
  by (auto simp add: deleteFromStore_def doStoreDeleteEnvironment_def logCall_def stepsRun_def
      callsSince_def split: prod.splits option.splits)

lemma stepsRun_positive: "k \<in> set (stepsRun o0 o1) \<Longrightarrow> 0 < k"
  by (auto simp add: stepsRun_def)

lemma Execute_all_steps:
  assumes init: "initRuntimeClients d opts = (None, o0)"
    and s1: "validateNoRunningServices d o0 = (None, o1)"
    and s2: "ensureRolesAreRetained d (startProgress o1) = (Returns None, o2)"
    and s3: "deleteStack d o2 = (None, o3)"
    and s4: "deleteRoles d o3 = (None, o4)"
    and s5: "deleteFromStore d o4 = (None, o5)"
  shows "Execute d opts = (Returns None, stopComplete o5)"
    and "set (stepsRun o0 (stopComplete o5)) = {1, 2, 3, 4, 5}"
proof -
  show "Execute d opts = (Returns None, stopComplete o5)"
    using assms by (simp add: Execute_def)
  let ?f = "stopComplete o5"
  have p01: "prefix (calls o0) (calls o1)"
    using extends_prefix [OF validate_extends [of o0 d]] s1 by simp
  have p1s: "prefix (calls o1) (calls (startProgress o1))"
    by (rule extends_prefix [OF startProgress_extends [of 0]])
  have ps2: "prefix (calls (startProgress o1)) (calls o2)"
    using extends_prefix [OF ensureRolesAreRetained_extends [of "startProgress o1" d]] s2 by simp
  have p23: "prefix (calls o2) (calls o3)"
    using extends_prefix [OF deleteStack_extends [of o2 d]] s3 by simp
  have p34: "prefix (calls o3) (calls o4)"
    using extends_prefix [OF deleteRoles_extends [of o3 d]] s4 by simp
  have p45: "prefix (calls o4) (calls o5)"
    using extends_prefix [OF deleteFromStore_extends [of o4 d]] s5 by simp
  have p5f: "prefix (calls o5) (calls ?f)"
    by (rule extends_prefix [OF stopComplete_extends [of 0]])
  note tr = prefix_order.trans
  have m1: "1 \<in> set (stepsRun o0 ?f)"
    using stepsRun_mem_mono [OF prefix_order.refl p01 _ validate_ran [of o0 d, unfolded s1 snd_conv]]
      p1s ps2 p23 p34 p45 p5f by (meson tr)
  have m2: "2 \<in> set (stepsRun o0 ?f)"
    using stepsRun_mem_mono [OF _ ps2 _
        ensureRolesAreRetained_ran [of "startProgress o1" d, unfolded s2 snd_conv]]
      p01 p1s p23 p34 p45 p5f by (meson tr)
  have m3: "3 \<in> set (stepsRun o0 ?f)"
    using stepsRun_mem_mono [OF _ p23 _ deleteStack_ran [OF s3]]
      p01 p1s ps2 p34 p45 p5f by (meson tr)
  have m4: "4 \<in> set (stepsRun o0 ?f)"
    using stepsRun_mem_mono [OF _ p34 _ deleteRoles_ran [OF s4]]
      p01 p1s ps2 p23 p45 p5f by (meson tr)
  have m5: "5 \<in> set (stepsRun o0 ?f)"
    using stepsRun_mem_mono [OF _ p45 p5f deleteFromStore_ran [of o4 d, unfolded s5 snd_conv]]
      p01 p1s ps2 p23 p34 by (meson tr)
  have "\<forall>j\<in>set (stepsRun o0 ?f). 0 < j \<and> j \<le> 5"
    using upto_stepsRun(2) [OF upto_stopComplete [OF upto_deleteFromStore [OF s1 s2 s3 s4 s5]]]
      stepsRun_positive by blast
  then have "set (stepsRun o0 ?f) \<subseteq> {1, 2, 3, 4, 5}"
    by (auto simp add: subset_iff)
  with m1 m2 m3 m4 m5 show "set (stepsRun o0 ?f) = {1, 2, 3, 4, 5}"
    by auto
qed

lemma Execute_services_found:
  assumes "initRuntimeClients d opts = (None, o0)"
    and "rg_GetResources d (serviceStacksQuery d o0) (world o0) = (Inr stacks, w1)"
    and "stacks \<noteq> []"
  shows "fst (Execute d opts) = Returns (Some (ErrorString (''service '' @ [CHR 0x27]
            @ Join (serviceNames d stacks) '', '' @ [CHR 0x27]
            @ '' still exist within the environment '' @ name o0)))"
    and "callsSince o0 (snd (Execute d opts)) = [GetResources (serviceStacksQuery d o0)]"
  using assms
  by (simp_all add: Execute_def validateNoRunningServices_def doGetResources_def logCall_def
      serviceStacksQuery_def serviceNames_def callsSince_def Let_def)

lemma Execute_continues_after_self_heal:
  assumes init: "initRuntimeClients d opts = (None, o0)"
    and s1: "validateNoRunningServices d o0 = (None, o1)"
    and s2: "ensureRolesAreRetained d (startProgress o1) = (Returns None, o2)"
    and s3: "deleteStack d o2 = (r3, o3)"
  shows "prefix (calls o3) (calls (snd (Execute d opts)))"
proof -
  obtain r4 o4 where s4: "deleteRoles d o3 = (r4, o4)"
    by (cases "deleteRoles d o3")
  obtain r5 o5 where s5: "deleteFromStore d o4 = (r5, o5)"
    by (cases "deleteFromStore d o4")
  have p34: "prefix (calls o3) (calls o4)"
    using extends_prefix [OF deleteRoles_extends [of o3 d]] s4 by simp
  have p45: "prefix (calls o4) (calls o5)"
    using extends_prefix [OF deleteFromStore_extends [of o4 d]] s5 by simp
  have pf: "prefix (calls x) (calls (stopFailed x))" for x :: "'a deleteEnvOpts"
    by (rule extends_prefix [OF stopFailed_extends [of 0]])
  have pc: "prefix (calls x) (calls (stopComplete x))" for x :: "'a deleteEnvOpts"
    by (rule extends_prefix [OF stopComplete_extends [of 0]])
  have "snd (Execute d opts) \<in> {stopFailed o3, stopFailed o4, stopFailed o5, stopComplete o5}"
    using init s1 s2 s3 s4 s5
    by (simp add: Execute_def split: option.splits)
  then show ?thesis
    using p34 p45 pf pc by (auto intro: prefix_order.trans)
qed

lemma getEnvConfig_names:
  "appName (snd (getEnvConfig d opts)) = appName opts \<and> name (snd (getEnvConfig d opts)) = name opts"
  using getEnvConfig_extends [of 0 opts d] by (auto simp add: extends_def)

lemma deleteStack_calls_DeleteEnvironment:
  assumes "getEnvConfig d o2 = (Inr env, o3)"
  shows "DeleteEnvironmentStack (appName o2) (name o2) (ExecutionRoleARN env)
           \<in> set (callsSince o2 (snd (deleteStack d o2)))"
proof -
  from extends_prefix [OF getEnvConfig_extends [of 0 o2 d]] assms
  obtain xs where "calls o3 = calls o2 @ xs"
    by (auto simp add: prefix_def)
  with assms getEnvConfig_names [of d o2] show ?thesis
    by (auto simp add: deleteStack_def doDeleteEnvironment_def logCall_def callsSince_def
        split: prod.splits option.splits)
qed

lemma callsSince_mem_mono:
  assumes "prefix (calls o0) (calls o1)" and "prefix (calls o2) (calls o3)"
    and "c \<in> set (callsSince o1 o2)"
  shows "c \<in> set (callsSince o0 o3)"
proof -
  from assms(1,2) obtain a b where ab: "calls o1 = calls o0 @ a" "calls o3 = calls o2 @ b"
    by (auto simp add: prefix_def)
  from assms(3) have "c \<in> set (calls o2)"
    by (auto simp add: callsSince_def dest: in_set_dropD)
  have "c \<in> set (drop (length (calls o0)) (calls o2))"
  proof (cases "length (calls o1) \<le> length (calls o2)")
    case True
    have "drop (length (calls o0)) (calls o2)
        = drop (length (calls o0)) (take (length (calls o1)) (calls o2)) @ drop (length (calls o1)) (calls o2)"
      using ab(1) True
      by (metis append_take_drop_id drop_append length_append diff_is_0_eq' drop0 le_add1 length_take min.absorb2)
    with assms(3) show ?thesis by (simp add: callsSince_def)
  next
    case False
    with assms(3) show ?thesis by (simp add: callsSince_def)
  qed
  with ab(2) show ?thesis
    by (simp add: callsSince_def)
qed

text \<open>
  C5. In a run of \<open>Execute\<close> whose clients were initialised, the calls of the five steps
  appear in the order check for workload stacks, retain-policy self-heal, stack deletion,
  role deletion, removal of the stored record: the steps of the logged calls never
  decrease. A step that fails (or panics) ends the run with its error, and the log holds
  no call of a later step. When the query for tagged workload stacks returns at least
  one stack, the run ends with the error that lists the value of every service tag of
  the stacks found, and the query is the only call made. When every step succeeds the
  run returns nil and all five steps have run.
\<close>

theorem Execute_steps_in_order:
  assumes "initRuntimeClients d opts = (None, o0)"
  shows "sorted (stepsRun o0 (snd (Execute d opts)))
   \<and> (\<forall>e o1. validateNoRunningServices d o0 = (Some e, o1) \<longrightarrow>
         Execute d opts = (Returns (Some e), o1) \<and> stepsRun o0 o1 = [1])
   \<and> (\<forall>stacks w1. rg_GetResources d (serviceStacksQuery d o0) (world o0) = (Inr stacks, w1)
           \<and> stacks \<noteq> [] \<longrightarrow>
         fst (Execute d opts) = Returns (Some (ErrorString (''service '' @ [CHR 0x27]
            @ Join (serviceNames d stacks) '', '' @ [CHR 0x27]
            @ '' still exist within the environment '' @ name o0)))
         \<and> callsSince o0 (snd (Execute d opts)) = [GetResources (serviceStacksQuery d o0)])
   \<and> (\<forall>o1 r o2. validateNoRunningServices d o0 = (None, o1)
           \<and> ensureRolesAreRetained d (startProgress o1) = (r, o2) \<and> r \<noteq> Returns None \<longrightarrow>
         fst (Execute d opts) = r \<and> (\<forall>j\<in>set (stepsRun o0 (snd (Execute d opts))). j \<le> 2))
   \<and> (\<forall>o1 o2 e o3. validateNoRunningServices d o0 = (None, o1)
           \<and> ensureRolesAreRetained d (startProgress o1) = (Returns None, o2)
           \<and> deleteStack d o2 = (Some e, o3) \<longrightarrow>
         fst (Execute d opts) = Returns (Some e)
         \<and> (\<forall>j\<in>set (stepsRun o0 (snd (Execute d opts))). j \<le> 3))
   \<and> (\<forall>o1 o2 o3 e o4. validateNoRunningServices d o0 = (None, o1)
           \<and> ensureRolesAreRetained d (startProgress o1) = (Returns None, o2)
           \<and> deleteStack d o2 = (None, o3) \<and> deleteRoles d o3 = (Some e, o4) \<longrightarrow>
         fst (Execute d opts) = Returns (Some e)
         \<and> (\<forall>j\<in>set (stepsRun o0 (snd (Execute d opts))). j \<le> 4))
   \<and> (\<forall>o1 o2 o3 o4 e o5. validateNoRunningServices d o0 = (None, o1)
           \<and> ensureRolesAreRetained d (startProgress o1) = (Returns None, o2)
           \<and> deleteStack d o2 = (None, o3) \<and> deleteRoles d o3 = (None, o4)
           \<and> deleteFromStore d o4 = (Some e, o5) \<longrightarrow>
         fst (Execute d opts) = Returns (Some e))
   \<and> (\<forall>o1 o2 o3 o4 o5. validateNoRunningServices d o0 = (None, o1)
           \<and> ensureRolesAreRetained d (startProgress o1) = (Returns None, o2)
           \<and> deleteStack d o2 = (None, o3) \<and> deleteRoles d o3 = (None, o4)
           \<and> deleteFromStore d o4 = (None, o5) \<longrightarrow>
         fst (Execute d opts) = Returns None
         \<and> set (stepsRun o0 (snd (Execute d opts))) = {1, 2, 3, 4, 5})"
proof (intro conjI allI impI; (elim conjE)?)
  show "sorted (stepsRun o0 (snd (Execute d opts)))"
    by (rule upto_stepsRun(1) [OF Execute_upto [OF assms]])
next
  fix e o1 assume "validateNoRunningServices d o0 = (Some e, o1)"
  then show "Execute d opts = (Returns (Some e), o1)" and "stepsRun o0 o1 = [1]"
    by (rule Execute_validate_fails [OF assms])+
next
  fix stacks w1
  assume "rg_GetResources d (serviceStacksQuery d o0) (world o0) = (Inr stacks, w1)"
    and "stacks \<noteq> []"
  then show "fst (Execute d opts) = Returns (Some (ErrorString (''service '' @ [CHR 0x27]
            @ Join (serviceNames d stacks) '', '' @ [CHR 0x27]
            @ '' still exist within the environment '' @ name o0)))"
    and "callsSince o0 (snd (Execute d opts)) = [GetResources (serviceStacksQuery d o0)]"
    by (rule Execute_services_found [OF assms])+
next
  fix o1 r o2
  assume "validateNoRunningServices d o0 = (None, o1)"
    and "ensureRolesAreRetained d (startProgress o1) = (r, o2)" and "r \<noteq> Returns None"
  then show "fst (Execute d opts) = r"
    and "\<forall>j\<in>set (stepsRun o0 (snd (Execute d opts))). j \<le> 2"
    by (rule Execute_ensure_fails [OF assms])+
next
  fix o1 o2 e o3
  assume "validateNoRunningServices d o0 = (None, o1)"
    and "ensureRolesAreRetained d (startProgress o1) = (Returns None, o2)"
    and "deleteStack d o2 = (Some e, o3)"
  then show "fst (Execute d opts) = Returns (Some e)"
    and "\<forall>j\<in>set (stepsRun o0 (snd (Execute d opts))). j \<le> 3"
    by (rule Execute_deleteStack_fails [OF assms])+
next
  fix o1 o2 o3 e o4
  assume "validateNoRunningServices d o0 = (None, o1)"
    and "ensureRolesAreRetained d (startProgress o1) = (Returns None, o2)"
    and "deleteStack d o2 = (None, o3)" and "deleteRoles d o3 = (Some e, o4)"
  then show "fst (Execute d opts) = Returns (Some e)"
    and "\<forall>j\<in>set (stepsRun o0 (snd (Execute d opts))). j \<le> 4"
    by (rule Execute_deleteRoles_fails [OF assms])+
next
  fix o1 o2 o3 o4 e o5
  assume "validateNoRunningServices d o0 = (None, o1)"
    and "ensureRolesAreRetained d (startProgress o1) = (Returns None, o2)"
    and "deleteStack d o2 = (None, o3)" and "deleteRoles d o3 = (None, o4)"
    and "deleteFromStore d o4 = (Some e, o5)"
  from Execute_deleteFromStore [OF assms this]
  show "fst (Execute d opts) = Returns (Some e)"
    by simp
next
  fix o1 o2 o3 o4 o5
  assume "validateNoRunningServices d o0 = (None, o1)"
    and "ensureRolesAreRetained d (startProgress o1) = (Returns None, o2)"
    and "deleteStack d o2 = (None, o3)" and "deleteRoles d o3 = (None, o4)"
    and "deleteFromStore d o4 = (None, o5)"
  from Execute_all_steps [OF assms this]
  show "fst (Execute d opts) = Returns None"
    and "set (stepsRun o0 (snd (Execute d opts))) = {1, 2, 3, 4, 5}"
    by simp_all
qed

theorem Execute_steps_in_order_witness:
  "fst (Execute (mockDeleteDeps runningServices (Inr retainedTemplate)) testDeleteOpts)
     = Returns (Some (ErrorString (''service '' @ [CHR 0x27] @ ''frontend, backend'' @ [CHR 0x27]
         @ '' still exist within the environment test'')))
   \<and> stepsRun testDeleteOpts
        (snd (Execute (mockDeleteDeps runningServices (Inr retainedTemplate)) testDeleteOpts)) = [1]"
proof -
  let ?d = "mockDeleteDeps runningServices (Inr retainedTemplate)"
  have init: "initRuntimeClients ?d testDeleteOpts = (None, testDeleteOpts)"
    by (simp add: mockDeleteDeps_def)
  have "validateNoRunningServices ?d testDeleteOpts
      = (Some (ErrorString (''service '' @ [CHR 0x27] @ ''frontend, backend'' @ [CHR 0x27]
           @ '' still exist within the environment test'')),
         testDeleteOpts\<lparr>calls := [GetResources (serviceStacksQuery ?d testDeleteOpts)]\<rparr>)"
    by (simp add: validateNoRunningServices_def doGetResources_def logCall_def
        serviceStacksQuery_def mockDeleteDeps_def runningServices_def testDeleteOpts_def)
  with Execute_steps_in_order [OF init] show ?thesis
    by simp
qed

lemma Index_Some_prefix:
  "Index s sep = Some m \<Longrightarrow> m \<le> length s \<and> prefix sep (drop m s)"
proof (induction s arbitrary: m)
  case Nil
  then show ?case by (simp split: if_splits)
next
  case (Cons c cs)
  then show ?case by (auto split: if_splits)
qed

lemma Index_Some_decomp:
  assumes "Index s sep = Some m"
  shows "s = take m s @ sep @ drop (m + length sep) s"
proof -
  from Index_Some_prefix [OF assms] obtain zs where "drop m s = sep @ zs"
    by (auto simp add: prefix_def)
  moreover from this have "drop (m + length sep) s = zs"
    by (metis add.commute append_eq_conv_conj drop_drop)
  ultimately show ?thesis
    by (metis append_take_drop_id)
qed

lemma Split_unfold:
  "sep \<noteq> [] \<Longrightarrow> Split s sep =
     (case Index s sep of None \<Rightarrow> [s]
      | Some m \<Rightarrow> take m s # Split (drop (m + length sep) s) sep)"
  by (subst Split.simps) simp

lemma Split_not_Nil: "sep \<noteq> [] \<Longrightarrow> Split s sep \<noteq> []"
  by (subst Split_unfold) (simp_all split: option.splits)

lemma Split_length2:
  assumes "sep \<noteq> []" and "Split s sep = [a, b]"
  shows "s = a @ sep @ b"
proof (cases "Index s sep")
  case None
  with assms show ?thesis by (simp add: Split_unfold [of sep s])
next
  case (Some m)
  with assms have a: "a = take m s" and rest: "Split (drop (m + length sep) s) sep = [b]"
    by (simp_all add: Split_unfold [of sep s])
  have "b = drop (m + length sep) s"
  proof (cases "Index (drop (m + length sep) s) sep")
    case None
    with rest assms(1) show ?thesis
      by (simp add: Split_unfold [of sep "drop (m + length sep) s"])
  next
    case (Some k)
    with rest assms(1) Split_not_Nil [OF assms(1)] show ?thesis
      by (simp add: Split_unfold [of sep "drop (m + length sep) s"])
  qed
  with a Index_Some_decomp [OF Some] show ?thesis by simp
qed

lemma Index_prefix: "prefix sep s \<Longrightarrow> Index s sep = Some 0"
  by (cases s) simp_all

lemma Index_append_occurrence: "Index (a @ s @ b) s \<noteq> None"
proof (induction a)
  case Nil
  then show ?case by (simp add: Index_prefix)
next
  case (Cons x a)
  then show ?case by simp
qed

lemma Contains_occurrence: "Contains (a @ s @ b) s"
  by (simp add: Contains_def Index_append_occurrence)

lemma prefix_of_block:
  assumes "us @ vs = execRoleLine @ retainLine" and "us \<noteq> []" and "vs \<noteq> []" and "last us = NL"
  shows "us = execRoleLine"
  using assms
  by (auto simp add: execRoleLine_def retainLine_def append_eq_Cons_conv)

lemma manager_line_not_suffix:
  assumes "q0 @ managerRoleLine = p0 @ execRoleLine"
  shows False
proof -
  from assms have "(\<exists>ws. q0 = p0 @ ws \<and> ws @ managerRoleLine = execRoleLine)
      \<or> (\<exists>ws. q0 @ ws = p0 \<and> managerRoleLine = ws @ execRoleLine)"
    by (auto simp add: append_eq_append_conv2)
  then show False
  proof (elim disjE exE conjE)
    fix ws assume "ws @ managerRoleLine = execRoleLine"
    then have "suffix managerRoleLine execRoleLine"
      by (metis suffixI)
    then show False
      by (simp add: suffix_to_prefix managerRoleLine_def execRoleLine_def)
  next
    fix ws assume "managerRoleLine = ws @ execRoleLine"
    then have "length execRoleLine \<le> length managerRoleLine"
      by (metis length_append le_add2)
    then show False
      by (simp add: managerRoleLine_def execRoleLine_def)
  qed
qed

lemma last_managerRoleLine: "last (q0 @ managerRoleLine) = NL"
  by (simp add: managerRoleLine_def)

lemma exec_block_survives:
  assumes eq: "q0 @ managerRoleLine @ q1 = p0 @ execRoleLine @ retainLine @ p1"
  shows "Contains (q0 @ managerRoleLine @ retainLine @ q1) (execRoleLine @ retainLine)"
proof -
  let ?B = "execRoleLine @ retainLine"
  from eq have "(q0 @ managerRoleLine) @ q1 = p0 @ (?B @ p1)"
    by simp
  then have "\<exists>us. q0 @ managerRoleLine = p0 @ us \<and> us @ q1 = ?B @ p1
      \<or> (q0 @ managerRoleLine) @ us = p0 \<and> q1 = us @ ?B @ p1"
    by (simp only: append_eq_append_conv2)
  then consider
      (before) us where "(q0 @ managerRoleLine) @ us = p0" "q1 = us @ ?B @ p1"
    | (after) us where "q0 @ managerRoleLine = p0 @ us" "us @ q1 = ?B @ p1"
    by blast
  then show ?thesis
  proof cases
    case before
    have e: "q0 @ managerRoleLine @ retainLine @ q1
        = (q0 @ managerRoleLine @ retainLine @ us) @ ?B @ p1"
      using before(2) by simp
    show ?thesis
      by (simp only: e Contains_occurrence)
  next
    case after
    from after(2) have "\<exists>vs. us = ?B @ vs \<and> vs @ q1 = p1 \<or> us @ vs = ?B \<and> q1 = vs @ p1"
      by (simp only: append_eq_append_conv2)
    then consider
        (whole) vs where "us = ?B @ vs" "vs @ q1 = p1"
      | (inside) vs where "us @ vs = ?B" "q1 = vs @ p1"
      by blast
    then show ?thesis
    proof cases
      case whole
      have e: "q0 @ managerRoleLine @ retainLine @ q1 = p0 @ ?B @ (vs @ retainLine @ q1)"
        using after(1) whole(1) by (metis append.assoc)
      show ?thesis
        by (simp only: e Contains_occurrence)
    next
      case inside
      have final: "q0 @ managerRoleLine @ retainLine @ q1 = p0 @ us @ retainLine @ vs @ p1"
        using after(1) inside(2) by (metis append.assoc)
      show ?thesis
      proof (cases "us = [] \<or> vs = []")
        case True
        then show ?thesis
        proof
          assume "us = []"
          with inside(1) have "vs = ?B" by simp
          with final \<open>us = []\<close>
          have e: "q0 @ managerRoleLine @ retainLine @ q1 = (p0 @ retainLine) @ ?B @ p1"
            by simp
          show ?thesis
            by (simp only: e Contains_occurrence)
        next
          assume "vs = []"
          with inside(1) have "us = ?B" by simp
          with final \<open>vs = []\<close>
          have e: "q0 @ managerRoleLine @ retainLine @ q1 = p0 @ ?B @ (retainLine @ p1)"
            by simp
          show ?thesis
            by (simp only: e Contains_occurrence)
        qed
      next
        case False
        then have ne: "us \<noteq> []" "vs \<noteq> []" by simp_all
        have "last us = last (p0 @ us)"
          using ne(1) by simp
        also have "\<dots> = NL"
          using after(1) last_managerRoleLine [of q0] by simp
        finally have "us = execRoleLine"
          using prefix_of_block [OF inside(1) ne] by simp
        with after(1) manager_line_not_suffix show ?thesis
          by blast
      qed
    qed
  qed
qed

lemma noUpdate_refl: "noUpdate opts opts"
  by (simp add: noUpdate_def)

lemma noUpdate_trans: "noUpdate o1 o2 \<Longrightarrow> noUpdate o2 o3 \<Longrightarrow> noUpdate o1 o3"
  by (auto simp add: noUpdate_def)

lemma isUpdate_stepOf: "isUpdateEnvironmentTemplate c \<Longrightarrow> stepOf c = 2"
  by (cases c) simp_all

lemma extends_noUpdate:
  assumes "extends k o1 o2" and "k \<noteq> 2"
  shows "noUpdate o1 o2"
proof -
  from assms(1) obtain xs where xs: "calls o2 = calls o1 @ xs" "set (map stepOf xs) \<subseteq> {0, k}"
    by (auto simp add: extends_def)
  have "\<not> isUpdateEnvironmentTemplate c" if "c \<in> set xs" for c
    using that xs(2) assms(2) isUpdate_stepOf [of c] by auto
  then have "filter isUpdateEnvironmentTemplate xs = []"
    by (simp add: filter_empty_conv)
  with xs(1) show ?thesis
    by (auto simp add: noUpdate_def)
qed

lemma noUpdate_callsSince:
  assumes "noUpdate o0 o1" and "prefix (calls o1) (calls o2)" and "noUpdate o2 o3"
  shows "filter isUpdateEnvironmentTemplate (callsSince o0 o3)
           = filter isUpdateEnvironmentTemplate (callsSince o1 o2)"
proof -
  from assms obtain a b c where "calls o1 = calls o0 @ a" "filter isUpdateEnvironmentTemplate a = []"
    "calls o2 = calls o1 @ b" "calls o3 = calls o2 @ c" "filter isUpdateEnvironmentTemplate c = []"
    by (auto simp add: noUpdate_def prefix_def)
  then show ?thesis
    by (simp add: callsSince_def)
qed

lemma Execute_tail_noUpdate:
  assumes init: "initRuntimeClients d opts = (None, o0)"
    and s1: "validateNoRunningServices d o0 = (None, o1)"
    and s2: "ensureRolesAreRetained d (startProgress o1) = (r2, o2)"
  shows "noUpdate o2 (snd (Execute d opts))"
proof -
  obtain r3 o3 where s3: "deleteStack d o2 = (r3, o3)"
    by (cases "deleteStack d o2")
  obtain r4 o4 where s4: "deleteRoles d o3 = (r4, o4)"
    by (cases "deleteRoles d o3")
  obtain r5 o5 where s5: "deleteFromStore d o4 = (r5, o5)"
    by (cases "deleteFromStore d o4")
  have n23: "noUpdate o2 o3"
    using extends_noUpdate [OF deleteStack_extends [of o2 d]] s3 by simp
  have n34: "noUpdate o3 o4"
    using extends_noUpdate [OF deleteRoles_extends [of o3 d]] s4 by simp
  have n45: "noUpdate o4 o5"
    using extends_noUpdate [OF deleteFromStore_extends [of o4 d]] s5 by simp
  have nf: "noUpdate x (stopFailed x)" for x :: "'a deleteEnvOpts"
    using extends_noUpdate [OF stopFailed_extends [of 0 x]] by simp
  have nc: "noUpdate x (stopComplete x)" for x :: "'a deleteEnvOpts"
    using extends_noUpdate [OF stopComplete_extends [of 0 x]] by simp
  have "snd (Execute d opts) \<in> {o2, stopFailed o2, stopFailed o3, stopFailed o4, stopFailed o5,
      stopComplete o5}"
    using init s1 s2 s3 s4 s5
    by (simp add: Execute_def split: option.splits outcome.splits)
  moreover have n24: "noUpdate o2 o4"
    using n23 n34 by (rule noUpdate_trans)
  moreover have n25: "noUpdate o2 o5"
    using n24 n45 by (rule noUpdate_trans)
  moreover note noUpdate_refl [of o2] nf [of o2]
    noUpdate_trans [OF n23 nf [of o3]] noUpdate_trans [OF n24 nf [of o4]]
    noUpdate_trans [OF n25 nf [of o5]] noUpdate_trans [OF n25 nc [of o5]]
  ultimately show ?thesis
    by auto
qed

lemma Execute_head_noUpdate:
  assumes "validateNoRunningServices d o0 = (None, o1)"
  shows "noUpdate o0 (startProgress o1)"
proof -
  have "noUpdate o0 o1"
    using extends_noUpdate [OF validate_extends [of o0 d]] assms by simp
  moreover have "noUpdate o1 (startProgress o1)"
    using extends_noUpdate [OF startProgress_extends [of 0 o1]] by simp
  ultimately show ?thesis
    by (rule noUpdate_trans)
qed

lemma pushTemplate_calls:
  assumes "getEnvConfig d o1 = (Inr env, o2)"
  shows "filter isUpdateEnvironmentTemplate (callsSince o1 (snd (pushTemplate d nb o1)))
           = [UpdateEnvironmentTemplate (appName o1) (name o1) nb (ExecutionRoleARN env)]"
proof -
  from extends_noUpdate [OF getEnvConfig_extends [of 0 o1 d]] assms
  obtain zs where zs: "calls o2 = calls o1 @ zs" "filter isUpdateEnvironmentTemplate zs = []"
    by (auto simp add: noUpdate_def)
  with assms getEnvConfig_names [of d o1] show ?thesis
    by (auto simp add: pushTemplate_def doUpdateEnvironmentTemplate_def logCall_def callsSince_def
        split: prod.splits option.splits)
qed

lemma insertRetain_Some:
  "Split body roleLine = [p0, p1] \<Longrightarrow> insertRetain roleLine body = Some (p0 @ roleLine @ retainLine @ p1)"
  by (simp add: insertRetain_def)

lemma ensure_calls_update:
  assumes tmpl: "doEnvironmentTemplate d (appName opts) (name opts) opts = (Inr body, o1)"
    and cfg: "getEnvConfig d o1 = (Inr env, o2)"
    and missing: "\<not> (retainsRole body execRoleLine \<and> retainsRole body managerRoleLine)"
    and b1: "(if \<not> retainsRole body execRoleLine then insertRetain execRoleLine body else Some body)
               = Some newBody1"
    and b2: "(if \<not> retainsRole body managerRoleLine then insertRetain managerRoleLine newBody1
               else Some newBody1) = Some newBody"
  shows "filter isUpdateEnvironmentTemplate (callsSince opts (snd (ensureRolesAreRetained d opts)))
           = [UpdateEnvironmentTemplate (appName opts) (name opts) newBody (ExecutionRoleARN env)]"
proof -
  have e: "ensureRolesAreRetained d opts = pushTemplate d newBody o1"
    using tmpl missing b1 b2 by (auto simp add: ensureRolesAreRetained_alt)
  have c1: "calls o1 = calls opts @ [EnvironmentTemplate (appName opts) (name opts)]"
    using doEnvironmentTemplate_calls [of d "appName opts" "name opts" opts] tmpl by simp
  have n1: "appName o1 = appName opts" "name o1 = name opts"
    using tmpl by (auto simp add: doEnvironmentTemplate_def logCall_def split: prod.splits)
  obtain ys where ys: "calls (snd (pushTemplate d newBody o1)) = calls o1 @ ys"
    using extends_prefix [OF pushTemplate_extends [of o1 d newBody]] by (auto simp add: prefix_def)
  have "callsSince opts (snd (pushTemplate d newBody o1))
      = EnvironmentTemplate (appName opts) (name opts) # callsSince o1 (snd (pushTemplate d newBody o1))"
    using ys c1 by (simp add: callsSince_def)
  with pushTemplate_calls [OF cfg, of newBody] e n1 show ?thesis
    by simp
qed

lemma isDelete_stepOf: "isDeleteEnvironmentStack c \<Longrightarrow> stepOf c = 3"
  by (cases c) simp_all

lemma steps_split:
  "sorted (filter (\<lambda>k. 0 < k) (map stepOf xs)) \<Longrightarrow>
     \<exists>pre post. xs = pre @ post \<and> (\<forall>c\<in>set pre. stepOf c < 3)
        \<and> (\<forall>c\<in>set post. stepOf c = 0 \<or> 3 \<le> stepOf c)"
proof (induction xs)
  case Nil
  then show ?case by simp
next
  case (Cons x xs)
  show ?case
  proof (cases "stepOf x < 3")
    case True
    from Cons.prems have "sorted (filter (\<lambda>k. 0 < k) (map stepOf xs))"
      by (simp split: if_splits)
    from Cons.IH [OF this] obtain pre post where "xs = pre @ post"
      "\<forall>c\<in>set pre. stepOf c < 3" "\<forall>c\<in>set post. stepOf c = 0 \<or> 3 \<le> stepOf c"
      by blast
    with True have "x # xs = (x # pre) @ post \<and> (\<forall>c\<in>set (x # pre). stepOf c < 3)
        \<and> (\<forall>c\<in>set post. stepOf c = 0 \<or> 3 \<le> stepOf c)"
      by simp
    then show ?thesis by blast
  next
    case False
    with Cons.prems have "\<forall>k\<in>set (filter (\<lambda>k. 0 < k) (map stepOf xs)). stepOf x \<le> k"
      by simp
    with False have "\<forall>c\<in>set (x # xs). stepOf c = 0 \<or> 3 \<le> stepOf c"
      by fastforce
    then have "x # xs = [] @ (x # xs) \<and> (\<forall>c\<in>set []. stepOf c < 3)
        \<and> (\<forall>c\<in>set (x # xs). stepOf c = 0 \<or> 3 \<le> stepOf c)"
      by simp
    then show ?thesis by blast
  qed
qed

lemma Execute_updates_before_delete:
  assumes "initRuntimeClients d opts = (None, o0)"
  shows "\<exists>pre post. callsSince o0 (snd (Execute d opts)) = pre @ post
     \<and> (\<forall>c\<in>set pre. \<not> isDeleteEnvironmentStack c)
     \<and> (\<forall>c\<in>set post. \<not> isUpdateEnvironmentTemplate c)"
proof -
  from upto_stepsRun(1) [OF Execute_upto [OF assms]]
  have "sorted (filter (\<lambda>k. 0 < k) (map stepOf (callsSince o0 (snd (Execute d opts)))))"
    by (simp add: stepsRun_def)
  from steps_split [OF this] obtain pre post where
    "callsSince o0 (snd (Execute d opts)) = pre @ post" "\<forall>c\<in>set pre. stepOf c < 3"
    "\<forall>c\<in>set post. stepOf c = 0 \<or> 3 \<le> stepOf c"
    by blast
  then show ?thesis
    using isDelete_stepOf isUpdate_stepOf by (intro exI [of _ pre] exI [of _ post]) fastforce
qed

lemma startProgress_names:
  "appName (startProgress o1) = appName o1" "name (startProgress o1) = name o1"
  by (simp_all add: startProgress_def logCall_def)

lemma Execute_update_calls:
  assumes init: "initRuntimeClients d opts = (None, o0)"
    and chk: "validateNoRunningServices d o0 = (None, o1)"
  shows "filter isUpdateEnvironmentTemplate (callsSince o0 (snd (Execute d opts)))
       = filter isUpdateEnvironmentTemplate
           (callsSince (startProgress o1) (snd (ensureRolesAreRetained d (startProgress o1))))"
proof -
  obtain r2 o2 where s2: "ensureRolesAreRetained d (startProgress o1) = (r2, o2)"
    by (cases "ensureRolesAreRetained d (startProgress o1)")
  have "prefix (calls (startProgress o1)) (calls o2)"
    using extends_prefix [OF ensureRolesAreRetained_extends [of "startProgress o1" d]] s2 by simp
  from noUpdate_callsSince [OF Execute_head_noUpdate [OF chk] this Execute_tail_noUpdate [OF init chk s2]]
  show ?thesis
    using s2 by simp
qed

text \<open>
  What the self-heal step does when the lines that declare the roles are there. Take a
  run of \<open>Execute\<close> that reaches the step and reads the template \<open>body\<close>. If \<open>body\<close> holds
  the retain block of both roles, the run makes no template update. If it holds neither,
  the environment's configuration is read, splitting \<open>body\<close> at the line that declares the
  execution role gives two pieces, and splitting the result of the first insertion at the
  line that declares the manager role gives two pieces, then the run makes exactly one
  template update; its body is \<open>body\<close> with the line \<open>DeletionPolicy: Retain\<close> written
  right after each of the two declaring lines. If one block is missing and the line
  declaring that role splits \<open>body\<close> in two, the one update writes the policy line after
  that role's line only. In every run, no template update is made after a call that
  deletes the stack.
\<close>

lemma ensureRolesAreRetained_inserts_policy:
  assumes init: "initRuntimeClients d opts = (None, o0)"
    and chk: "validateNoRunningServices d o0 = (None, o1)"
    and tmpl: "doEnvironmentTemplate d (appName o1) (name o1) (startProgress o1) = (Inr body, o2)"
  shows
   "(retainsRole body execRoleLine \<and> retainsRole body managerRoleLine \<longrightarrow>
       filter isUpdateEnvironmentTemplate (callsSince o0 (snd (Execute d opts))) = [])
  \<and> (\<forall>env o3 p0 p1 q0 q1. getEnvConfig d o2 = (Inr env, o3)
         \<and> \<not> retainsRole body execRoleLine \<and> \<not> retainsRole body managerRoleLine
         \<and> Split body execRoleLine = [p0, p1]
         \<and> Split (p0 @ execRoleLine @ retainLine @ p1) managerRoleLine = [q0, q1] \<longrightarrow>
       body = p0 @ execRoleLine @ p1
       \<and> p0 @ execRoleLine @ retainLine @ p1 = q0 @ managerRoleLine @ q1
       \<and> Contains (q0 @ managerRoleLine @ retainLine @ q1) (execRoleLine @ retainLine)
       \<and> Contains (q0 @ managerRoleLine @ retainLine @ q1) (managerRoleLine @ retainLine)
       \<and> filter isUpdateEnvironmentTemplate (callsSince o0 (snd (Execute d opts)))
           = [UpdateEnvironmentTemplate (appName o1) (name o1)
                (q0 @ managerRoleLine @ retainLine @ q1) (ExecutionRoleARN env)])
  \<and> (\<forall>env o3 p0 p1. getEnvConfig d o2 = (Inr env, o3)
         \<and> \<not> retainsRole body execRoleLine \<and> retainsRole body managerRoleLine
         \<and> Split body execRoleLine = [p0, p1] \<longrightarrow>
       body = p0 @ execRoleLine @ p1
       \<and> filter isUpdateEnvironmentTemplate (callsSince o0 (snd (Execute d opts)))
           = [UpdateEnvironmentTemplate (appName o1) (name o1)
                (p0 @ execRoleLine @ retainLine @ p1) (ExecutionRoleARN env)])
  \<and> (\<forall>env o3 q0 q1. getEnvConfig d o2 = (Inr env, o3)
         \<and> retainsRole body execRoleLine \<and> \<not> retainsRole body managerRoleLine
         \<and> Split body managerRoleLine = [q0, q1] \<longrightarrow>
       body = q0 @ managerRoleLine @ q1
       \<and> filter isUpdateEnvironmentTemplate (callsSince o0 (snd (Execute d opts)))
           = [UpdateEnvironmentTemplate (appName o1) (name o1)
                (q0 @ managerRoleLine @ retainLine @ q1) (ExecutionRoleARN env)])
  \<and> (\<exists>pre post. callsSince o0 (snd (Execute d opts)) = pre @ post
         \<and> (\<forall>c\<in>set pre. \<not> isDeleteEnvironmentStack c)
         \<and> (\<forall>c\<in>set post. \<not> isUpdateEnvironmentTemplate c))"
proof (intro conjI allI impI; (elim conjE)?)
  note tmpl' = tmpl [folded startProgress_names [of o1]]
  note upd = Execute_update_calls [OF init chk]
  have execLine: "execRoleLine \<noteq> []" and mgrLine: "managerRoleLine \<noteq> []"
    by (simp_all add: execRoleLine_def managerRoleLine_def)
  {
    assume "retainsRole body execRoleLine" and "retainsRole body managerRoleLine"
    with tmpl have "ensureRolesAreRetained d (startProgress o1) = (Returns None, o2)"
      by (simp add: ensureRolesAreRetained_alt startProgress_names)
    moreover have "callsSince (startProgress o1) o2 = [EnvironmentTemplate (appName o1) (name o1)]"
      using doEnvironmentTemplate_calls [of d "appName o1" "name o1" "startProgress o1"] tmpl
      by (simp add: callsSince_def)
    ultimately show "filter isUpdateEnvironmentTemplate (callsSince o0 (snd (Execute d opts))) = []"
      using upd by simp
  }
  {
    fix env o3 p0 p1 q0 q1
    assume cfg: "getEnvConfig d o2 = (Inr env, o3)"
      and ne: "\<not> retainsRole body execRoleLine" and nm: "\<not> retainsRole body managerRoleLine"
      and sp1: "Split body execRoleLine = [p0, p1]"
      and sp2: "Split (p0 @ execRoleLine @ retainLine @ p1) managerRoleLine = [q0, q1]"
    show "body = p0 @ execRoleLine @ p1"
      by (rule Split_length2 [OF execLine sp1])
    show eq: "p0 @ execRoleLine @ retainLine @ p1 = q0 @ managerRoleLine @ q1"
      by (rule Split_length2 [OF mgrLine sp2])
    show "Contains (q0 @ managerRoleLine @ retainLine @ q1) (execRoleLine @ retainLine)"
      by (rule exec_block_survives [OF eq [symmetric]])
    have "Contains (q0 @ (managerRoleLine @ retainLine) @ q1) (managerRoleLine @ retainLine)"
      by (rule Contains_occurrence)
    then show "Contains (q0 @ managerRoleLine @ retainLine @ q1) (managerRoleLine @ retainLine)"
      by simp
    from ensure_calls_update [OF tmpl' cfg, of "p0 @ execRoleLine @ retainLine @ p1"
        "q0 @ managerRoleLine @ retainLine @ q1"] ne nm sp1 sp2
    show "filter isUpdateEnvironmentTemplate (callsSince o0 (snd (Execute d opts)))
        = [UpdateEnvironmentTemplate (appName o1) (name o1)
             (q0 @ managerRoleLine @ retainLine @ q1) (ExecutionRoleARN env)]"
      using upd by (simp add: insertRetain_Some startProgress_names)
  }
  {
    fix env o3 p0 p1
    assume cfg: "getEnvConfig d o2 = (Inr env, o3)"
      and ne: "\<not> retainsRole body execRoleLine" and rm: "retainsRole body managerRoleLine"
      and sp1: "Split body execRoleLine = [p0, p1]"
    show "body = p0 @ execRoleLine @ p1"
      by (rule Split_length2 [OF execLine sp1])
    from ensure_calls_update [OF tmpl' cfg, of "p0 @ execRoleLine @ retainLine @ p1"
        "p0 @ execRoleLine @ retainLine @ p1"] ne rm sp1
    show "filter isUpdateEnvironmentTemplate (callsSince o0 (snd (Execute d opts)))
        = [UpdateEnvironmentTemplate (appName o1) (name o1)
             (p0 @ execRoleLine @ retainLine @ p1) (ExecutionRoleARN env)]"
      using upd by (simp add: insertRetain_Some startProgress_names)
  }
  {
    fix env o3 q0 q1
    assume cfg: "getEnvConfig d o2 = (Inr env, o3)"
      and re: "retainsRole body execRoleLine" and nm: "\<not> retainsRole body managerRoleLine"
      and sp2: "Split body managerRoleLine = [q0, q1]"
    show "body = q0 @ managerRoleLine @ q1"
      by (rule Split_length2 [OF mgrLine sp2])
    from ensure_calls_update [OF tmpl' cfg, of body "q0 @ managerRoleLine @ retainLine @ q1"]
      re nm sp2
    show "filter isUpdateEnvironmentTemplate (callsSince o0 (snd (Execute d opts)))
        = [UpdateEnvironmentTemplate (appName o1) (name o1)
             (q0 @ managerRoleLine @ retainLine @ q1) (ExecutionRoleARN env)]"
      using upd by (simp add: insertRetain_Some startProgress_names)
  }
  show "\<exists>pre post. callsSince o0 (snd (Execute d opts)) = pre @ post
         \<and> (\<forall>c\<in>set pre. \<not> isDeleteEnvironmentStack c)
         \<and> (\<forall>c\<in>set post. \<not> isUpdateEnvironmentTemplate c)"
    by (rule Execute_updates_before_delete [OF init])
qed

text \<open>
  C6. Two runs of \<open>Execute\<close> with no service left, a readable configuration and
  collaborators that succeed. On a template that declares both roles and has neither
  retain block, the run returns nil and makes exactly one template update, whose body has
  the retain block of both roles, in the step before the one that deletes the stack. On a template that has neither retain block and declares neither role,
  \<open>strings.Split\<close> at the line of the execution role yields a single piece and reading
  \<open>parts[1]\<close> panics: the run ends in the self-heal step, right after it has read the
  template, and has made no template update.
\<close>

theorem ensureRolesAreRetained_missing_role_line:
  "\<not> retainsRole legacyTemplate execRoleLine
 \<and> \<not> retainsRole legacyTemplate managerRoleLine
 \<and> fst (Execute (mockDeleteDeps [] (Inr legacyTemplate)) testDeleteOpts) = Returns None
 \<and> filter isUpdateEnvironmentTemplate
      (calls (snd (Execute (mockDeleteDeps [] (Inr legacyTemplate)) testDeleteOpts)))
      = [UpdateEnvironmentTemplate ''phonetool'' ''test'' healedTemplate ''execARN'']
 \<and> retainsRole healedTemplate execRoleLine
 \<and> retainsRole healedTemplate managerRoleLine
 \<and> stepsRun testDeleteOpts (snd (Execute (mockDeleteDeps [] (Inr legacyTemplate)) testDeleteOpts))
      = [1, 2, 2, 3, 4, 4, 5]
 \<and> \<not> retainsRole templateWithoutRoles execRoleLine
 \<and> \<not> retainsRole templateWithoutRoles managerRoleLine
 \<and> Split templateWithoutRoles execRoleLine = [templateWithoutRoles]
 \<and> fst (Execute (mockDeleteDeps [] (Inr templateWithoutRoles)) testDeleteOpts) = Panics
 \<and> filter isUpdateEnvironmentTemplate
      (calls (snd (Execute (mockDeleteDeps [] (Inr templateWithoutRoles)) testDeleteOpts))) = []
 \<and> stepsRun testDeleteOpts
      (snd (Execute (mockDeleteDeps [] (Inr templateWithoutRoles)) testDeleteOpts)) = [1, 2]"
  by code_simp

text \<open>
  C10. When reading the template in the self-heal step fails with an error in which
  \<open>errors.As\<close> finds \<open>ErrStackNotFound\<close>, \<open>ensureRolesAreRetained\<close> returns nil after that
  one call, with no template update. The run goes on: if the configuration can be read,
  the call that deletes the stack is made, and if stack deletion, role deletion and the
  removal of the record succeed, \<open>Execute\<close> returns nil.
\<close>

theorem ensureRolesAreRetained_stack_not_found:
  assumes init: "initRuntimeClients d opts = (None, o0)"
    and chk: "validateNoRunningServices d o0 = (None, o1)"
    and tmpl: "doEnvironmentTemplate d (appName o1) (name o1) (startProgress o1) = (Inl err, o2)"
    and gone: "errors_As_ErrStackNotFound err"
  shows "ensureRolesAreRetained d (startProgress o1) = (Returns None, o2)
   \<and> callsSince (startProgress o1) o2 = [EnvironmentTemplate (appName o1) (name o1)]
   \<and> (\<forall>env o3. getEnvConfig d o2 = (Inr env, o3) \<longrightarrow>
         DeleteEnvironmentStack (appName o1) (name o1) (ExecutionRoleARN env)
           \<in> set (callsSince o0 (snd (Execute d opts))))
   \<and> (\<forall>o3 o4 o5. deleteStack d o2 = (None, o3) \<and> deleteRoles d o3 = (None, o4)
           \<and> deleteFromStore d o4 = (None, o5) \<longrightarrow>
         Execute d opts = (Returns None, stopComplete o5))"
proof -
  have names: "appName (startProgress o1) = appName o1" "name (startProgress o1) = name o1"
    by (simp_all add: startProgress_def logCall_def)
  have heal: "ensureRolesAreRetained d (startProgress o1) = (Returns None, o2)"
    using tmpl gone by (simp add: ensureRolesAreRetained_alt names)
  have log: "callsSince (startProgress o1) o2 = [EnvironmentTemplate (appName o1) (name o1)]"
    using doEnvironmentTemplate_calls [of d "appName o1" "name o1" "startProgress o1"] tmpl
    by (simp add: callsSince_def)
  have names2: "appName o2 = appName o1" "name o2 = name o1"
    using ensureRolesAreRetained_extends [of "startProgress o1" d] heal names
    by (auto simp add: extends_def)
  have del: "DeleteEnvironmentStack (appName o1) (name o1) (ExecutionRoleARN env)
      \<in> set (callsSince o0 (snd (Execute d opts)))" if cfg: "getEnvConfig d o2 = (Inr env, o3)" for env o3
  proof -
    obtain r3 o3' where s3: "deleteStack d o2 = (r3, o3')"
      by (cases "deleteStack d o2")
    have "prefix (calls o0) (calls o2)"
      by (rule upto_prefix [OF upto_ensure [OF chk heal]])
    moreover have "prefix (calls o3') (calls (snd (Execute d opts)))"
      by (rule Execute_continues_after_self_heal [OF init chk heal s3])
    moreover have "DeleteEnvironmentStack (appName o1) (name o1) (ExecutionRoleARN env)
        \<in> set (callsSince o2 o3')"
      using deleteStack_calls_DeleteEnvironment [OF cfg] s3 names2 by simp
    ultimately show ?thesis
      by (rule callsSince_mem_mono)
  qed
  have fin: "Execute d opts = (Returns None, stopComplete o5)"
    if "deleteStack d o2 = (None, o3)" "deleteRoles d o3 = (None, o4)"
      "deleteFromStore d o4 = (None, o5)" for o3 o4 o5
    using Execute_all_steps(1) [OF init chk heal that] .
  from heal log del fin show ?thesis
    by blast
qed

theorem ensureRolesAreRetained_stack_not_found_witness:
  "Execute (mockDeleteDeps [] (Inl stackGone)) testDeleteOpts
     = (Returns None,
        testDeleteOpts\<lparr>calls :=
          [GetResources (serviceStacksQuery (mockDeleteDeps [] (Inl stackGone)) testDeleteOpts),
           ProgStart ''Deleting environment test from application phonetool.'',
           EnvironmentTemplate ''phonetool'' ''test'',
           DeleteEnvironmentStack ''phonetool'' ''test'' ''execARN'',
           DeleteRole ''execARN'', DeleteRole ''managerRoleARN'',
           StoreDeleteEnvironment ''phonetool'' ''test'',
           ProgStop (Ssuccess (fmtDeleteEnvComplete ''test'' ''phonetool''))]\<rparr>)"
proof -
  let ?d = "mockDeleteDeps [] (Inl stackGone)"
  let ?o1 = "testDeleteOpts\<lparr>calls := [GetResources (serviceStacksQuery ?d testDeleteOpts)]\<rparr>"
  let ?o2 = "testDeleteOpts\<lparr>calls := [GetResources (serviceStacksQuery ?d testDeleteOpts),
      ProgStart ''Deleting environment test from application phonetool.'',
      EnvironmentTemplate ''phonetool'' ''test'']\<rparr>"
  have init: "initRuntimeClients ?d testDeleteOpts = (None, testDeleteOpts)"
    by (simp add: mockDeleteDeps_def)
  have chk: "validateNoRunningServices ?d testDeleteOpts = (None, ?o1)"
    by (simp add: validateNoRunningServices_def doGetResources_def logCall_def
        serviceStacksQuery_def mockDeleteDeps_def testDeleteOpts_def)
  have tmpl: "doEnvironmentTemplate ?d (appName ?o1) (name ?o1) (startProgress ?o1) = (Inl stackGone, ?o2)"
    by (simp add: doEnvironmentTemplate_def startProgress_def logCall_def fmtDeleteEnvStart_def
        mockDeleteDeps_def testDeleteOpts_def)
  have gone: "errors_As_ErrStackNotFound stackGone"
    by (simp add: stackGone_def)
  from ensureRolesAreRetained_stack_not_found [OF init chk tmpl gone]
  show ?thesis
    by (simp add: deleteStack_def deleteRoles_def deleteFromStore_def getEnvConfig_def
        doDeleteEnvironment_def doDeleteRole_def doStoreDeleteEnvironment_def logCall_def
        stopComplete_def mockDeleteDeps_def testDeleteOpts_def testEnvironment_def
        serviceStacksQuery_def)
qed
section \<open>Verification: initialising an environment\<close>

lemma events_foldl_calls:
  "foldl (\<lambda>s stackEvent. s\<lparr>calls := calls s @ [ProgressEvents
       (humanizeEnvironmentEvents d (importVPCVars_isSet (importVPC s)) stackEvent)]\<rparr>) o3 evs
   = o3\<lparr>calls := calls o3 @ map (\<lambda>stackEvent. ProgressEvents
       (humanizeEnvironmentEvents d (importVPCVars_isSet (importVPC o3)) stackEvent)) evs\<rparr>"
  by (induction evs arbitrary: o3) simp_all

lemma filter_remote_events [simp]:
  "filter isRemoteCall (map (\<lambda>ev. ProgressEvents (f ev)) evs) = []"
  by (induction evs) simp_all

lemma filter_store_events [simp]:
  "filter isStoreCreateEnvironment (map (\<lambda>ev. ProgressEvents (f ev)) evs) = []"
  by (induction evs) simp_all

lemma vpcConfig_unchanged:
  "importVPCConfig (s\<lparr>calls := c\<rparr>) = importVPCConfig s"
  "importVPCConfig (s\<lparr>world := w\<rparr>) = importVPCConfig s"
  "adjustVPCConfig (s\<lparr>calls := c\<rparr>) = adjustVPCConfig s"
  "adjustVPCConfig (s\<lparr>world := w\<rparr>) = adjustVPCConfig s"
  by (simp_all add: importVPCConfig_def adjustVPCConfig_def)

lemmas run_defs = vpcConfig_unchanged
  initEnvOpts_Execute_def doGetApplication_def doCreateEnvironment_def doEnvIdentityGet_def
  doIdentityGet_def doDelegateDNSPermissions_def doAddEnvToApp_def doDeployEnvironment_def
  doStreamEnvironmentCreation_def doGetEnvironment_def
  delegateDNSFromApp_def deployEnv_def addToStackset_def deployEnvInput_def recordToPersist_def
  logCall_def Let_def events_foldl_calls remoteCalls_def persisted_def callsSince_def

lemma dnsDelegated_iff:
  "dnsDelegated d app w1 ds w2 \<longleftrightarrow>
     ((\<not> RequiresDNSDelegation d app \<and> ds = [] \<and> w2 = w1)
    \<or> (RequiresDNSDelegation d app
        \<and> (\<exists>envAccount. envIdentity_Get d w1 = (Inr envAccount, w2)
              \<and> Account envAccount = AppAccountID app \<and> ds = [EnvIdentityGet]))
    \<or> (RequiresDNSDelegation d app
        \<and> (\<exists>envAccount wi. envIdentity_Get d w1 = (Inr envAccount, wi)
              \<and> Account envAccount \<noteq> AppAccountID app
              \<and> appDeployer_DelegateDNSPermissions d app (Account envAccount) wi = (None, w2)
              \<and> ds = [EnvIdentityGet, DelegateDNSPermissions app (Account envAccount)])))"
  unfolding dnsDelegated_def
  by (auto split: if_splits prod.splits sum.splits)

lemma run_get_application_fails:
  assumes "store_GetApplication d (appName opts) (world opts) = (Inl e, w1)"
  shows "\<exists>s. initEnvOpts_Execute d opts = (Some e, s)
       \<and> remoteCalls opts s = [StoreGetApplication (appName opts)]
       \<and> persisted opts s = []"
  using assms by (simp add: run_defs)

lemma run_env_identity_fails:
  assumes "store_GetApplication d (appName opts) (world opts) = (Inr app, w1)"
    and "RequiresDNSDelegation d app"
    and "envIdentity_Get d w1 = (Inl e, wi)"
  shows "\<exists>s. initEnvOpts_Execute d opts = (Some (WrapError (''granting DNS permissions: ''
               @ ''getting environment account ID for DNS Delegation: '' @ Error e)
               (WrapError (''getting environment account ID for DNS Delegation: '' @ Error e) e)), s)
       \<and> remoteCalls opts s = [StoreGetApplication (appName opts), EnvIdentityGet]
       \<and> persisted opts s = []"
  using assms by (simp add: run_defs)

lemma run_delegation_fails:
  assumes "store_GetApplication d (appName opts) (world opts) = (Inr app, w1)"
    and "RequiresDNSDelegation d app"
    and "envIdentity_Get d w1 = (Inr envAccount, wi)"
    and "Account envAccount \<noteq> AppAccountID app"
    and "appDeployer_DelegateDNSPermissions d app (Account envAccount) wi = (Some e, w2)"
  shows "\<exists>s. initEnvOpts_Execute d opts
             = (Some (WrapError (''granting DNS permissions: '' @ Error e) e), s)
       \<and> remoteCalls opts s = [StoreGetApplication (appName opts), EnvIdentityGet,
                               DelegateDNSPermissions app (Account envAccount)]
       \<and> persisted opts s = []"
  using assms by (simp add: run_defs)

lemma run_identity_fails:
  assumes "store_GetApplication d (appName opts) (world opts) = (Inr app, w1)"
    and "dnsDelegated d app w1 ds w2"
    and "identity_Get d w2 = (Inl e, w3)"
  shows "\<exists>s. initEnvOpts_Execute d opts
             = (Some (WrapError (''get identity: '' @ Error e) e), s)
       \<and> remoteCalls opts s = StoreGetApplication (appName opts) # ds @ [IdentityGet]
       \<and> persisted opts s = []"
  using assms unfolding dnsDelegated_iff
  by (elim disjE conjE exE) (simp_all add: run_defs)

lemma run_deployment_fails:
  assumes "store_GetApplication d (appName opts) (world opts) = (Inr app, w1)"
    and "dnsDelegated d app w1 ds w2"
    and "identity_Get d w2 = (Inr caller, w3)"
    and "envDeployer_DeployEnvironment d (deployEnvInput d app caller opts) w3 = (Some e, w4)"
    and "\<not> errors_As_ErrStackAlreadyExists e"
  shows "\<exists>s. initEnvOpts_Execute d opts = (Some e, s)
       \<and> remoteCalls opts s = StoreGetApplication (appName opts) # ds
               @ [IdentityGet, DeployEnvironment (deployEnvInput d app caller opts)]
       \<and> persisted opts s = []"
  using assms unfolding dnsDelegated_iff
  by (elim disjE conjE exE) (simp_all add: run_defs)

lemma run_stream_fails:
  assumes "store_GetApplication d (appName opts) (world opts) = (Inr app, w1)"
    and "dnsDelegated d app w1 ds w2"
    and "identity_Get d w2 = (Inr caller, w3)"
    and "envDeployer_DeployEnvironment d (deployEnvInput d app caller opts) w3 = (None, w4)"
    and "envDeployer_StreamEnvironmentCreation d (deployEnvInput d app caller opts) w4
           = ((evs, Some e), w5)"
  shows "\<exists>s. initEnvOpts_Execute d opts = (Some e, s)
       \<and> remoteCalls opts s = StoreGetApplication (appName opts) # ds
               @ [IdentityGet, DeployEnvironment (deployEnvInput d app caller opts),
                  StreamEnvironmentCreation (deployEnvInput d app caller opts)]
       \<and> persisted opts s = []"
  using assms unfolding dnsDelegated_iff
  by (elim disjE conjE exE) (simp_all add: run_defs)

lemma run_description_fails:
  assumes "store_GetApplication d (appName opts) (world opts) = (Inr app, w1)"
    and "dnsDelegated d app w1 ds w2"
    and "identity_Get d w2 = (Inr caller, w3)"
    and "(\<exists>e. envDeployer_DeployEnvironment d (deployEnvInput d app caller opts) w3 = (Some e, w5)
            \<and> errors_As_ErrStackAlreadyExists e
            \<and> cs = [DeployEnvironment (deployEnvInput d app caller opts)])
       \<or> (\<exists>w4 evs. envDeployer_DeployEnvironment d (deployEnvInput d app caller opts) w3 = (None, w4)
            \<and> envDeployer_StreamEnvironmentCreation d (deployEnvInput d app caller opts) w4
                = ((evs, None), w5)
            \<and> cs = [DeployEnvironment (deployEnvInput d app caller opts),
                     StreamEnvironmentCreation (deployEnvInput d app caller opts)])"
    and "envDeployer_GetEnvironment d (appName opts) (name opts) w5 = (Inl e, w6)"
  shows "\<exists>s. initEnvOpts_Execute d opts
             = (Some (WrapError (''get environment struct for '' @ name opts @ '': ''
                        @ Error e) e), s)
       \<and> remoteCalls opts s = StoreGetApplication (appName opts) # ds @ IdentityGet # cs
               @ [DeployerGetEnvironment (appName opts) (name opts)]
       \<and> persisted opts s = []"
  using assms unfolding dnsDelegated_iff
  by (elim disjE conjE exE) (simp_all add: run_defs)

lemma run_registration_fails:
  assumes "store_GetApplication d (appName opts) (world opts) = (Inr app, w1)"
    and "dnsDelegated d app w1 ds w2"
    and "identity_Get d w2 = (Inr caller, w3)"
    and "(\<exists>e. envDeployer_DeployEnvironment d (deployEnvInput d app caller opts) w3 = (Some e, w5)
            \<and> errors_As_ErrStackAlreadyExists e
            \<and> cs = [DeployEnvironment (deployEnvInput d app caller opts)])
       \<or> (\<exists>w4 evs. envDeployer_DeployEnvironment d (deployEnvInput d app caller opts) w3 = (None, w4)
            \<and> envDeployer_StreamEnvironmentCreation d (deployEnvInput d app caller opts) w4
                = ((evs, None), w5)
            \<and> cs = [DeployEnvironment (deployEnvInput d app caller opts),
                     StreamEnvironmentCreation (deployEnvInput d app caller opts)])"
    and "envDeployer_GetEnvironment d (appName opts) (name opts) w5 = (Inr env0, w6)"
    and "appDeployer_AddEnvToApp d app (recordToPersist d opts env0) w6 = (Some e, w7)"
  shows "\<exists>s. initEnvOpts_Execute d opts = (Some (WrapError (''deploy env '' @ Name (recordToPersist d opts env0)
                     @ '' to application '' @ AppName app @ '': '' @ Error e) e), s)
       \<and> remoteCalls opts s = StoreGetApplication (appName opts) # ds @ IdentityGet # cs
               @ [DeployerGetEnvironment (appName opts) (name opts), AddEnvToApp app (recordToPersist d opts env0)]
       \<and> persisted opts s = []"
  using assms unfolding dnsDelegated_iff
  by (elim disjE conjE exE) (simp_all add: run_defs)

lemma run_stores:
  assumes "store_GetApplication d (appName opts) (world opts) = (Inr app, w1)"
    and "dnsDelegated d app w1 ds w2"
    and "identity_Get d w2 = (Inr caller, w3)"
    and "(\<exists>e. envDeployer_DeployEnvironment d (deployEnvInput d app caller opts) w3 = (Some e, w5)
            \<and> errors_As_ErrStackAlreadyExists e
            \<and> cs = [DeployEnvironment (deployEnvInput d app caller opts)])
       \<or> (\<exists>w4 evs. envDeployer_DeployEnvironment d (deployEnvInput d app caller opts) w3 = (None, w4)
            \<and> envDeployer_StreamEnvironmentCreation d (deployEnvInput d app caller opts) w4
                = ((evs, None), w5)
            \<and> cs = [DeployEnvironment (deployEnvInput d app caller opts),
                     StreamEnvironmentCreation (deployEnvInput d app caller opts)])"
    and "envDeployer_GetEnvironment d (appName opts) (name opts) w5 = (Inr env0, w6)"
    and "appDeployer_AddEnvToApp d app (recordToPersist d opts env0) w6 = (None, w7)"
    and "store_CreateEnvironment d (recordToPersist d opts env0) w7 = (rs, w8)"
  shows "\<exists>s. initEnvOpts_Execute d opts = ((case rs of None \<Rightarrow> None
              | Some e \<Rightarrow> Some (WrapError (''store environment: '' @ Error e) e)), s)
       \<and> remoteCalls opts s = StoreGetApplication (appName opts) # ds @ IdentityGet # cs
               @ [DeployerGetEnvironment (appName opts) (name opts), AddEnvToApp app (recordToPersist d opts env0),
                  StoreCreateEnvironment (recordToPersist d opts env0)]
       \<and> persisted opts s = [StoreCreateEnvironment (recordToPersist d opts env0)]"
  using assms unfolding dnsDelegated_iff
  by (cases rs; elim disjE conjE exE) (simp_all add: run_defs)

lemma dns_outcomes:
  "(\<exists>ds w2. dnsDelegated d app w1 ds w2)
 \<or> (\<exists>e wi. RequiresDNSDelegation d app \<and> envIdentity_Get d w1 = (Inl e, wi))
 \<or> (\<exists>envAccount wi e w2. RequiresDNSDelegation d app
        \<and> envIdentity_Get d w1 = (Inr envAccount, wi)
        \<and> Account envAccount \<noteq> AppAccountID app
        \<and> appDeployer_DelegateDNSPermissions d app (Account envAccount) wi = (Some e, w2))"
proof (cases "RequiresDNSDelegation d app")
  case False
  then have "dnsDelegated d app w1 [] w1"
    by (simp add: dnsDelegated_def)
  then show ?thesis by blast
next
  case True
  obtain r wi where i: "envIdentity_Get d w1 = (r, wi)"
    by (cases "envIdentity_Get d w1")
  show ?thesis
  proof (cases r)
    case (Inl e)
    with True i show ?thesis by blast
  next
    case (Inr envAccount)
    show ?thesis
    proof (cases "Account envAccount = AppAccountID app")
      case same: True
      with True i Inr have "dnsDelegated d app w1 [EnvIdentityGet] wi"
        by (simp add: dnsDelegated_def)
      then show ?thesis by blast
    next
      case other: False
      obtain r2 w2 where p: "appDeployer_DelegateDNSPermissions d app (Account envAccount) wi = (r2, w2)"
        by (cases "appDeployer_DelegateDNSPermissions d app (Account envAccount) wi")
      show ?thesis
      proof (cases r2)
        case None
        with True i Inr other p
        have "dnsDelegated d app w1 [EnvIdentityGet, DelegateDNSPermissions app (Account envAccount)] w2"
          by (simp add: dnsDelegated_def)
        then show ?thesis by blast
      next
        case (Some e)
        with True i Inr other p show ?thesis by blast
      qed
    qed
  qed
qed

lemma deploy_outcomes:
  "(\<exists>e w4. envDeployer_DeployEnvironment d inp w3 = (Some e, w4)
        \<and> \<not> errors_As_ErrStackAlreadyExists e)
 \<or> (\<exists>w4 evs e w5. envDeployer_DeployEnvironment d inp w3 = (None, w4)
        \<and> envDeployer_StreamEnvironmentCreation d inp w4 = ((evs, Some e), w5))
 \<or> (\<exists>cs w5.
       (\<exists>e. envDeployer_DeployEnvironment d inp w3 = (Some e, w5)
            \<and> errors_As_ErrStackAlreadyExists e \<and> cs = [DeployEnvironment inp])
     \<or> (\<exists>w4 evs. envDeployer_DeployEnvironment d inp w3 = (None, w4)
            \<and> envDeployer_StreamEnvironmentCreation d inp w4 = ((evs, None), w5)
            \<and> cs = [DeployEnvironment inp, StreamEnvironmentCreation inp]))"
proof -
  obtain rd w4 where dep: "envDeployer_DeployEnvironment d inp w3 = (rd, w4)"
    by (cases "envDeployer_DeployEnvironment d inp w3")
  obtain evs rs w5 where str: "envDeployer_StreamEnvironmentCreation d inp w4 = ((evs, rs), w5)"
    by (cases "envDeployer_StreamEnvironmentCreation d inp w4") auto
  show ?thesis
  proof (cases rd)
    case None
    with dep str show ?thesis
      by (cases rs) auto
  next
    case (Some e)
    with dep show ?thesis
      by (cases "errors_As_ErrStackAlreadyExists e") auto
  qed
qed

lemma run_stored_only_after:
  assumes st: "persisted opts (snd (initEnvOpts_Execute d opts)) \<noteq> []"
  shows "\<exists>app w1 ds w2 caller w3 cs w5 env0 w6 w7.
      store_GetApplication d (appName opts) (world opts) = (Inr app, w1)
    \<and> dnsDelegated d app w1 ds w2
    \<and> identity_Get d w2 = (Inr caller, w3)
    \<and> ((\<exists>e. envDeployer_DeployEnvironment d (deployEnvInput d app caller opts) w3 = (Some e, w5)
            \<and> errors_As_ErrStackAlreadyExists e
            \<and> cs = [DeployEnvironment (deployEnvInput d app caller opts)])
       \<or> (\<exists>w4 evs. envDeployer_DeployEnvironment d (deployEnvInput d app caller opts) w3 = (None, w4)
            \<and> envDeployer_StreamEnvironmentCreation d (deployEnvInput d app caller opts) w4
                = ((evs, None), w5)
            \<and> cs = [DeployEnvironment (deployEnvInput d app caller opts),
                     StreamEnvironmentCreation (deployEnvInput d app caller opts)]))
    \<and> envDeployer_GetEnvironment d (appName opts) (name opts) w5 = (Inr env0, w6)
    \<and> appDeployer_AddEnvToApp d app (recordToPersist d opts env0) w6 = (None, w7)"
proof -
  have no: "\<not> (\<exists>s. initEnvOpts_Execute d opts = (r, s) \<and> remoteCalls opts s = cs
                \<and> persisted opts s = [])" for r cs
    using st by auto
  obtain ra w1 where g0: "store_GetApplication d (appName opts) (world opts) = (ra, w1)"
    by (cases "store_GetApplication d (appName opts) (world opts)")
  from run_get_application_fails [of d opts _ w1] g0 no
  obtain app where g: "store_GetApplication d (appName opts) (world opts) = (Inr app, w1)"
    by (cases ra) auto
  from dns_outcomes [of d app w1] run_env_identity_fails [OF g] run_delegation_fails [OF g] no
  obtain ds w2 where dns: "dnsDelegated d app w1 ds w2"
    by blast
  obtain rc w3 where i0: "identity_Get d w2 = (rc, w3)"
    by (cases "identity_Get d w2")
  from run_identity_fails [OF g dns, of _ w3] i0 no
  obtain caller where idn: "identity_Get d w2 = (Inr caller, w3)"
    by (cases rc) auto
  let ?inp = "deployEnvInput d app caller opts"
  from deploy_outcomes [of d ?inp w3] run_deployment_fails [OF g dns idn]
    run_stream_fails [OF g dns idn] no
  obtain cs w5 where dep:
    "(\<exists>e. envDeployer_DeployEnvironment d ?inp w3 = (Some e, w5)
        \<and> errors_As_ErrStackAlreadyExists e \<and> cs = [DeployEnvironment ?inp])
   \<or> (\<exists>w4 evs. envDeployer_DeployEnvironment d ?inp w3 = (None, w4)
        \<and> envDeployer_StreamEnvironmentCreation d ?inp w4 = ((evs, None), w5)
        \<and> cs = [DeployEnvironment ?inp, StreamEnvironmentCreation ?inp])"
    by blast
  obtain rg w6 where g1: "envDeployer_GetEnvironment d (appName opts) (name opts) w5 = (rg, w6)"
    by (cases "envDeployer_GetEnvironment d (appName opts) (name opts) w5")
  from run_description_fails [OF g dns idn dep, of _ w6] g1 no
  obtain env0 where get: "envDeployer_GetEnvironment d (appName opts) (name opts) w5 = (Inr env0, w6)"
    by (cases rg) auto
  obtain rr w7 where a0: "appDeployer_AddEnvToApp d app (recordToPersist d opts env0) w6 = (rr, w7)"
    by (cases "appDeployer_AddEnvToApp d app (recordToPersist d opts env0) w6")
  from run_registration_fails [OF g dns idn dep get, of _ w7] a0 no
  have add: "appDeployer_AddEnvToApp d app (recordToPersist d opts env0) w6 = (None, w7)"
    by (cases rr) auto
  from g dns idn dep get add show ?thesis
    by blast
qed

text \<open>
  C7. Every run of \<open>initEnvOpts.Execute\<close> is one of the cases below, told by what the
  collaborators return; in each, the calls that reach a collaborator are exactly the ones
  listed, in that order, so a failing call is the last one made. The environment is stored
  in the last case only: after the deployment of the stack succeeded (the deployment was
  accepted and the stream of its creation ended without an error, or the deployment failed
  with an error in which \<open>errors.As\<close> finds \<open>ErrStackAlreadyExists\<close>), then the description
  of the environment was read, then the environment was registered into the application's
  stack set. The storing call is then the last call, it stores the described environment
  with the production flag and the VPC settings of the command, and the run returns nil
  when it succeeds; and a run that makes a storing call is of this case. In every other
  case (the application cannot be read, the DNS delegation fails, the caller's identity
  cannot be read, the deployment fails with another error, the stream ends with an error,
  the description cannot be read, the registration fails) the run returns that error right
  after the failing call and no call stores the environment.
\<close>

theorem initEnvOpts_Execute_persists_last:
  "(let run = initEnvOpts_Execute d opts; getApp = StoreGetApplication (appName opts);
        getEnv = DeployerGetEnvironment (appName opts) (name opts) in
   (persisted opts (snd run) \<noteq> [] \<longrightarrow>
      (\<exists>app w1 ds w2 caller w3 cs w5 env0 w6 w7.
          store_GetApplication d (appName opts) (world opts) = (Inr app, w1)
        \<and> dnsDelegated d app w1 ds w2
        \<and> identity_Get d w2 = (Inr caller, w3)
        \<and> ((\<exists>e. envDeployer_DeployEnvironment d (deployEnvInput d app caller opts) w3
                     = (Some e, w5)
                \<and> errors_As_ErrStackAlreadyExists e
                \<and> cs = [DeployEnvironment (deployEnvInput d app caller opts)])
           \<or> (\<exists>w4 evs. envDeployer_DeployEnvironment d (deployEnvInput d app caller opts) w3
                     = (None, w4)
                \<and> envDeployer_StreamEnvironmentCreation d (deployEnvInput d app caller opts) w4
                    = ((evs, None), w5)
                \<and> cs = [DeployEnvironment (deployEnvInput d app caller opts),
                         StreamEnvironmentCreation (deployEnvInput d app caller opts)]))
        \<and> envDeployer_GetEnvironment d (appName opts) (name opts) w5 = (Inr env0, w6)
        \<and> appDeployer_AddEnvToApp d app (recordToPersist d opts env0) w6 = (None, w7)
        \<and> remoteCalls opts (snd run)
            = getApp # ds @ IdentityGet # cs
                @ [getEnv, AddEnvToApp app (recordToPersist d opts env0),
                   StoreCreateEnvironment (recordToPersist d opts env0)]))
 \<and> (\<forall>e w1. store_GetApplication d (appName opts) (world opts) = (Inl e, w1) \<longrightarrow>
      fst run = Some e \<and> remoteCalls opts (snd run) = [getApp] \<and> persisted opts (snd run) = [])
 \<and> (\<forall>app w1. store_GetApplication d (appName opts) (world opts) = (Inr app, w1) \<longrightarrow>
     (\<forall>e wi. RequiresDNSDelegation d app \<and> envIdentity_Get d w1 = (Inl e, wi) \<longrightarrow>
        fst run = Some (WrapError (''granting DNS permissions: ''
                     @ ''getting environment account ID for DNS Delegation: '' @ Error e)
                   (WrapError (''getting environment account ID for DNS Delegation: '' @ Error e) e))
        \<and> remoteCalls opts (snd run) = [getApp, EnvIdentityGet]
        \<and> persisted opts (snd run) = [])
   \<and> (\<forall>envAccount wi e w2. RequiresDNSDelegation d app
          \<and> envIdentity_Get d w1 = (Inr envAccount, wi)
          \<and> Account envAccount \<noteq> AppAccountID app
          \<and> appDeployer_DelegateDNSPermissions d app (Account envAccount) wi = (Some e, w2) \<longrightarrow>
        fst run = Some (WrapError (''granting DNS permissions: '' @ Error e) e)
        \<and> remoteCalls opts (snd run)
            = [getApp, EnvIdentityGet, DelegateDNSPermissions app (Account envAccount)]
        \<and> persisted opts (snd run) = [])
   \<and> (\<forall>ds w2. dnsDelegated d app w1 ds w2 \<longrightarrow>
       (\<forall>e w3. identity_Get d w2 = (Inl e, w3) \<longrightarrow>
          fst run = Some (WrapError (''get identity: '' @ Error e) e)
          \<and> remoteCalls opts (snd run) = getApp # ds @ [IdentityGet]
          \<and> persisted opts (snd run) = [])
     \<and> (\<forall>caller w3. identity_Get d w2 = (Inr caller, w3) \<longrightarrow>
        (let inp = deployEnvInput d app caller opts in
         (\<forall>e w4. envDeployer_DeployEnvironment d inp w3 = (Some e, w4)
              \<and> \<not> errors_As_ErrStackAlreadyExists e \<longrightarrow>
            fst run = Some e
            \<and> remoteCalls opts (snd run) = getApp # ds @ [IdentityGet, DeployEnvironment inp]
            \<and> persisted opts (snd run) = [])
       \<and> (\<forall>w4 evs e w5. envDeployer_DeployEnvironment d inp w3 = (None, w4)
              \<and> envDeployer_StreamEnvironmentCreation d inp w4 = ((evs, Some e), w5) \<longrightarrow>
            fst run = Some e
            \<and> remoteCalls opts (snd run)
                = getApp # ds @ [IdentityGet, DeployEnvironment inp, StreamEnvironmentCreation inp]
            \<and> persisted opts (snd run) = [])
       \<and> (\<forall>cs w5.
              ((\<exists>e. envDeployer_DeployEnvironment d inp w3 = (Some e, w5)
                    \<and> errors_As_ErrStackAlreadyExists e \<and> cs = [DeployEnvironment inp])
             \<or> (\<exists>w4 evs. envDeployer_DeployEnvironment d inp w3 = (None, w4)
                    \<and> envDeployer_StreamEnvironmentCreation d inp w4 = ((evs, None), w5)
                    \<and> cs = [DeployEnvironment inp, StreamEnvironmentCreation inp])) \<longrightarrow>
            (\<forall>e w6. envDeployer_GetEnvironment d (appName opts) (name opts) w5 = (Inl e, w6) \<longrightarrow>
               fst run = Some (WrapError (''get environment struct for '' @ name opts @ '': ''
                                  @ Error e) e)
               \<and> remoteCalls opts (snd run) = getApp # ds @ IdentityGet # cs @ [getEnv]
               \<and> persisted opts (snd run) = [])
          \<and> (\<forall>env0 w6. envDeployer_GetEnvironment d (appName opts) (name opts) w5
                            = (Inr env0, w6) \<longrightarrow>
             (let env = recordToPersist d opts env0 in
              (\<forall>e w7. appDeployer_AddEnvToApp d app env w6 = (Some e, w7) \<longrightarrow>
                 fst run = Some (WrapError (''deploy env '' @ Name env @ '' to application ''
                                    @ AppName app @ '': '' @ Error e) e)
                 \<and> remoteCalls opts (snd run)
                     = getApp # ds @ IdentityGet # cs @ [getEnv, AddEnvToApp app env]
                 \<and> persisted opts (snd run) = [])
            \<and> (\<forall>w7 rs w8. appDeployer_AddEnvToApp d app env w6 = (None, w7)
                   \<and> store_CreateEnvironment d env w7 = (rs, w8) \<longrightarrow>
                 fst run = (case rs of None \<Rightarrow> None
                            | Some e \<Rightarrow> Some (WrapError (''store environment: '' @ Error e) e))
                 \<and> remoteCalls opts (snd run)
                     = getApp # ds @ IdentityGet # cs
                         @ [getEnv, AddEnvToApp app env, StoreCreateEnvironment env]
                 \<and> persisted opts (snd run) = [StoreCreateEnvironment env])))))))))"
  unfolding Let_def
proof (intro conjI allI impI; (elim conjE)?)
  assume "persisted opts (snd (initEnvOpts_Execute d opts)) \<noteq> []"
  from run_stored_only_after [OF this]
  obtain app w1 ds w2 caller w3 cs w5 env0 w6 w7
    where g: "store_GetApplication d (appName opts) (world opts) = (Inr app, w1)"
      and dns: "dnsDelegated d app w1 ds w2"
      and idn: "identity_Get d w2 = (Inr caller, w3)"
      and dep: "(\<exists>e. envDeployer_DeployEnvironment d (deployEnvInput d app caller opts) w3
                     = (Some e, w5)
                \<and> errors_As_ErrStackAlreadyExists e
                \<and> cs = [DeployEnvironment (deployEnvInput d app caller opts)])
           \<or> (\<exists>w4 evs. envDeployer_DeployEnvironment d (deployEnvInput d app caller opts) w3
                     = (None, w4)
                \<and> envDeployer_StreamEnvironmentCreation d (deployEnvInput d app caller opts) w4
                    = ((evs, None), w5)
                \<and> cs = [DeployEnvironment (deployEnvInput d app caller opts),
                         StreamEnvironmentCreation (deployEnvInput d app caller opts)])"
      and get: "envDeployer_GetEnvironment d (appName opts) (name opts) w5 = (Inr env0, w6)"
      and add: "appDeployer_AddEnvToApp d app (recordToPersist d opts env0) w6 = (None, w7)"
    by blast
  obtain rs w8 where "store_CreateEnvironment d (recordToPersist d opts env0) w7 = (rs, w8)"
    by (cases "store_CreateEnvironment d (recordToPersist d opts env0) w7")
  from run_stores [OF g dns idn dep get add this]
  have "remoteCalls opts (snd (initEnvOpts_Execute d opts))
      = StoreGetApplication (appName opts) # ds @ IdentityGet # cs
          @ [DeployerGetEnvironment (appName opts) (name opts),
             AddEnvToApp app (recordToPersist d opts env0),
             StoreCreateEnvironment (recordToPersist d opts env0)]"
    by auto
  with g dns idn dep get add
  show "\<exists>app w1 ds w2 caller w3 cs w5 env0 w6 w7.
          store_GetApplication d (appName opts) (world opts) = (Inr app, w1)
        \<and> dnsDelegated d app w1 ds w2
        \<and> identity_Get d w2 = (Inr caller, w3)
        \<and> ((\<exists>e. envDeployer_DeployEnvironment d (deployEnvInput d app caller opts) w3
                     = (Some e, w5)
                \<and> errors_As_ErrStackAlreadyExists e
                \<and> cs = [DeployEnvironment (deployEnvInput d app caller opts)])
           \<or> (\<exists>w4 evs. envDeployer_DeployEnvironment d (deployEnvInput d app caller opts) w3
                     = (None, w4)
                \<and> envDeployer_StreamEnvironmentCreation d (deployEnvInput d app caller opts) w4
                    = ((evs, None), w5)
                \<and> cs = [DeployEnvironment (deployEnvInput d app caller opts),
                         StreamEnvironmentCreation (deployEnvInput d app caller opts)]))
        \<and> envDeployer_GetEnvironment d (appName opts) (name opts) w5 = (Inr env0, w6)
        \<and> appDeployer_AddEnvToApp d app (recordToPersist d opts env0) w6 = (None, w7)
        \<and> remoteCalls opts (snd (initEnvOpts_Execute d opts))
            = StoreGetApplication (appName opts) # ds @ IdentityGet # cs
                @ [DeployerGetEnvironment (appName opts) (name opts),
                   AddEnvToApp app (recordToPersist d opts env0),
                   StoreCreateEnvironment (recordToPersist d opts env0)]"
    by blast
next
  fix e w1 assume "store_GetApplication d (appName opts) (world opts) = (Inl e, w1)"
  from run_get_application_fails [OF this]
  show "fst (initEnvOpts_Execute d opts) = Some e"
    and "remoteCalls opts (snd (initEnvOpts_Execute d opts)) = [StoreGetApplication (appName opts)]"
    and "persisted opts (snd (initEnvOpts_Execute d opts)) = []"
    by auto
next
  fix app w1 e wi
  assume "store_GetApplication d (appName opts) (world opts) = (Inr app, w1)"
    "RequiresDNSDelegation d app" "envIdentity_Get d w1 = (Inl e, wi)"
  from run_env_identity_fails [OF this]
  show "fst (initEnvOpts_Execute d opts) = Some (WrapError (''granting DNS permissions: ''
                     @ ''getting environment account ID for DNS Delegation: '' @ Error e)
                   (WrapError (''getting environment account ID for DNS Delegation: '' @ Error e) e))"
    and "remoteCalls opts (snd (initEnvOpts_Execute d opts))
          = [StoreGetApplication (appName opts), EnvIdentityGet]"
    and "persisted opts (snd (initEnvOpts_Execute d opts)) = []"
    by auto
next
  fix app w1 envAccount wi e w2
  assume "store_GetApplication d (appName opts) (world opts) = (Inr app, w1)"
    "RequiresDNSDelegation d app" "envIdentity_Get d w1 = (Inr envAccount, wi)"
    "Account envAccount \<noteq> AppAccountID app"
    "appDeployer_DelegateDNSPermissions d app (Account envAccount) wi = (Some e, w2)"
  from run_delegation_fails [OF this]
  show "fst (initEnvOpts_Execute d opts)
        = Some (WrapError (''granting DNS permissions: '' @ Error e) e)"
    and "remoteCalls opts (snd (initEnvOpts_Execute d opts))
        = [StoreGetApplication (appName opts), EnvIdentityGet,
           DelegateDNSPermissions app (Account envAccount)]"
    and "persisted opts (snd (initEnvOpts_Execute d opts)) = []"
    by auto
next
  fix app w1 ds w2 e w3
  assume "store_GetApplication d (appName opts) (world opts) = (Inr app, w1)"
    "dnsDelegated d app w1 ds w2" "identity_Get d w2 = (Inl e, w3)"
  from run_identity_fails [OF this]
  show "fst (initEnvOpts_Execute d opts) = Some (WrapError (''get identity: '' @ Error e) e)"
    and "remoteCalls opts (snd (initEnvOpts_Execute d opts))
        = StoreGetApplication (appName opts) # ds @ [IdentityGet]"
    and "persisted opts (snd (initEnvOpts_Execute d opts)) = []"
    by auto
next
  fix app w1 ds w2 caller w3 e w4
  assume "store_GetApplication d (appName opts) (world opts) = (Inr app, w1)"
    "dnsDelegated d app w1 ds w2" "identity_Get d w2 = (Inr caller, w3)"
    "envDeployer_DeployEnvironment d (deployEnvInput d app caller opts) w3 = (Some e, w4)"
    "\<not> errors_As_ErrStackAlreadyExists e"
  from run_deployment_fails [OF this]
  show "fst (initEnvOpts_Execute d opts) = Some e"
    and "remoteCalls opts (snd (initEnvOpts_Execute d opts))
        = StoreGetApplication (appName opts) # ds
            @ [IdentityGet, DeployEnvironment (deployEnvInput d app caller opts)]"
    and "persisted opts (snd (initEnvOpts_Execute d opts)) = []"
    by auto
next
  fix app w1 ds w2 caller w3 w4 evs e w5
  assume "store_GetApplication d (appName opts) (world opts) = (Inr app, w1)"
    "dnsDelegated d app w1 ds w2" "identity_Get d w2 = (Inr caller, w3)"
    "envDeployer_DeployEnvironment d (deployEnvInput d app caller opts) w3 = (None, w4)"
    "envDeployer_StreamEnvironmentCreation d (deployEnvInput d app caller opts) w4
       = ((evs, Some e), w5)"
  from run_stream_fails [OF this]
  show "fst (initEnvOpts_Execute d opts) = Some e"
    and "remoteCalls opts (snd (initEnvOpts_Execute d opts))
        = StoreGetApplication (appName opts) # ds
            @ [IdentityGet, DeployEnvironment (deployEnvInput d app caller opts),
               StreamEnvironmentCreation (deployEnvInput d app caller opts)]"
    and "persisted opts (snd (initEnvOpts_Execute d opts)) = []"
    by auto
next
  fix app w1 ds w2 caller w3 cs w5
  assume g: "store_GetApplication d (appName opts) (world opts) = (Inr app, w1)"
    and dns: "dnsDelegated d app w1 ds w2" and idn: "identity_Get d w2 = (Inr caller, w3)"
    and dep: "(\<exists>e. envDeployer_DeployEnvironment d (deployEnvInput d app caller opts) w3 = (Some e, w5)
                \<and> errors_As_ErrStackAlreadyExists e
                \<and> cs = [DeployEnvironment (deployEnvInput d app caller opts)])
           \<or> (\<exists>w4 evs. envDeployer_DeployEnvironment d (deployEnvInput d app caller opts) w3 = (None, w4)
                \<and> envDeployer_StreamEnvironmentCreation d (deployEnvInput d app caller opts) w4
                    = ((evs, None), w5)
                \<and> cs = [DeployEnvironment (deployEnvInput d app caller opts),
                         StreamEnvironmentCreation (deployEnvInput d app caller opts)])"
  {
    fix e w6
    assume "envDeployer_GetEnvironment d (appName opts) (name opts) w5 = (Inl e, w6)"
    from run_description_fails [OF g dns idn dep this]
    show "fst (initEnvOpts_Execute d opts)
        = Some (WrapError (''get environment struct for '' @ name opts @ '': '' @ Error e) e)"
      and "remoteCalls opts (snd (initEnvOpts_Execute d opts))
        = StoreGetApplication (appName opts) # ds @ IdentityGet # cs
            @ [DeployerGetEnvironment (appName opts) (name opts)]"
      and "persisted opts (snd (initEnvOpts_Execute d opts)) = []"
      by auto
  }
  fix env0 w6
  assume get: "envDeployer_GetEnvironment d (appName opts) (name opts) w5 = (Inr env0, w6)"
  {
    fix e w7
    assume "appDeployer_AddEnvToApp d app (recordToPersist d opts env0) w6 = (Some e, w7)"
    from run_registration_fails [OF g dns idn dep get this]
    show "fst (initEnvOpts_Execute d opts)
        = Some (WrapError (''deploy env '' @ Name (recordToPersist d opts env0)
                  @ '' to application '' @ AppName app @ '': '' @ Error e) e)"
      and "remoteCalls opts (snd (initEnvOpts_Execute d opts))
        = StoreGetApplication (appName opts) # ds @ IdentityGet # cs
            @ [DeployerGetEnvironment (appName opts) (name opts),
               AddEnvToApp app (recordToPersist d opts env0)]"
      and "persisted opts (snd (initEnvOpts_Execute d opts)) = []"
      by auto
  }
  fix w7 rs w8
  assume "appDeployer_AddEnvToApp d app (recordToPersist d opts env0) w6 = (None, w7)"
    "store_CreateEnvironment d (recordToPersist d opts env0) w7 = (rs, w8)"
  from run_stores [OF g dns idn dep get this]
  show "fst (initEnvOpts_Execute d opts)
      = (case rs of None \<Rightarrow> None
         | Some e \<Rightarrow> Some (WrapError (''store environment: '' @ Error e) e))"
    and "remoteCalls opts (snd (initEnvOpts_Execute d opts))
      = StoreGetApplication (appName opts) # ds @ IdentityGet # cs
          @ [DeployerGetEnvironment (appName opts) (name opts),
             AddEnvToApp app (recordToPersist d opts env0),
             StoreCreateEnvironment (recordToPersist d opts env0)]"
    and "persisted opts (snd (initEnvOpts_Execute d opts))
      = [StoreCreateEnvironment (recordToPersist d opts env0)]"
    by auto
qed

lemma test_facts:
  "deployEnvInput (mockInitDeps r) testApplication
     \<lparr> Account = ''1234567890'', RootUserARN = ''arn:root'' \<rparr> testInitOpts = testInput"
  "recordToPersist (mockInitDeps r) testInitOpts testEnvironment = testEnvironment"
  "dnsDelegated (mockInitDeps r) testApplication w1 ds w2 \<longleftrightarrow> ds = []"
  by (simp_all add: deployEnvInput_def recordToPersist_def dnsDelegated_def mockInitDeps_def
      testInitOpts_def testApplication_def testInput_def testEnvironment_def
      importVPCConfig_def adjustVPCConfig_def)

text \<open>
  Two runs of the command of the tests: on an environment whose stack exists already the
  run registers and stores it and returns nil; when the deployment is refused the run
  returns that error after the deployment call and stores nothing.
\<close>

theorem initEnvOpts_Execute_persists_last_witness:
  "fst (initEnvOpts_Execute (mockInitDeps (Some stackExists)) testInitOpts) = None
 \<and> remoteCalls testInitOpts (snd (initEnvOpts_Execute (mockInitDeps (Some stackExists)) testInitOpts))
     = [StoreGetApplication ''phonetool'', IdentityGet, DeployEnvironment testInput,
        DeployerGetEnvironment ''phonetool'' ''test'', AddEnvToApp testApplication testEnvironment,
        StoreCreateEnvironment testEnvironment]
 \<and> fst (initEnvOpts_Execute (mockInitDeps (Some deployRefused)) testInitOpts) = Some deployRefused
 \<and> remoteCalls testInitOpts (snd (initEnvOpts_Execute (mockInitDeps (Some deployRefused)) testInitOpts))
     = [StoreGetApplication ''phonetool'', IdentityGet, DeployEnvironment testInput]
 \<and> persisted testInitOpts (snd (initEnvOpts_Execute (mockInitDeps (Some deployRefused)) testInitOpts))
     = []"
proof -
  have sel: "store_GetApplication (mockInitDeps r) = (\<lambda>a w. (Inr testApplication, w))"
    "identity_Get (mockInitDeps r)
       = (\<lambda>w. (Inr \<lparr> Account = ''1234567890'', RootUserARN = ''arn:root'' \<rparr>, w))"
    "envDeployer_DeployEnvironment (mockInitDeps r) = (\<lambda>inp w. (r, w))"
    "envDeployer_GetEnvironment (mockInitDeps r) = (\<lambda>a n w. (Inr testEnvironment, w))"
    "appDeployer_AddEnvToApp (mockInitDeps r) = (\<lambda>app env w. (None, w))"
    "store_CreateEnvironment (mockInitDeps r) = (\<lambda>env w. (None, w))" for r
    by (simp_all add: mockInitDeps_def)
  have nm: "appName testInitOpts = ''phonetool''" "name testInitOpts = ''test''"
    by (simp_all add: testInitOpts_def)
  have ex: "errors_As_ErrStackAlreadyExists stackExists"
    "\<not> errors_As_ErrStackAlreadyExists deployRefused"
    by (simp_all add: stackExists_def deployRefused_def)
  from initEnvOpts_Execute_persists_last [of "mockInitDeps (Some stackExists)" testInitOpts]
    initEnvOpts_Execute_persists_last [of "mockInitDeps (Some deployRefused)" testInitOpts]
  show ?thesis
    by (simp add: Let_def sel nm ex test_facts)
qed


section \<open>Verification: the environment controller\<close>

lemma foldl_setAdd_distinct:
  "distinct (acc @ names) \<Longrightarrow> foldl setAdd acc names = acc @ names"
proof (induction names arbitrary: acc)
  case Nil
  then show ?case by simp
next
  case (Cons n names)
  then have "setAdd acc n = acc @ [n]"
    by (simp add: setAdd_def)
  moreover from Cons.prems have "distinct ((acc @ [n]) @ names)"
    by simp
  ultimately show ?case
    using Cons.IH [of "acc @ [n]"] by simp
qed

lemma foldl_setAdd_props:
  assumes "distinct acc" and "\<forall>n\<in>set acc. P n" and "\<forall>n\<in>set names. P n"
  shows "distinct (foldl setAdd acc names) \<and> (\<forall>n\<in>set (foldl setAdd acc names). P n)
     \<and> set (foldl setAdd acc names) = set acc \<union> set names"
  using assms
proof (induction names arbitrary: acc)
  case Nil
  then show ?case by simp
next
  case (Cons n names)
  have "distinct (setAdd acc n)" "\<forall>m\<in>set (setAdd acc n). P m" "set (setAdd acc n) = insert n (set acc)"
    using Cons.prems by (auto simp add: setAdd_def)
  with Cons.IH [of "setAdd acc n"] Cons.prems(3) show ?case
    by auto
qed

lemma Index_comma_None: "CHR '','' \<notin> set n \<Longrightarrow> Index n '','' = None"
  by (induction n) auto

lemma Index_comma_first:
  "CHR '','' \<notin> set n \<Longrightarrow> Index (n @ CHR '','' # rest) '','' = Some (length n)"
  by (induction n) auto

lemma Index_comma_take:
  "Index s '','' = Some m \<Longrightarrow> CHR '','' \<notin> set (take m s)"
proof (induction s arbitrary: m)
  case Nil
  then show ?case by simp
next
  case (Cons c cs)
  then show ?case
    by (cases "c = CHR '',''") (auto split: if_splits)
qed

lemma Index_comma_None_iff: "Index s '','' = None \<Longrightarrow> CHR '','' \<notin> set s"
  by (induction s) (auto split: if_splits)

lemma Split_comma_unfold:
  "Split s '','' = (case Index s '','' of None \<Rightarrow> [s]
      | Some m \<Rightarrow> take m s # Split (drop (Suc m) s) '','')"
  by (subst Split.simps) (simp cong: option.case_cong)

lemma Split_comma_free: "\<forall>p\<in>set (Split s '',''). CHR '','' \<notin> set p"
proof (induction "length s" arbitrary: s rule: less_induct)
  case less
  show ?case
  proof (cases "Index s '',''")
    case None
    then show ?thesis
      using Index_comma_None_iff [of s] by (simp add: Split_comma_unfold)
  next
    case (Some m)
    from Index_Some_prefix [OF Some] have "drop m s \<noteq> []"
      by auto
    then have "m < length s"
      by simp
    then have "length (drop (Suc m) s) < length s"
      by simp
    from less [OF this] Some Index_comma_take [OF Some] show ?thesis
      by (simp add: Split_comma_unfold)
  qed
qed

lemma Split_Join_comma:
  assumes "names \<noteq> []" and "\<forall>n\<in>set names. CHR '','' \<notin> set n"
  shows "Split (Join names '','') '','' = names"
  using assms
proof (induction names)
  case Nil
  then show ?case by simp
next
  case (Cons a rest)
  show ?case
  proof (cases rest)
    case Nil
    with Cons.prems show ?thesis
      by (simp add: Split_comma_unfold [of a] Index_comma_None)
  next
    case (Cons b bs)
    with Cons.prems Cons.IH have ih: "Split (Join (b # bs) '','') '','' = b # bs"
      by simp
    have "Index (a @ CHR '','' # Join (b # bs) '','') '','' = Some (length a)"
      using Cons.prems by (simp add: Index_comma_first)
    with ih Cons show ?thesis
      by (simp add: Split_comma_unfold [of "a @ CHR '','' # Join (b # bs) '',''"])
  qed
qed

lemma parseSet_Join:
  assumes "wellFormedNames names"
  shows "parseSet (Join names '','') = names"
proof (cases "names = []")
  case True
  then show ?thesis
    by (simp add: parseSet_def Split_comma_unfold [of "[]"])
next
  case False
  from assms have "\<forall>n\<in>set names. CHR '','' \<notin> set n" and ne: "\<forall>n\<in>set names. n \<noteq> []"
    and d: "distinct names"
    by (auto simp add: wellFormedNames_def list_all_iff)
  from Split_Join_comma [OF False this(1)] ne have "filter (\<lambda>n. n \<noteq> []) (Split (Join names '','') '','') = names"
    by (simp add: filter_id_conv)
  with foldl_setAdd_distinct [of "[]" names] d show ?thesis
    by (simp add: parseSet_def)
qed

lemma wellFormed_setDelete: "wellFormedNames names \<Longrightarrow> wellFormedNames (setDelete names w)"
  by (auto simp add: wellFormedNames_def setDelete_def list_all_iff)

lemma wellFormed_setAdd:
  "wellFormedNames names \<Longrightarrow> w \<noteq> [] \<Longrightarrow> CHR '','' \<notin> set w \<Longrightarrow> wellFormedNames (setAdd names w)"
  by (auto simp add: wellFormedNames_def setAdd_def list_all_iff)

lemma wellFormed_parseSet: "wellFormedNames (parseSet v)"
proof -
  let ?xs = "filter (\<lambda>n. n \<noteq> []) (Split v '','')"
  have a: "\<forall>n\<in>set ?xs. n \<noteq> [] \<and> CHR '','' \<notin> set n"
    using Split_comma_free [of v] by simp
  have "distinct ([]::string list)" and "\<forall>n\<in>set ([]::string list). n \<noteq> [] \<and> CHR '','' \<notin> set n"
    by simp_all
  from foldl_setAdd_props [of "[]" "\<lambda>n. n \<noteq> [] \<and> CHR '','' \<notin> set n" ?xs, OF this a]
  have "distinct (foldl setAdd [] ?xs)"
    and "\<forall>n\<in>set (foldl setAdd [] ?xs). n \<noteq> [] \<and> CHR '','' \<notin> set n"
    by blast+
  then show ?thesis
    unfolding wellFormedNames_def parseSet_def list_all_iff by blast
qed

lemma parseSet_recompute:
  assumes "wellFormedNames (updateSet op w (parseSet v))"
  shows "parseSet (recompute v w op) = updateSet op w (parseSet v)"
  using parseSet_Join [OF assms] by (simp add: recompute_def)

lemma test_recompute_create:
  "recompute ''my-app,my-other-app'' ''mockWorkload'' ''Create'' = ''my-app,my-other-app,mockWorkload''"
  by code_simp

lemma test_recompute_delete:
  "recompute ''my-app,my-other-app'' ''my-app'' ''Delete'' = ''my-other-app''"
  by code_simp

lemma test_recompute_update:
  "recompute ''my-app,my-other-app'' ''my-app'' ''Update'' = ''my-app,my-other-app''"
  by code_simp

lemma test_parse: "parseSet ''my-app,my-other-app'' = [''my-app'', ''my-other-app'']"
  by code_simp

lemmas handler_defs = handler_def respond_def doDescribeStacks_def doUpdateStack_def doWaitFor_def
  recomputeParameters_def Let_def

text \<open>
  C1. For a Create or Update request whose recomputed parameters equal the parameters
  just read from the environment stack (and whose deadline has not passed before the
  first read), the handler makes one read and no update call, and its one response is
  SUCCESS with the outputs of the stack as Data. This is the case of a workload name that
  is a member of the set already: on a comma-joined list of distinct, non-empty names
  that holds the workload name, the recomputed value is the value itself.
\<close>

theorem handler_unchanged_parameters:
  assumes rt: "RequestType request = ''Create'' \<or> RequestType request = ''Update''"
    and time: "attempts ctx = Suc n"
    and read: "describeStacks api (EnvStack (Properties request)) w = (Inr (stack # others), w1)"
    and same: "recomputeParameters (RequestType request) (Workload (Properties request))
                 (Parameters (Properties request)) (StackParameters stack) = StackParameters stack"
  shows "handler api ctx request (w, [])
       = (w1, [DescribeStacks (EnvStack (Properties request)),
               PutResponse (ResponseURL request)
                 \<lparr> respStatus = SUCCESS, respReason = [],
                   respPhysicalResourceId = physicalResourceId ctx, respStackId = StackId request,
                   respRequestId = RequestId request,
                   respLogicalResourceId = LogicalResourceId request,
                   respData = Outputs stack \<rparr>])
     \<and> (\<forall>names. wellFormedNames names \<and> Workload (Properties request) \<in> set names \<longrightarrow>
           recompute (Join names '','') (Workload (Properties request)) (RequestType request)
             = Join names '','')"
proof
  show "handler api ctx request (w, [])
       = (w1, [DescribeStacks (EnvStack (Properties request)),
               PutResponse (ResponseURL request)
                 \<lparr> respStatus = SUCCESS, respReason = [],
                   respPhysicalResourceId = physicalResourceId ctx, respStackId = StackId request,
                   respRequestId = RequestId request,
                   respLogicalResourceId = LogicalResourceId request,
                   respData = Outputs stack \<rparr>])"
    using rt time read same
    by (auto simp add: handler_def respond_def doDescribeStacks_def Let_def)
  show "\<forall>names. wellFormedNames names \<and> Workload (Properties request) \<in> set names \<longrightarrow>
           recompute (Join names '','') (Workload (Properties request)) (RequestType request)
             = Join names '',''"
    using rt by (auto simp add: recompute_def parseSet_Join updateSet_def setAdd_def)
qed

theorem handler_unchanged_parameters_witness:
  "handler (mockApi [testStack] []) testContext (testRequest ''Update'' ''my-app'') (0, [])
     = (0, [DescribeStacks ''mockEnvStack'',
            PutResponse ''https://example.com/''
              \<lparr> respStatus = SUCCESS, respReason = [], respPhysicalResourceId = ''id'',
                respStackId = ''stack'', respRequestId = ''f4ef1b10'',
                respLogicalResourceId = ''logical'', respData = testOutputs \<rparr>])"
proof -
  have same: "recomputeParameters ''Update'' ''my-app'' [''ALBWorkloads''] testParams = testParams"
    by (simp add: recomputeParameters_def testParams_def test_recompute_update)
  from handler_unchanged_parameters [of "testRequest ''Update'' ''my-app''" testContext 4
      "mockApi [testStack] []" 0 testStack "[]" 0]
  show ?thesis
    using same by (simp add: testRequest_def testContext_def mockApi_def testStack_def)
qed

text \<open>
  C2. When the first update call is rejected because an update is in progress, the wait
  that follows succeeds, the stack read afresh still needs the change, the second update
  call is accepted, the wait for it succeeds and the stack can be read (and the deadline
  leaves room for two attempts), then the handler has made exactly two update calls, each
  followed by a wait for the update to complete, and its response is SUCCESS.
\<close>

theorem handler_retries_after_conflict:
  assumes rt: "op = ''Create'' \<or> op = ''Update'' \<or> op = ''Delete''"
    and req: "RequestType request = op" "EnvStack (Properties request) = stackName"
      "Workload (Properties request) = workload" "Parameters (Properties request) = names"
    and time: "attempts ctx = Suc (Suc n)"
    and read1: "describeStacks api stackName w = (Inr (stack1 # others1), w1)"
    and change1: "recomputeParameters op workload names (StackParameters stack1) \<noteq> StackParameters stack1"
    and busy: "updateStack api
        \<lparr> updStackName = stackName,
          updParameters = recomputeParameters op workload names (StackParameters stack1),
          UsePreviousTemplate = True \<rparr> w1 = (Some (UpdateInProgress msg), w2)"
    and wait1: "waitFor api ''stackUpdateComplete'' stackName w2 = (None, w3)"
    and read2: "describeStacks api stackName w3 = (Inr (stack2 # others2), w4)"
    and change2: "recomputeParameters op workload names (StackParameters stack2) \<noteq> StackParameters stack2"
    and accepted: "updateStack api
        \<lparr> updStackName = stackName,
          updParameters = recomputeParameters op workload names (StackParameters stack2),
          UsePreviousTemplate = True \<rparr> w4 = (None, w5)"
    and wait2: "waitFor api ''stackUpdateComplete'' stackName w5 = (None, w6)"
    and read3: "describeStacks api stackName w6 = (Inr (stack3 # others3), w7)"
  shows "handler api ctx request (w, [])
       = (w7, [DescribeStacks stackName,
               UpdateStack \<lparr> updStackName = stackName,
                 updParameters = recomputeParameters op workload names (StackParameters stack1),
                 UsePreviousTemplate = True \<rparr>,
               WaitFor ''stackUpdateComplete'' stackName,
               DescribeStacks stackName,
               UpdateStack \<lparr> updStackName = stackName,
                 updParameters = recomputeParameters op workload names (StackParameters stack2),
                 UsePreviousTemplate = True \<rparr>,
               WaitFor ''stackUpdateComplete'' stackName,
               DescribeStacks stackName,
               PutResponse (ResponseURL request)
                 \<lparr> respStatus = SUCCESS, respReason = [],
                   respPhysicalResourceId = physicalResourceId ctx, respStackId = StackId request,
                   respRequestId = RequestId request,
                   respLogicalResourceId = LogicalResourceId request,
                   respData = Outputs stack3 \<rparr>])
     \<and> length (filter isUpdateStack (snd (handler api ctx request (w, [])))) = 2"
proof -
  have loop2: "controlEnv api (Suc n) op stackName workload names
      (w3, [DescribeStacks stackName,
            UpdateStack \<lparr> updStackName = stackName,
              updParameters = recomputeParameters op workload names (StackParameters stack1),
              UsePreviousTemplate = True \<rparr>,
            WaitFor ''stackUpdateComplete'' stackName])
    = (Outputs_of (Outputs stack3),
       (w7, [DescribeStacks stackName,
             UpdateStack \<lparr> updStackName = stackName,
               updParameters = recomputeParameters op workload names (StackParameters stack1),
               UsePreviousTemplate = True \<rparr>,
             WaitFor ''stackUpdateComplete'' stackName,
             DescribeStacks stackName,
             UpdateStack \<lparr> updStackName = stackName,
               updParameters = recomputeParameters op workload names (StackParameters stack2),
               UsePreviousTemplate = True \<rparr>,
             WaitFor ''stackUpdateComplete'' stackName,
             DescribeStacks stackName]))"
    using read2 change2 accepted wait2 read3
    by (simp add: doDescribeStacks_def doUpdateStack_def doWaitFor_def Let_def)
  have loop1: "controlEnv api (Suc (Suc n)) op stackName workload names (w, [])
    = controlEnv api (Suc n) op stackName workload names
        (w3, [DescribeStacks stackName,
              UpdateStack \<lparr> updStackName = stackName,
                updParameters = recomputeParameters op workload names (StackParameters stack1),
                UsePreviousTemplate = True \<rparr>,
              WaitFor ''stackUpdateComplete'' stackName])"
    using read1 change1 busy wait1
    by (simp add: doDescribeStacks_def doUpdateStack_def doWaitFor_def Let_def
        del: controlEnv.simps(2)
        add: controlEnv.simps(2) [of api "Suc n" op stackName workload names "(w, [])"])
  from rt req time loop1 loop2 show ?thesis
    by (auto simp add: handler_def respond_def simp del: controlEnv.simps)
qed

lemma test_create_parameters:
  "recomputeParameters ''Update'' ''mockWorkload'' [''ALBWorkloads''] testParams
     = [(''ALBWorkloads'', ''my-app,my-other-app,mockWorkload'')]"
  by code_simp

theorem handler_retries_after_conflict_witness:
  "handler (mockApi [testStack] [inProgress]) testContext
     (testRequest ''Update'' ''mockWorkload'') (0, [])
   = (2, [DescribeStacks ''mockEnvStack'',
          UpdateStack \<lparr> updStackName = ''mockEnvStack'',
            updParameters = [(''ALBWorkloads'', ''my-app,my-other-app,mockWorkload'')],
            UsePreviousTemplate = True \<rparr>,
          WaitFor ''stackUpdateComplete'' ''mockEnvStack'',
          DescribeStacks ''mockEnvStack'',
          UpdateStack \<lparr> updStackName = ''mockEnvStack'',
            updParameters = [(''ALBWorkloads'', ''my-app,my-other-app,mockWorkload'')],
            UsePreviousTemplate = True \<rparr>,
          WaitFor ''stackUpdateComplete'' ''mockEnvStack'',
          DescribeStacks ''mockEnvStack'',
          PutResponse ''https://example.com/''
            \<lparr> respStatus = SUCCESS, respReason = [], respPhysicalResourceId = ''id'',
              respStackId = ''stack'', respRequestId = ''f4ef1b10'',
              respLogicalResourceId = ''logical'', respData = testOutputs \<rparr>])"
proof -
  let ?api = "mockApi [testStack] [inProgress]"
  let ?new = "recomputeParameters ''Update'' ''mockWorkload'' [''ALBWorkloads'']
      (StackParameters testStack)"
  have new: "?new = [(''ALBWorkloads'', ''my-app,my-other-app,mockWorkload'')]"
    by (simp add: testStack_def test_create_parameters)
  have change: "?new \<noteq> StackParameters testStack"
    unfolding new by (simp add: testStack_def testParams_def)
  have r: "describeStacks ?api ''mockEnvStack'' k = (Inr (testStack # []), k)" for k
    by (simp add: mockApi_def)
  have busy: "updateStack ?api \<lparr> updStackName = ''mockEnvStack'', updParameters = ?new,
      UsePreviousTemplate = True \<rparr> 0
      = (Some (UpdateInProgress
           ''Stack mockEnvStack is in UPDATE_IN_PROGRESS state and can not be updated''), 1)"
    by (simp add: mockApi_def inProgress_def)
  have ok: "updateStack ?api \<lparr> updStackName = ''mockEnvStack'', updParameters = ?new,
      UsePreviousTemplate = True \<rparr> 1 = (None, 2)"
    by (simp add: mockApi_def numeral_2_eq_2)
  have wt: "waitFor ?api ''stackUpdateComplete'' ''mockEnvStack'' k = (None, k)" for k
    by (simp add: mockApi_def)
  have time: "attempts testContext = Suc (Suc 3)"
    by (simp add: testContext_def)
  from handler_retries_after_conflict [where request = "testRequest ''Update'' ''mockWorkload''"
      and op = "''Update''" and ctx = testContext and api = ?api,
      OF _ _ _ _ _ time r change busy wt r change ok wt r]
  show ?thesis
    unfolding new by (simp add: testRequest_def testContext_def testStack_def)
qed

text \<open>
  The request of the repository's test \<open>unexpected update stack error\<close>: Create for
  \<open>mockWorkload\<close> on \<open>my-app,my-other-app\<close>. The set gains a member and the update call
  carries it, as the test requires.
\<close>

theorem create_adds_workload_counterexample:
  "parseSet (recompute ''my-app,my-other-app'' ''mockWorkload'' ''Create'')
     = [''my-app'', ''my-other-app'', ''mockWorkload'']
   \<and> parseSet ''my-app,my-other-app'' = [''my-app'', ''my-other-app'']
   \<and> snd (handler (mockApi [testStack] [OtherUpdateError ''not apple pie'']) testContext
          (testRequest ''Create'' ''mockWorkload'') (0, []))
     = [DescribeStacks ''mockEnvStack'',
        UpdateStack \<lparr> updStackName = ''mockEnvStack'',
          updParameters = [(''ALBWorkloads'', ''my-app,my-other-app,mockWorkload'')],
          UsePreviousTemplate = True \<rparr>,
        PutResponse ''https://example.com/''
          \<lparr> respStatus = FAILED, respReason = ''not apple pie'', respPhysicalResourceId = ''id'',
            respStackId = ''stack'', respRequestId = ''f4ef1b10'',
            respLogicalResourceId = ''logical'', respData = [] \<rparr>]"
  by code_simp

text \<open>
  C3, as amended. On Create, as on Update, the workload name is added to the set of each
  named parameter: the new set has the old members and the workload name, without
  duplicates; it is unchanged exactly when the name was a member, and otherwise the name
  is appended. For a non-empty name without a comma, the names parsed from the
  recomputed value are this new set. Parameters that are not named keep their value.
\<close>

theorem create_adds_workload:
  assumes "op = ''Create'' \<or> op = ''Update''"
  shows "set (updateSet op w names) = insert w (set names)
     \<and> (distinct names \<longrightarrow> distinct (updateSet op w names))
     \<and> (w \<in> set names \<longrightarrow> updateSet op w names = names)
     \<and> (w \<notin> set names \<longrightarrow> updateSet op w names = names @ [w])
     \<and> (w \<noteq> [] \<and> CHR '','' \<notin> set w \<longrightarrow>
           parseSet (recompute v w op) = updateSet op w (parseSet v))
     \<and> recomputeParameters op w parameterNames params
           = map (\<lambda>(k, val). if k \<in> set parameterNames
                                then (k, Join (updateSet op w (parseSet val)) '','')
                                else (k, val)) params"
proof -
  have "parseSet (recompute v w op) = updateSet op w (parseSet v)"
    if "w \<noteq> []" "CHR '','' \<notin> set w"
  proof (rule parseSet_recompute)
    show "wellFormedNames (updateSet op w (parseSet v))"
      using assms wellFormed_setAdd [OF wellFormed_parseSet that] by (auto simp add: updateSet_def)
  qed
  then show ?thesis
    using assms by (auto simp add: updateSet_def setAdd_def recomputeParameters_def recompute_def)
qed

theorem create_adds_workload_witness:
  "set (updateSet ''Create'' ''mockWorkload'' [''my-app'', ''my-other-app''])
     = {''my-app'', ''my-other-app'', ''mockWorkload''}
   \<and> updateSet ''Create'' ''mockWorkload'' [''my-app'', ''my-other-app'']
     = [''my-app'', ''my-other-app'', ''mockWorkload'']"
  using create_adds_workload [of "''Create''" "''mockWorkload''" "[''my-app'', ''my-other-app'']"]
  by auto

text \<open>
  C4. On Delete the names parsed from the recomputed value are the names parsed from the
  current value without the workload name, the others kept in their order. The value
  \<open>my-app,my-other-app\<close> becomes \<open>my-other-app\<close> for the workload \<open>my-app\<close>, and the
  update call of the handler carries it.
\<close>

theorem delete_removes_workload:
  "parseSet (recompute v w ''Delete'') = filter (\<lambda>m. m \<noteq> w) (parseSet v)
   \<and> recompute ''my-app,my-other-app'' ''my-app'' ''Delete'' = ''my-other-app''
   \<and> snd (handler (mockApi [testStack] []) testContext (testRequest ''Delete'' ''my-app'') (0, []))
     = [DescribeStacks ''mockEnvStack'',
        UpdateStack \<lparr> updStackName = ''mockEnvStack'',
          updParameters = [(''ALBWorkloads'', ''my-other-app'')],
          UsePreviousTemplate = True \<rparr>,
        WaitFor ''stackUpdateComplete'' ''mockEnvStack'',
        DescribeStacks ''mockEnvStack'',
        PutResponse ''https://example.com/''
          \<lparr> respStatus = SUCCESS, respReason = [], respPhysicalResourceId = ''id'',
            respStackId = ''stack'', respRequestId = ''f4ef1b10'',
            respLogicalResourceId = ''logical'', respData = testOutputs \<rparr>]"
proof (intro conjI)
  have "wellFormedNames (updateSet ''Delete'' w (parseSet v))"
    using wellFormed_setDelete [OF wellFormed_parseSet] by (simp add: updateSet_def)
  from parseSet_recompute [OF this]
  show "parseSet (recompute v w ''Delete'') = filter (\<lambda>m. m \<noteq> w) (parseSet v)"
    by (simp add: updateSet_def setDelete_def)
  show "recompute ''my-app,my-other-app'' ''my-app'' ''Delete'' = ''my-other-app''"
    by (rule test_recompute_delete)
  show "snd (handler (mockApi [testStack] []) testContext (testRequest ''Delete'' ''my-app'') (0, []))
     = [DescribeStacks ''mockEnvStack'',
        UpdateStack \<lparr> updStackName = ''mockEnvStack'',
          updParameters = [(''ALBWorkloads'', ''my-other-app'')],
          UsePreviousTemplate = True \<rparr>,
        WaitFor ''stackUpdateComplete'' ''mockEnvStack'',
        DescribeStacks ''mockEnvStack'',
        PutResponse ''https://example.com/''
          \<lparr> respStatus = SUCCESS, respReason = [], respPhysicalResourceId = ''id'',
            respStackId = ''stack'', respRequestId = ''f4ef1b10'',
            respLogicalResourceId = ''logical'', respData = testOutputs \<rparr>]"
    by code_simp
qed

theorem delete_removes_workload_witness:
  "parseSet (recompute ''my-app,my-other-app'' ''my-app'' ''Delete'') = [''my-other-app'']"
  using delete_removes_workload [of "''my-app,my-other-app''" "''my-app''", THEN conjunct1]
  by (simp add: test_parse)

end
